theory Spec2Isabelle
  imports Main "HOL-Library.Sublist"
begin

section \<open>Errors\<close>

text \<open>
  A JavaScript error object is modelled by the two properties the upgrader reads:
  its \<open>name\<close> (\<^verbatim>\<open>err.name !== 'UnhandledProtocolError'\<close>) and its
  \<open>message\<close> (\<^verbatim>\<open>new EncryptionFailedError(err.message)\<close>).  Every error class
  the source imports carries its class name as \<open>name\<close>.
\<close>

datatype error = Error (name: string) (message: string)

definition JsError :: "string \<Rightarrow> error" where
  "JsError m = Error ''Error'' m"

definition InvalidMultiaddrError :: "string \<Rightarrow> error" where
  "InvalidMultiaddrError m = Error ''InvalidMultiaddrError'' m"

definition InvalidPeerIdError :: "string \<Rightarrow> error" where
  "InvalidPeerIdError m = Error ''InvalidPeerIdError'' m"

definition TooManyInboundProtocolStreamsError :: "string \<Rightarrow> error" where
  "TooManyInboundProtocolStreamsError m = Error ''TooManyInboundProtocolStreamsError'' m"

definition TooManyOutboundProtocolStreamsError :: "string \<Rightarrow> error" where
  "TooManyOutboundProtocolStreamsError m = Error ''TooManyOutboundProtocolStreamsError'' m"

definition LimitedConnectionError :: "string \<Rightarrow> error" where
  "LimitedConnectionError m = Error ''LimitedConnectionError'' m"

definition TimeoutError :: "string \<Rightarrow> error" where
  "TimeoutError m = Error ''TimeoutError'' m"

definition ConnectionDeniedError :: "string \<Rightarrow> error" where
  "ConnectionDeniedError m = Error ''ConnectionDeniedError'' m"

definition ConnectionInterceptedError :: "string \<Rightarrow> error" where
  "ConnectionInterceptedError m = Error ''ConnectionInterceptedError'' m"

definition EncryptionFailedError :: "string \<Rightarrow> error" where
  "EncryptionFailedError m = Error ''EncryptionFailedError'' m"

definition MuxerUnavailableError :: "string \<Rightarrow> error" where
  "MuxerUnavailableError m = Error ''MuxerUnavailableError'' m"

text \<open>\<^verbatim>\<open>new AbortError()\<close>: the class's default message.\<close>

definition AbortError :: error where
  "AbortError = Error ''AbortError'' ''The operation was aborted''"

text \<open>\<^verbatim>\<open>String(err)\<close> of an error object (\<^verbatim>\<open>Error.prototype.toString\<close>).\<close>

definition String_of_error :: "error \<Rightarrow> string" where
  "String_of_error err =
     (if name err = [] then message err
      else if message err = [] then name err
      else name err @ '': '' @ message err)"

text \<open>
  Stream limits and stream counts are integers; a template literal prints them in
  decimal.
\<close>

fun show_nat :: "nat \<Rightarrow> string" where
  "show_nat n =
     (if n < 10 then [''0123456789'' ! n]
      else show_nat (n div 10) @ [''0123456789'' ! (n mod 10)])"

definition show_int :: "int \<Rightarrow> string" where
  "show_int i = (if i < 0 then ''-'' @ show_nat (nat (- i)) else show_nat (nat i))"

section \<open>Observable effects\<close>

text \<open>
  The gating checkpoints of an upgrade, by the name of the method that is called:
  the connection manager's admission, the gater's \<open>denyInboundConnection\<close>, and the
  five gater methods \<^verbatim>\<open>shouldBlockConnection\<close> dispatches on
  (\<^verbatim>\<open>ConnectionDeniedType\<close>).
\<close>

datatype ConnectionDeniedType =
    denyOutboundConnection
  | denyInboundEncryptedConnection
  | denyOutboundEncryptedConnection
  | denyInboundUpgradedConnection
  | denyOutboundUpgradedConnection

fun connectionType_name :: "ConnectionDeniedType \<Rightarrow> string" where
  "connectionType_name denyOutboundConnection = ''denyOutboundConnection''"
| "connectionType_name denyInboundEncryptedConnection = ''denyInboundEncryptedConnection''"
| "connectionType_name denyOutboundEncryptedConnection = ''denyOutboundEncryptedConnection''"
| "connectionType_name denyInboundUpgradedConnection = ''denyInboundUpgradedConnection''"
| "connectionType_name denyOutboundUpgradedConnection = ''denyOutboundUpgradedConnection''"

datatype checkpoint =
    acceptIncomingConnection
  | denyInboundConnection
  | gater ConnectionDeniedType

text \<open>
  Every call the upgrader makes on a collaborator leaves an event in the trace of the
  run, in program order.  A checkpoint's event records what the call returned.
  Logging and metrics calls return nothing the upgrader uses and leave no event.
\<close>

datatype event =
    Checkpoint checkpoint "error + bool"
  | TimeoutListenerAdded
  | TimeoutListenerRemoved
  | AfterUpgradeInbound
  | Progress string
  | Protect
  | MssHandle "string list"
  | MssSelect "string list"
  | SecureInbound string
  | SecureOutbound string
  | MaConnClose "error option"
  | MaConnAbort error
  | CreateStreamMuxer
  | PipeMuxer
  | TimelineUpgraded nat
  | DispatchEvent string
  | MuxerNewStream
  | StreamAbort string error
  | StreamClose string
  | PeerStoreMerge string "string list"
  | HandlerCalled string string
  | NetConnect "bool option" "bool option"
  | SocketDestroy
  | AbortListenerAdded
  | AbortListenerRemoved
  | UpgradeOutbound
  | ConnectionClose

text \<open>
  An operation of the program yields the events it caused and either the error it threw
  (\<open>Inl\<close>) or the value it returned (\<open>Inr\<close>).
\<close>

type_synonym 'a io = "event list \<times> (error + 'a)"

definition ret :: "'a \<Rightarrow> 'a io" where
  "ret x = ([], Inr x)"

definition throw :: "error \<Rightarrow> 'a io" where
  "throw err = ([], Inl err)"

definition emit :: "event \<Rightarrow> unit io" where
  "emit ev = ([ev], Inr ())"

text \<open>\<open>await ev r\<close>: a call on a collaborator that settles with \<open>r\<close>.\<close>

definition await :: "event \<Rightarrow> error + 'a \<Rightarrow> 'a io" where
  "await ev r = ([ev], r)"

definition bind_io :: "'a io \<Rightarrow> ('a \<Rightarrow> 'b io) \<Rightarrow> 'b io" where
  "bind_io m f =
     (case m of
        (t, Inl err) \<Rightarrow> (t, Inl err)
      | (t, Inr x) \<Rightarrow> (case f x of (t', r) \<Rightarrow> (t @ t', r)))"

definition try_catch :: "'a io \<Rightarrow> (error \<Rightarrow> 'a io) \<Rightarrow> 'a io" where
  "try_catch m h =
     (case m of
        (t, Inl err) \<Rightarrow> (case h err of (t', r) \<Rightarrow> (t @ t', r))
      | (t, Inr x) \<Rightarrow> (t, Inr x))"

text \<open>The \<^verbatim>\<open>finally\<close> block runs on every exit of the body; it does not throw here.\<close>

definition try_finally :: "'a io \<Rightarrow> event list \<Rightarrow> 'a io" where
  "try_finally m fin = (case m of (t, r) \<Rightarrow> (t @ fin, r))"

section \<open>Data model\<close>

type_synonym PeerId = string

datatype Direction = inbound | outbound

text \<open>\<open>getPeerId\<close> is what \<^verbatim>\<open>remoteAddr.getPeerId()\<close> returns (\<open>None\<close> for \<^verbatim>\<open>null\<close>).\<close>

record Multiaddr =
  ma_string :: string
  getPeerId :: "string option"

record Timeline =
  timeline_open :: nat
  timeline_upgraded :: "nat option"
  timeline_close :: "nat option"

record MultiaddrConnection =
  remoteAddr :: Multiaddr
  timeline :: Timeline

text \<open>
  \<^verbatim>\<open>{ ...protectedConn, ...encryptedConn }\<close>: both operands are whole
  \<open>MultiaddrConnection\<close> objects, so every property of the first is overwritten.
\<close>

definition spread :: "MultiaddrConnection \<Rightarrow> MultiaddrConnection \<Rightarrow> MultiaddrConnection" where
  "spread a b = b"

text \<open>
  Byte channels and method closures of a stream are opaque; a \<open>handle\<close> names one.
\<close>

type_synonym handle = nat

record Stream =
  stream_id :: string
  stream_direction :: Direction
  stream_protocol :: "string option"
  stream_timeline_close :: "nat option"
  stream_source :: handle
  stream_sink :: handle
  stream_closeWrite :: handle
  stream_closeRead :: handle
  stream_close :: handle

text \<open>The stream multistream-select hands back after negotiating on a muxed stream.\<close>

record NegotiatedStream =
  neg_source :: handle
  neg_sink :: handle
  neg_closeWrite :: "handle option"
  neg_closeRead :: "handle option"
  neg_close :: "handle option"

record StreamMuxer =
  muxer_protocol :: string
  muxer_streams :: "Stream list"
  muxer_newStream :: "error + Stream"

text \<open>\<open>createStreamMuxer\<close> is the muxer the factory creates for the connection.\<close>

record StreamMuxerFactory =
  factory_protocol :: string
  createStreamMuxer :: StreamMuxer

record ConnectionLimits =
  limit_bytes :: "int option"
  limit_seconds :: "int option"

record SecuredConnection =
  secured_conn :: MultiaddrConnection
  secured_remotePeer :: PeerId

record CryptoResult =
  crypto_conn :: MultiaddrConnection
  crypto_remotePeer :: PeerId
  crypto_protocol :: string

record ConnectionEncrypter =
  encrypter_protocol :: string
  secureInbound :: "MultiaddrConnection \<Rightarrow> error + SecuredConnection"
  secureOutbound :: "MultiaddrConnection \<Rightarrow> PeerId option \<Rightarrow> error + SecuredConnection"

text \<open>
  \<^verbatim>\<open>UpgraderOptions\<close>.  A flag that is \<^verbatim>\<open>undefined\<close> is \<open>False\<close> (the source tests
  \<^verbatim>\<open>!== true\<close>); \<open>onProgress\<close> says whether a progress callback was passed;
  \<open>opt_remotePeer\<close> is a peer id the caller expects (the \<^verbatim>\<open>remotePeer\<close> of the options
  handed on to \<^verbatim>\<open>secureOutbound\<close>).  A call without options passes \<open>no_options\<close>.
\<close>

record UpgraderOptions =
  skipEncryption :: bool
  skipProtection :: bool
  opt_muxerFactory :: "StreamMuxerFactory option"
  opt_limits :: "ConnectionLimits option"
  onProgress :: bool
  opt_remotePeer :: "PeerId option"

definition no_options :: UpgraderOptions where
  "no_options = \<lparr>skipEncryption = False, skipProtection = False, opt_muxerFactory = None,
     opt_limits = None, onProgress = False, opt_remotePeer = None\<rparr>"

text \<open>
  The connection, as \<^verbatim>\<open>_createConnection\<close> initialises it: the fields and closures it
  passes to \<^verbatim>\<open>createConnection\<close> of \<^verbatim>\<open>./connection/index.js\<close>.  The closures
  \<^verbatim>\<open>newStream\<close>, \<^verbatim>\<open>getStreams\<close>, \<^verbatim>\<open>close\<close> and \<^verbatim>\<open>abort\<close> capture the variable
  \<^verbatim>\<open>muxer\<close>; \<open>conn_muxer\<close> is that variable.
\<close>

record Connection =
  conn_remoteAddr :: Multiaddr
  conn_remotePeer :: PeerId
  conn_status :: string
  conn_direction :: Direction
  conn_timeline :: Timeline
  conn_multiplexer :: "string option"
  conn_encryption :: string
  conn_limits :: "ConnectionLimits option"
  conn_muxer :: "StreamMuxer option"

subsection \<open>Collaborators\<close>

text \<open>A gater method that is absent is \<open>None\<close>.\<close>

record ConnectionGater =
  gater_denyInboundConnection :: "(MultiaddrConnection \<Rightarrow> error + bool) option"
  gater_denyOutboundConnection :: "(PeerId \<Rightarrow> MultiaddrConnection \<Rightarrow> error + bool) option"
  gater_denyInboundEncryptedConnection :: "(PeerId \<Rightarrow> MultiaddrConnection \<Rightarrow> error + bool) option"
  gater_denyOutboundEncryptedConnection :: "(PeerId \<Rightarrow> MultiaddrConnection \<Rightarrow> error + bool) option"
  gater_denyInboundUpgradedConnection :: "(PeerId \<Rightarrow> MultiaddrConnection \<Rightarrow> error + bool) option"
  gater_denyOutboundUpgradedConnection :: "(PeerId \<Rightarrow> MultiaddrConnection \<Rightarrow> error + bool) option"

text \<open>\<^verbatim>\<open>this.components.connectionGater[connectionType]\<close>\<close>

fun gater_method ::
  "ConnectionGater \<Rightarrow> ConnectionDeniedType \<Rightarrow> (PeerId \<Rightarrow> MultiaddrConnection \<Rightarrow> error + bool) option"
where
  "gater_method g denyOutboundConnection = gater_denyOutboundConnection g"
| "gater_method g denyInboundEncryptedConnection = gater_denyInboundEncryptedConnection g"
| "gater_method g denyOutboundEncryptedConnection = gater_denyOutboundEncryptedConnection g"
| "gater_method g denyInboundUpgradedConnection = gater_denyInboundUpgradedConnection g"
| "gater_method g denyOutboundUpgradedConnection = gater_denyOutboundUpgradedConnection g"

record StreamHandlerOptions =
  maxInboundStreams :: "int option"
  maxOutboundStreams :: "int option"
  runOnLimitedConnection :: "bool option"

text \<open>\<open>handler\<close>: the error the handler throws when called, if any.\<close>

record StreamHandlerRecord =
  handler :: "Connection \<Rightarrow> Stream \<Rightarrow> error option"
  handler_options :: StreamHandlerOptions

record Registrar =
  getProtocols :: "string list"
  getHandler :: "string \<Rightarrow> error + StreamHandlerRecord"

record Components =
  connectionManager_acceptIncomingConnection :: "MultiaddrConnection \<Rightarrow> error + bool"
  connectionGater :: ConnectionGater
  connectionProtector :: "(MultiaddrConnection \<Rightarrow> error + MultiaddrConnection) option"
  registrar :: Registrar
  peerStore_merge :: "PeerId \<Rightarrow> string list \<Rightarrow> error + unit"

text \<open>
  The signal of a \<^verbatim>\<open>newStream\<close> call: the caller's own, or the one the upgrader makes
  with \<^verbatim>\<open>AbortSignal.timeout\<close>.
\<close>

datatype AbortSignal = CallerSignal | TimeoutSignal nat

record NewStreamOptions =
  signal :: "AbortSignal option"
  opt_maxOutboundStreams :: "int option"

text \<open>
  What the upgrader imports from other packages: multistream-select on a connection and
  on a muxed stream, \<^verbatim>\<open>peerIdFromString\<close>, the clock, the state in which a muxed
  stream's own \<^verbatim>\<open>abort(err)\<close> leaves the stream, and how a connection's own
  \<^verbatim>\<open>close(err)\<close> settles.  The timer of \<^verbatim>\<open>AbortSignal.timeout\<close> runs in real
  time: \<open>timeout_fires\<close> says during which action of the inbound upgrade's \<^verbatim>\<open>try\<close>
  block it fires (counted from 0), and is \<open>None\<close> when it does not fire.
\<close>

record Platform =
  mss_handle :: "MultiaddrConnection \<Rightarrow> string list \<Rightarrow> error + MultiaddrConnection \<times> string"
  mss_select :: "MultiaddrConnection \<Rightarrow> string list \<Rightarrow> error + MultiaddrConnection \<times> string"
  mss_handle_stream :: "Stream \<Rightarrow> string list \<Rightarrow> error + NegotiatedStream \<times> string"
  mss_select_stream :: "Stream \<Rightarrow> string list \<Rightarrow> NewStreamOptions \<Rightarrow> error + NegotiatedStream \<times> string"
  peerIdFromString :: "string \<Rightarrow> error + PeerId"
  Date_now :: nat
  stream_abort :: "error \<Rightarrow> Stream \<Rightarrow> Stream"
  maConn_close :: "MultiaddrConnection \<Rightarrow> error option \<Rightarrow> error + unit"
  timeout_fires :: "nat option"

section \<open>The upgrader\<close>

text \<open>
  A JavaScript \<^verbatim>\<open>Map\<close> keeps its keys in insertion order: a list of pairs with
  distinct keys.  \<^verbatim>\<open>set\<close> on a key that is present replaces its value in place.
\<close>

fun Map_set :: "'k \<Rightarrow> 'v \<Rightarrow> ('k \<times> 'v) list \<Rightarrow> ('k \<times> 'v) list" where
  "Map_set k v [] = [(k, v)]"
| "Map_set k v (p # ps) = (if fst p = k then (k, v) # ps else p # Map_set k v ps)"

definition Map_get :: "('k \<times> 'v) list \<Rightarrow> 'k \<Rightarrow> 'v option" where
  "Map_get m k = map_of m k"

definition Map_keys :: "('k \<times> 'v) list \<Rightarrow> 'k list" where
  "Map_keys m = map fst m"

record UpgraderInit =
  init_connectionEncrypters :: "ConnectionEncrypter list"
  init_streamMuxers :: "StreamMuxerFactory list"
  init_inboundUpgradeTimeout :: "nat option"

record DefaultUpgrader =
  components :: Components
  connectionEncrypters :: "(string \<times> ConnectionEncrypter) list"
  streamMuxers :: "(string \<times> StreamMuxerFactory) list"
  inboundUpgradeTimeout :: nat

text \<open>
  Modelled from the spec: the constant \<^verbatim>\<open>INBOUND_UPGRADE_TIMEOUT\<close> is imported from
  \<^verbatim>\<open>connection-manager/constants.js\<close>, which is not among the sources; the spec gives
  the default as 30000 ms.
\<close>

definition INBOUND_UPGRADE_TIMEOUT :: nat where
  "INBOUND_UPGRADE_TIMEOUT = 30000"

definition new_DefaultUpgrader :: "Components \<Rightarrow> UpgraderInit \<Rightarrow> DefaultUpgrader" where
  "new_DefaultUpgrader comps init =
     \<lparr>components = comps,
      connectionEncrypters =
        foldl (\<lambda>m encrypter. Map_set (encrypter_protocol encrypter) encrypter m) []
          (init_connectionEncrypters init),
      streamMuxers =
        foldl (\<lambda>m muxer. Map_set (factory_protocol muxer) muxer m) [] (init_streamMuxers init),
      inboundUpgradeTimeout =
        (case init_inboundUpgradeTimeout init of
           Some ms \<Rightarrow> ms
         | None \<Rightarrow> INBOUND_UPGRADE_TIMEOUT)\<rparr>"

text \<open>A synchronous call that may throw, and a call on a gating checkpoint.\<close>

definition attempt :: "error + 'a \<Rightarrow> 'a io" where
  "attempt r = ([], r)"

definition await_checkpoint :: "checkpoint \<Rightarrow> error + bool \<Rightarrow> bool io" where
  "await_checkpoint cp r = ([Checkpoint cp r], r)"

definition shouldBlockConnection ::
  "DefaultUpgrader \<Rightarrow> PeerId \<Rightarrow> MultiaddrConnection \<Rightarrow> ConnectionDeniedType \<Rightarrow> unit io"
where
  "shouldBlockConnection u remotePeer maConn connectionType =
     (case gater_method (connectionGater (components u)) connectionType of
        None \<Rightarrow> ret ()
      | Some gaterMethod \<Rightarrow>
          bind_io (await_checkpoint (gater connectionType) (gaterMethod remotePeer maConn))
            (\<lambda>denied.
               if denied then
                 throw (ConnectionInterceptedError
                   (''The multiaddr connection is blocked by gater.''
                      @ connectionType_name connectionType))
               else ret ()))"

text \<open>\<^verbatim>\<open>_encryptInbound\<close> and \<^verbatim>\<open>_encryptOutbound\<close>\<close>

definition encryptInbound ::
  "Platform \<Rightarrow> DefaultUpgrader \<Rightarrow> MultiaddrConnection \<Rightarrow> CryptoResult io"
where
  "encryptInbound pf u connection =
     (let protocols = Map_keys (connectionEncrypters u) in
      try_catch
        (bind_io (await (MssHandle protocols) (mss_handle pf connection protocols))
           (\<lambda>(stream, protocol).
              case Map_get (connectionEncrypters u) protocol of
                None \<Rightarrow> throw (JsError (''no crypto module found for '' @ protocol))
              | Some encrypter \<Rightarrow>
                  bind_io (await (SecureInbound protocol) (secureInbound encrypter stream))
                    (\<lambda>secured.
                       ret \<lparr>crypto_conn = secured_conn secured,
                            crypto_remotePeer = secured_remotePeer secured,
                            crypto_protocol = protocol\<rparr>)))
        (\<lambda>err. throw (EncryptionFailedError (message err))))"

definition encryptOutbound ::
  "Platform \<Rightarrow> DefaultUpgrader \<Rightarrow> MultiaddrConnection \<Rightarrow> UpgraderOptions \<Rightarrow> CryptoResult io"
where
  "encryptOutbound pf u connection options =
     (let protocols = Map_keys (connectionEncrypters u) in
      try_catch
        (bind_io (await (MssSelect protocols) (mss_select pf connection protocols))
           (\<lambda>(stream, protocol).
              case Map_get (connectionEncrypters u) protocol of
                None \<Rightarrow> throw (JsError (''no crypto module found for '' @ protocol))
              | Some encrypter \<Rightarrow>
                  bind_io
                    (await (SecureOutbound protocol)
                       (secureOutbound encrypter stream (opt_remotePeer options)))
                    (\<lambda>secured.
                       ret \<lparr>crypto_conn = secured_conn secured,
                            crypto_remotePeer = secured_remotePeer secured,
                            crypto_protocol = protocol\<rparr>)))
        (\<lambda>err. throw (EncryptionFailedError (message err))))"

text \<open>\<^verbatim>\<open>_multiplexOutbound\<close> and \<^verbatim>\<open>_multiplexInbound\<close>\<close>

definition multiplexOutbound ::
  "Platform \<Rightarrow> MultiaddrConnection \<Rightarrow> (string \<times> StreamMuxerFactory) list
     \<Rightarrow> (MultiaddrConnection \<times> StreamMuxerFactory option) io"
where
  "multiplexOutbound pf connection muxers =
     (let protocols = Map_keys muxers in
      try_catch
        (bind_io (await (MssSelect protocols) (mss_select pf connection protocols))
           (\<lambda>(stream, protocol). ret (stream, Map_get muxers protocol)))
        (\<lambda>err. throw (MuxerUnavailableError (String_of_error err))))"

definition multiplexInbound ::
  "Platform \<Rightarrow> MultiaddrConnection \<Rightarrow> (string \<times> StreamMuxerFactory) list
     \<Rightarrow> (MultiaddrConnection \<times> StreamMuxerFactory option) io"
where
  "multiplexInbound pf connection muxers =
     (let protocols = Map_keys muxers in
      try_catch
        (bind_io (await (MssHandle protocols) (mss_handle pf connection protocols))
           (\<lambda>(stream, protocol). ret (stream, Map_get muxers protocol)))
        (\<lambda>err. throw (MuxerUnavailableError (String_of_error err))))"

subsection \<open>Assembling the connection\<close>

record CreateConnectionOptions =
  cc_cryptoProtocol :: string
  cc_direction :: Direction
  cc_maConn :: MultiaddrConnection
  cc_upgradedConn :: MultiaddrConnection
  cc_remotePeer :: PeerId
  cc_muxerFactory :: "StreamMuxerFactory option"
  cc_limits :: "ConnectionLimits option"

text \<open>
  \<^verbatim>\<open>_createConnection\<close>.  With a muxer factory the muxer is created and the two
  copy tasks are started; the timeline's \<open>upgraded\<close> time is set; the connection is
  built with \<^verbatim>\<open>multiplexer: muxer?.protocol\<close> and \<^verbatim>\<open>connection:open\<close> is dispatched.
  The result is what \<^verbatim>\<open>_createConnection\<close> hands to \<^verbatim>\<open>createConnection\<close> of
  \<^verbatim>\<open>./connection/index.js\<close>; the object built from it is modelled below
  (\<open>connection_newStream\<close>).
\<close>

definition createConnection :: "Platform \<Rightarrow> CreateConnectionOptions \<Rightarrow> Connection io" where
  "createConnection pf opts =
     (let muxer = map_option createStreamMuxer (cc_muxerFactory opts);
          maConn = cc_maConn opts;
          tl = (timeline maConn)\<lparr>timeline_upgraded := Some (Date_now pf)\<rparr>;
          connection =
            \<lparr>conn_remoteAddr = remoteAddr maConn,
             conn_remotePeer = cc_remotePeer opts,
             conn_status = ''open'',
             conn_direction = cc_direction opts,
             conn_timeline = tl,
             conn_multiplexer = map_option muxer_protocol muxer,
             conn_encryption = cc_cryptoProtocol opts,
             conn_limits = cc_limits opts,
             conn_muxer = muxer\<rparr>
      in ((if cc_muxerFactory opts \<noteq> None then [CreateStreamMuxer, PipeMuxer] else [])
            @ [TimelineUpgraded (Date_now pf), DispatchEvent ''connection:open''],
          Inr connection))"

subsection \<open>Inbound upgrade\<close>

text \<open>The protector stage, the same on both directions.\<close>

definition protect :: "DefaultUpgrader \<Rightarrow> MultiaddrConnection \<Rightarrow> UpgraderOptions \<Rightarrow> MultiaddrConnection io" where
  "protect u maConn opts =
     (if \<not> skipProtection opts then
        (case connectionProtector (components u) of
           Some protector \<Rightarrow> await Protect (protector maConn)
         | None \<Rightarrow> ret maConn)
      else ret maConn)"

definition progress :: "UpgraderOptions \<Rightarrow> string \<Rightarrow> unit io" where
  "progress opts ev = (if onProgress opts then emit (Progress ev) else ret ())"

text \<open>
  The inner \<^verbatim>\<open>try\<close> block of \<^verbatim>\<open>upgradeInbound\<close>: encryption (or the peer id of the
  remote address when encryption is skipped), then the choice of a muxer.  It yields
  \<^verbatim>\<open>remotePeer\<close>, \<^verbatim>\<open>cryptoProtocol\<close>, \<^verbatim>\<open>upgradedConn\<close> and \<^verbatim>\<open>muxerFactory\<close>.
\<close>

definition upgradeInbound_inner ::
  "Platform \<Rightarrow> DefaultUpgrader \<Rightarrow> MultiaddrConnection \<Rightarrow> MultiaddrConnection \<Rightarrow> UpgraderOptions
     \<Rightarrow> (PeerId \<times> string \<times> MultiaddrConnection \<times> StreamMuxerFactory option) io"
where
  "upgradeInbound_inner pf u maConn protectedConn opts =
     bind_io
       (if \<not> skipEncryption opts then
          bind_io (progress opts ''upgrader:encrypt-inbound-connection'') (\<lambda>_.
          bind_io (encryptInbound pf u protectedConn) (\<lambda>cr.
          bind_io
            (shouldBlockConnection u (crypto_remotePeer cr)
               (spread protectedConn (crypto_conn cr)) denyInboundEncryptedConnection) (\<lambda>_.
          ret (crypto_conn cr, crypto_remotePeer cr, crypto_protocol cr))))
        else
          (case getPeerId (remoteAddr maConn) of
             None \<Rightarrow>
               throw (InvalidMultiaddrError
                 ''inbound connection that skipped encryption must have a peer id'')
           | Some idStr \<Rightarrow>
               bind_io (attempt (peerIdFromString pf idStr)) (\<lambda>remotePeerId.
               ret (protectedConn, remotePeerId, ''native''))))
       (\<lambda>(encryptedConn, remotePeer, cryptoProtocol).
          case opt_muxerFactory opts of
            Some mf \<Rightarrow> ret (remotePeer, cryptoProtocol, encryptedConn, Some mf)
          | None \<Rightarrow>
              if length (streamMuxers u) > 0 then
                bind_io (progress opts ''upgrader:multiplex-inbound-connection'') (\<lambda>_.
                bind_io (multiplexInbound pf (spread protectedConn encryptedConn) (streamMuxers u))
                  (\<lambda>(stream, muxerFactory).
                     ret (remotePeer, cryptoProtocol, stream, muxerFactory)))
              else ret (remotePeer, cryptoProtocol, encryptedConn, None))"

text \<open>The outer \<^verbatim>\<open>try\<close> block of \<^verbatim>\<open>upgradeInbound\<close>, whose \<^verbatim>\<open>finally\<close> follows.\<close>

definition upgradeInbound_try ::
  "Platform \<Rightarrow> DefaultUpgrader \<Rightarrow> MultiaddrConnection \<Rightarrow> UpgraderOptions \<Rightarrow> Connection io"
where
  "upgradeInbound_try pf u maConn opts =
     bind_io
       (case gater_denyInboundConnection (connectionGater (components u)) of
          None \<Rightarrow> ret False
        | Some deny \<Rightarrow> await_checkpoint denyInboundConnection (deny maConn)) (\<lambda>denied.
     if denied then
       throw (ConnectionInterceptedError
         ''The multiaddr connection is blocked by gater.acceptConnection'')
     else
       bind_io (protect u maConn opts) (\<lambda>protectedConn.
       bind_io
         (try_catch (upgradeInbound_inner pf u maConn protectedConn opts) (\<lambda>err. throw err))
         (\<lambda>(remotePeer, cryptoProtocol, upgradedConn, muxerFactory).
       bind_io (shouldBlockConnection u remotePeer maConn denyInboundUpgradedConnection) (\<lambda>_.
       createConnection pf
         \<lparr>cc_cryptoProtocol = cryptoProtocol,
          cc_direction = inbound,
          cc_maConn = maConn,
          cc_upgradedConn = upgradedConn,
          cc_remotePeer = remotePeer,
          cc_muxerFactory = muxerFactory,
          cc_limits = opt_limits opts\<rparr>))))"

text \<open>
  The listener \<^verbatim>\<open>onAbort\<close> of the inbound upgrade's timer: when the timer fires while
  action \<open>n\<close> of the block is pending, \<open>ev\<close> happens right after that action has
  begun; a timer that fires after the block has ended finds the listener removed.  What
  the pending call then returns is its collaborator's outcome, as everywhere.
\<close>

definition on_timeout :: "nat option \<Rightarrow> event \<Rightarrow> 'a io \<Rightarrow> 'a io" where
  "on_timeout fires ev m =
     (case fires of
        None \<Rightarrow> m
      | Some n \<Rightarrow>
          (case m of
             (t, r) \<Rightarrow>
               if n < length t then (take (Suc n) t @ ev # drop (Suc n) t, r) else (t, r)))"

text \<open>
  \<^verbatim>\<open>upgradeInbound\<close>.  The admission check stands before the \<^verbatim>\<open>try\<close>; the timeout
  listener is registered, which aborts \<^verbatim>\<open>maConn\<close> with a \<^verbatim>\<open>TimeoutError\<close> when the timer
  fires; the \<^verbatim>\<open>finally\<close> block removes the listener and calls
  \<^verbatim>\<open>connectionManager.afterUpgradeInbound()\<close>.
\<close>

definition upgradeInbound ::
  "Platform \<Rightarrow> DefaultUpgrader \<Rightarrow> MultiaddrConnection \<Rightarrow> UpgraderOptions \<Rightarrow> Connection io"
where
  "upgradeInbound pf u maConn opts =
     bind_io
       (await_checkpoint acceptIncomingConnection
          (connectionManager_acceptIncomingConnection (components u) maConn))
       (\<lambda>accept.
          if \<not> accept then throw (ConnectionDeniedError ''connection denied'')
          else
            bind_io (emit TimeoutListenerAdded) (\<lambda>_.
            try_finally
              (on_timeout (timeout_fires pf)
                 (MaConnAbort (TimeoutError ''inbound upgrade timeout''))
                 (upgradeInbound_try pf u maConn opts))
              [TimeoutListenerRemoved, AfterUpgradeInbound]))"

subsection \<open>Outbound upgrade\<close>

text \<open>
  The \<^verbatim>\<open>try\<close> block of \<^verbatim>\<open>upgradeOutbound\<close>; \<open>remotePeerId\<close> is the peer id read from
  the remote address before it, if the address held one.  The options handed to
  \<^verbatim>\<open>_encryptOutbound\<close> are \<^verbatim>\<open>{ ...opts, remotePeer: remotePeerId }\<close>: a \<^verbatim>\<open>remotePeer\<close>
  of the caller's options is overwritten, also by \<^verbatim>\<open>undefined\<close>.
\<close>

definition upgradeOutbound_try ::
  "Platform \<Rightarrow> DefaultUpgrader \<Rightarrow> PeerId option \<Rightarrow> MultiaddrConnection \<Rightarrow> UpgraderOptions
     \<Rightarrow> (PeerId \<times> string \<times> MultiaddrConnection \<times> StreamMuxerFactory option) io"
where
  "upgradeOutbound_try pf u remotePeerId protectedConn opts =
     bind_io
       (if \<not> skipEncryption opts then
          bind_io
            (encryptOutbound pf u protectedConn (opts\<lparr>opt_remotePeer := remotePeerId\<rparr>)) (\<lambda>cr.
          bind_io
            (shouldBlockConnection u (crypto_remotePeer cr)
               (spread protectedConn (crypto_conn cr)) denyOutboundEncryptedConnection) (\<lambda>_.
          ret (crypto_conn cr, crypto_remotePeer cr, crypto_protocol cr)))
        else
          (case remotePeerId of
             None \<Rightarrow>
               throw (InvalidPeerIdError ''Encryption was skipped but no peer id was passed'')
           | Some peer \<Rightarrow> ret (protectedConn, peer, ''native'')))
       (\<lambda>(encryptedConn, remotePeer, cryptoProtocol).
          case opt_muxerFactory opts of
            Some mf \<Rightarrow> ret (remotePeer, cryptoProtocol, encryptedConn, Some mf)
          | None \<Rightarrow>
              if length (streamMuxers u) > 0 then
                bind_io (multiplexOutbound pf (spread protectedConn encryptedConn) (streamMuxers u))
                  (\<lambda>(stream, muxerFactory).
                     ret (remotePeer, cryptoProtocol, stream, muxerFactory))
              else ret (remotePeer, cryptoProtocol, encryptedConn, None))"

text \<open>
  The first statements of \<^verbatim>\<open>upgradeOutbound\<close>: the peer id of the remote address, if
  it holds one, and with it the first gater method.  They yield \<^verbatim>\<open>remotePeerId\<close>.
\<close>

definition upgradeOutbound_peer ::
  "Platform \<Rightarrow> DefaultUpgrader \<Rightarrow> MultiaddrConnection \<Rightarrow> PeerId option io"
where
  "upgradeOutbound_peer pf u maConn =
     (case getPeerId (remoteAddr maConn) of
        None \<Rightarrow> ret None
      | Some idStr \<Rightarrow>
          bind_io (attempt (peerIdFromString pf idStr)) (\<lambda>peer.
          bind_io (shouldBlockConnection u peer maConn denyOutboundConnection) (\<lambda>_.
          ret (Some peer))))"

text \<open>
  \<^verbatim>\<open>upgradeOutbound\<close>: the \<^verbatim>\<open>catch\<close> of its \<^verbatim>\<open>try\<close> block awaits
  \<^verbatim>\<open>maConn.close(err)\<close> and throws the error again.
\<close>

definition upgradeOutbound ::
  "Platform \<Rightarrow> DefaultUpgrader \<Rightarrow> MultiaddrConnection \<Rightarrow> UpgraderOptions \<Rightarrow> Connection io"
where
  "upgradeOutbound pf u maConn opts =
     bind_io (upgradeOutbound_peer pf u maConn) (\<lambda>remotePeerId.
     bind_io (protect u maConn opts) (\<lambda>protectedConn.
     bind_io
       (try_catch (upgradeOutbound_try pf u remotePeerId protectedConn opts)
          (\<lambda>err.
             bind_io (await (MaConnClose (Some err)) (maConn_close pf maConn (Some err))) (\<lambda>_.
             throw err)))
       (\<lambda>(remotePeer, cryptoProtocol, upgradedConn, muxerFactory).
     bind_io (shouldBlockConnection u remotePeer maConn denyOutboundUpgradedConnection) (\<lambda>_.
     createConnection pf
       \<lparr>cc_cryptoProtocol = cryptoProtocol,
        cc_direction = outbound,
        cc_maConn = maConn,
        cc_upgradedConn = upgradedConn,
        cc_remotePeer = remotePeer,
        cc_muxerFactory = muxerFactory,
        cc_limits = opt_limits opts\<rparr>))))"

section \<open>Streams of a connection\<close>

text \<open>
  Modelled from the spec: the constants \<^verbatim>\<open>DEFAULT_MAX_INBOUND_STREAMS\<close> and
  \<^verbatim>\<open>DEFAULT_MAX_OUTBOUND_STREAMS\<close> are imported from \<^verbatim>\<open>registrar.js\<close>, which is not
  among the sources; the spec gives 32 for both.
\<close>

definition DEFAULT_MAX_INBOUND_STREAMS :: int where
  "DEFAULT_MAX_INBOUND_STREAMS = 32"

definition DEFAULT_MAX_OUTBOUND_STREAMS :: int where
  "DEFAULT_MAX_OUTBOUND_STREAMS = 32"

definition DEFAULT_PROTOCOL_SELECT_TIMEOUT :: nat where
  "DEFAULT_PROTOCOL_SELECT_TIMEOUT = 30000"

text \<open>
  \<^verbatim>\<open>findIncomingStreamLimit\<close>: the handler's \<^verbatim>\<open>maxInboundStreams\<close> as it is
  (\<open>None\<close> for \<^verbatim>\<open>undefined\<close>) when the registrar has a handler; the default when the
  lookup throws an \<^verbatim>\<open>UnhandledProtocolError\<close>; every other error is thrown again.
\<close>

definition findIncomingStreamLimit :: "string \<Rightarrow> Registrar \<Rightarrow> error + int option" where
  "findIncomingStreamLimit protocol reg =
     (case getHandler reg protocol of
        Inr h \<Rightarrow> Inr (maxInboundStreams (handler_options h))
      | Inl err \<Rightarrow>
          if name err \<noteq> ''UnhandledProtocolError'' then Inl err
          else Inr (Some DEFAULT_MAX_INBOUND_STREAMS))"

definition findOutgoingStreamLimit :: "string \<Rightarrow> Registrar \<Rightarrow> NewStreamOptions \<Rightarrow> error + int" where
  "findOutgoingStreamLimit protocol reg options =
     (let fallback =
            (case opt_maxOutboundStreams options of
               Some n \<Rightarrow> n
             | None \<Rightarrow> DEFAULT_MAX_OUTBOUND_STREAMS)
      in (case getHandler reg protocol of
            Inr h \<Rightarrow>
              (case maxOutboundStreams (handler_options h) of
                 Some n \<Rightarrow> Inr n
               | None \<Rightarrow> Inr fallback)
          | Inl err \<Rightarrow>
              if name err \<noteq> ''UnhandledProtocolError'' then Inl err else Inr fallback))"

text \<open>
  \<^verbatim>\<open>getStreams\<close> of the connection, which its \<^verbatim>\<open>streams\<close> property reads:
  the muxer's streams, or none without a muxer.
\<close>

definition getStreams :: "Connection \<Rightarrow> Stream list" where
  "getStreams connection =
     (case conn_muxer connection of Some muxer \<Rightarrow> muxer_streams muxer | None \<Rightarrow> [])"

definition countStreams :: "string \<Rightarrow> Direction \<Rightarrow> Connection \<Rightarrow> int" where
  "countStreams protocol direction connection =
     foldl
       (\<lambda>streamCount stream.
          if stream_direction stream = direction \<and> stream_protocol stream = Some protocol
          then streamCount + 1 else streamCount)
       0 (getStreams connection)"

subsection \<open>Inbound streams\<close>

text \<open>
  After the handshake the muxed stream takes over the negotiated stream's channels and
  protocol, and those of \<^verbatim>\<open>closeWrite\<close>, \<^verbatim>\<open>closeRead\<close> and \<^verbatim>\<open>close\<close> that the
  negotiated stream has.
\<close>

definition rebind :: "Stream \<Rightarrow> NegotiatedStream \<Rightarrow> string \<Rightarrow> Stream" where
  "rebind muxedStream stream protocol =
     muxedStream
       \<lparr>stream_source := neg_source stream,
        stream_sink := neg_sink stream,
        stream_protocol := Some protocol,
        stream_closeWrite :=
          (case neg_closeWrite stream of Some f \<Rightarrow> f | None \<Rightarrow> stream_closeWrite muxedStream),
        stream_closeRead :=
          (case neg_closeRead stream of Some f \<Rightarrow> f | None \<Rightarrow> stream_closeRead muxedStream),
        stream_close :=
          (case neg_close stream of Some f \<Rightarrow> f | None \<Rightarrow> stream_close muxedStream)\<rparr>"

text \<open>\<^verbatim>\<open>_onStream\<close>: routes an incoming stream to its handler.\<close>

definition onStream :: "DefaultUpgrader \<Rightarrow> Connection \<Rightarrow> Stream \<Rightarrow> string \<Rightarrow> unit io" where
  "onStream u connection stream protocol =
     bind_io (attempt (getHandler (registrar (components u)) protocol)) (\<lambda>h.
     if conn_limits connection \<noteq> None \<and> runOnLimitedConnection (handler_options h) \<noteq> Some True
     then throw (LimitedConnectionError ''Cannot open protocol stream on limited connection'')
     else
       await (HandlerCalled protocol (stream_id stream))
         (case handler h connection stream of Some err \<Rightarrow> Inl err | None \<Rightarrow> Inr ()))"

definition tooManyInbound :: "string \<Rightarrow> int \<Rightarrow> error" where
  "tooManyInbound protocol incomingLimit =
     TooManyInboundProtocolStreamsError
       (''Too many inbound protocol streams for protocol '' @ [CHR 0x22] @ protocol
          @ [CHR 0x22] @ '' - limit '' @ show_int incomingLimit)"

text \<open>
  The \<^verbatim>\<open>then\<close> callback of \<^verbatim>\<open>onIncomingStream\<close>, for a connection that has been
  assigned: the events, the muxed stream as the callback leaves it, and the error it
  throws, if any.  The peer whose protocols are merged is the connection's remote peer.
\<close>

definition onIncomingStream_then ::
  "Platform \<Rightarrow> DefaultUpgrader \<Rightarrow> Connection \<Rightarrow> Stream \<Rightarrow> event list \<times> Stream \<times> (error + unit)"
where
  "onIncomingStream_then pf u connection muxedStream =
     (let protocols = getProtocols (registrar (components u)) in
      case mss_handle_stream pf muxedStream protocols of
        Inl err \<Rightarrow> ([MssHandle protocols], muxedStream, Inl err)
      | Inr (stream, protocol) \<Rightarrow>
          (case findIncomingStreamLimit protocol (registrar (components u)) of
             Inl err \<Rightarrow> ([MssHandle protocols], muxedStream, Inl err)
           | Inr incomingLimit \<Rightarrow>
               let streamCount = countStreams protocol inbound connection in
               if Some streamCount = incomingLimit then
                 let err = tooManyInbound protocol streamCount in
                 ([MssHandle protocols, StreamAbort (stream_id muxedStream) err],
                  stream_abort pf err muxedStream, Inl err)
               else
                 let rebound = rebind muxedStream stream protocol;
                     merge = PeerStoreMerge (conn_remotePeer connection) [protocol]
                 in (case peerStore_merge (components u) (conn_remotePeer connection) [protocol] of
                       Inl err \<Rightarrow> ([MssHandle protocols, merge], rebound, Inl err)
                     | Inr _ \<Rightarrow>
                         (case onStream u connection rebound protocol of
                            (t, r) \<Rightarrow> ([MssHandle protocols, merge] @ t, rebound, r)))))"

text \<open>
  \<^verbatim>\<open>onIncomingStream\<close>: nothing happens while the connection is not assigned; the
  \<^verbatim>\<open>catch\<close> callback closes the stream unless its timeline has a close time.
\<close>

definition onIncomingStream ::
  "Platform \<Rightarrow> DefaultUpgrader \<Rightarrow> Connection option \<Rightarrow> Stream \<Rightarrow> event list \<times> Stream"
where
  "onIncomingStream pf u connection muxedStream =
     (case connection of
        None \<Rightarrow> ([], muxedStream)
      | Some c \<Rightarrow>
          (case onIncomingStream_then pf u c muxedStream of
             (t, s, Inr _) \<Rightarrow> (t, s)
           | (t, s, Inl err) \<Rightarrow>
               if stream_timeline_close s = None then (t @ [StreamClose (stream_id s)], s)
               else (t, s)))"

subsection \<open>Outbound streams\<close>

definition tooManyOutbound :: "string \<Rightarrow> int \<Rightarrow> int \<Rightarrow> error" where
  "tooManyOutbound protocol streamCount outgoingLimit =
     TooManyOutboundProtocolStreamsError
       (''Too many outbound protocol streams for protocol '' @ [CHR 0x22] @ protocol
          @ [CHR 0x22] @ '' - '' @ show_int streamCount @ ''/'' @ show_int outgoingLimit)"

text \<open>
  Without a signal of the caller's, \<^verbatim>\<open>newStream\<close> negotiates under a signal that times
  out after \<^verbatim>\<open>DEFAULT_PROTOCOL_SELECT_TIMEOUT\<close>.
\<close>

definition default_signal :: "NewStreamOptions \<Rightarrow> NewStreamOptions" where
  "default_signal options =
     (if signal options = None
      then options\<lparr>signal := Some (TimeoutSignal DEFAULT_PROTOCOL_SELECT_TIMEOUT)\<rparr>
      else options)"

text \<open>
  The \<^verbatim>\<open>try\<close> block of \<^verbatim>\<open>newStream\<close>, on the stream the muxer opened: the events,
  the muxed stream as the block leaves it, and the error it throws, if any.
\<close>

definition newStream_try ::
  "Platform \<Rightarrow> DefaultUpgrader \<Rightarrow> Connection \<Rightarrow> Stream \<Rightarrow> string list \<Rightarrow> NewStreamOptions
     \<Rightarrow> event list \<times> Stream \<times> (error + unit)"
where
  "newStream_try pf u connection muxedStream protocols options0 =
     (let options = default_signal options0
      in (case mss_select_stream pf muxedStream protocols options of
            Inl err \<Rightarrow> ([MssSelect protocols], muxedStream, Inl err)
          | Inr (stream, protocol) \<Rightarrow>
              (case findOutgoingStreamLimit protocol (registrar (components u)) options of
                 Inl err \<Rightarrow> ([MssSelect protocols], muxedStream, Inl err)
               | Inr outgoingLimit \<Rightarrow>
                   let streamCount = countStreams protocol outbound connection in
                   if streamCount \<ge> outgoingLimit then
                     let err = tooManyOutbound protocol streamCount outgoingLimit in
                     ([MssSelect protocols, StreamAbort (stream_id muxedStream) err],
                      stream_abort pf err muxedStream, Inl err)
                   else
                     let merge = PeerStoreMerge (conn_remotePeer connection) [protocol] in
                     (case peerStore_merge (components u) (conn_remotePeer connection) [protocol] of
                        Inl err \<Rightarrow> ([MssSelect protocols, merge], muxedStream, Inl err)
                      | Inr _ \<Rightarrow>
                          ([MssSelect protocols, merge],
                           rebind muxedStream stream protocol, Inr ())))))"

text \<open>
  The function \<^verbatim>\<open>newStream ?? errConnectionNotMultiplexed\<close> that \<^verbatim>\<open>_createConnection\<close>
  passes for the connection's \<^verbatim>\<open>newStream\<close>: \<^verbatim>\<open>errConnectionNotMultiplexed\<close> without
  a muxer; otherwise the muxer opens a stream, the \<^verbatim>\<open>try\<close> block runs, and its \<^verbatim>\<open>catch\<close>
  aborts the stream (unless its timeline has a close time) and throws the error again.
\<close>

definition newStream ::
  "Platform \<Rightarrow> DefaultUpgrader \<Rightarrow> Connection \<Rightarrow> string list \<Rightarrow> NewStreamOptions \<Rightarrow> Stream io"
where
  "newStream pf u connection protocols options =
     (case conn_muxer connection of
        None \<Rightarrow> throw (MuxerUnavailableError ''Connection is not multiplexed'')
      | Some muxer \<Rightarrow>
          (case muxer_newStream muxer of
             Inl err \<Rightarrow> ([MuxerNewStream], Inl err)
           | Inr muxedStream \<Rightarrow>
               (case newStream_try pf u connection muxedStream protocols options of
                  (t, s, Inr _) \<Rightarrow> (MuxerNewStream # t, Inr s)
                | (t, s, Inl err) \<Rightarrow>
                    (MuxerNewStream # t
                       @ (if stream_timeline_close s = None then [StreamAbort (stream_id s) err]
                          else []),
                     Inl err))))"

subsection \<open>The connection object\<close>

text \<open>
  Modelled from the spec: the connection object is built by \<^verbatim>\<open>createConnection\<close> of
  \<^verbatim>\<open>./connection/index.js\<close>, which is not among the sources.  By the spec (sections 3
  and 4.5) the object shows the fields it is given, its \<^verbatim>\<open>getStreams\<close> is the function
  passed, and its \<^verbatim>\<open>newStream\<close> is the outbound stream factory, which fails with
  muxer-unavailable without a muxer: the function passed.  What the object itself checks
  before it calls that function the spec does not say; it is the parameter \<open>guard\<close>,
  which refuses a call with an error or lets it through.
\<close>

type_synonym ConnectionGuard = "Connection \<Rightarrow> NewStreamOptions \<Rightarrow> error option"

definition connection_newStream ::
  "ConnectionGuard \<Rightarrow> Platform \<Rightarrow> DefaultUpgrader \<Rightarrow> Connection \<Rightarrow> string list
     \<Rightarrow> NewStreamOptions \<Rightarrow> Stream io"
where
  "connection_newStream guard pf u connection protocols options =
     (case guard connection options of
        Some err \<Rightarrow> throw err
      | None \<Rightarrow> newStream pf u connection protocols options)"

section \<open>The TCP transport's dial\<close>

text \<open>
  When the caller's signal fires, relative to the steps of \<^verbatim>\<open>dial\<close>: before the call,
  while the socket is connecting, after the socket connected and before \<^verbatim>\<open>dial\<close>
  listens to the signal, while the connection is upgraded, or not by the time the upgrade
  has completed.  \<open>signal_reason\<close> is what \<^verbatim>\<open>throwIfAborted\<close> throws.
\<close>

datatype abort_time = BeforeDial | WhileConnecting | AfterConnect | WhileUpgrading | NotYet

record DialSignal =
  fires :: abort_time
  signal_reason :: error

record TCPDialOptions =
  dial_signal :: "DialSignal option"
  keepAlive :: "bool option"
  noDelay :: "bool option"
  dial_onProgress :: bool
  upgrader_upgradeOutbound :: "MultiaddrConnection \<Rightarrow> error + Connection"

text \<open>How the socket of \<^verbatim>\<open>net.connect\<close> settles when no abort comes first.\<close>

datatype socket_event = Connect nat | SocketError error | SocketTimeout nat

text \<open>
  What the transport imports: the socket's outcome, the address text
  \<^verbatim>\<open>multiaddrToNetConfig\<close> yields, and \<^verbatim>\<open>toMultiaddrConnection\<close>.
\<close>

record TCP =
  net_connect :: "Multiaddr \<Rightarrow> socket_event"
  cOptsStr :: "Multiaddr \<Rightarrow> string"
  toMultiaddrConnection :: "nat \<Rightarrow> Multiaddr \<Rightarrow> MultiaddrConnection"

text \<open>\<^verbatim>\<open>options.signal?.aborted === true\<close> once the upgrade has completed.\<close>

definition aborted :: "DialSignal option \<Rightarrow> bool" where
  "aborted sig = (case sig of None \<Rightarrow> False | Some s \<Rightarrow> fires s \<noteq> NotYet)"

text \<open>\<^verbatim>\<open>_connect\<close>\<close>

definition connect :: "TCP \<Rightarrow> Multiaddr \<Rightarrow> TCPDialOptions \<Rightarrow> nat io" where
  "connect tcp ma options =
     bind_io
       (case dial_signal options of
          Some s \<Rightarrow> if fires s = BeforeDial then throw (signal_reason s) else ret ()
        | None \<Rightarrow> ret ()) (\<lambda>_.
     bind_io (if dial_onProgress options then emit (Progress ''tcp:open-connection'') else ret ())
       (\<lambda>_.
     bind_io (emit (NetConnect (keepAlive options) (noDelay options))) (\<lambda>_.
     if (case dial_signal options of Some s \<Rightarrow> fires s = WhileConnecting | None \<Rightarrow> False)
     then bind_io (emit SocketDestroy) (\<lambda>_. throw AbortError)
     else
       (case net_connect tcp ma of
          Connect socket \<Rightarrow> ret socket
        | SocketError err \<Rightarrow>
            throw (Error (name err)
              (''connection error '' @ cOptsStr tcp ma @ '': '' @ message err))
        | SocketTimeout ms \<Rightarrow>
            throw (TimeoutError
              (''connection error '' @ cOptsStr tcp ma @ '': ''
                 @ ''connection timeout after '' @ show_nat ms @ ''ms''))))))"

text \<open>
  \<^verbatim>\<open>dial\<close>.  While the connection is upgraded the listener \<^verbatim>\<open>onAbort\<close> closes
  \<^verbatim>\<open>maConn\<close> if the signal fires.  Once the upgrade has returned a connection the
  listener is removed, and if the signal has fired the connection's close is started
  (not awaited) and an \<^verbatim>\<open>AbortError\<close> is thrown.
\<close>

definition dial :: "TCP \<Rightarrow> Multiaddr \<Rightarrow> TCPDialOptions \<Rightarrow> Connection io" where
  "dial tcp ma options0 =
     (let options =
            options0
              \<lparr>keepAlive := Some (case keepAlive options0 of Some b \<Rightarrow> b | None \<Rightarrow> True),
               noDelay := Some (case noDelay options0 of Some b \<Rightarrow> b | None \<Rightarrow> True)\<rparr>
      in bind_io (connect tcp ma options) (\<lambda>socket.
         let maConn = toMultiaddrConnection tcp socket ma in
         bind_io (if dial_signal options \<noteq> None then emit AbortListenerAdded else ret ()) (\<lambda>_.
         bind_io
           (UpgradeOutbound
              # (if (case dial_signal options of
                       Some s \<Rightarrow> fires s = WhileUpgrading
                     | None \<Rightarrow> False)
                 then [MaConnClose None] else []),
            upgrader_upgradeOutbound options maConn) (\<lambda>conn.
         bind_io (if dial_signal options \<noteq> None then emit AbortListenerRemoved else ret ())
           (\<lambda>_.
         if aborted (dial_signal options)
         then bind_io (emit ConnectionClose) (\<lambda>_. throw AbortError)
         else ret conn)))))"

section \<open>Example inputs\<close>

text \<open>
  Concrete collaborators on which the theorems below are evaluated: a remote address
  without and with a peer id, a gater whose methods are all absent or all give one
  answer, a registrar made from a table of handler options, a platform whose
  multistream-select accepts the first protocol offered (or fails), one encrypter
  \<open>/noise\<close> and one muxer \<open>/yamux/1.0.0\<close>.
\<close>

definition ex_addr :: Multiaddr where
  "ex_addr = \<lparr>ma_string = ''/ip4/127.0.0.1/tcp/4001'', getPeerId = None\<rparr>"

definition ex_addr_peer :: Multiaddr where
  "ex_addr_peer = \<lparr>ma_string = ''/ip4/127.0.0.1/tcp/4001/p2p/QmPeer'', getPeerId = Some ''QmPeer''\<rparr>"

definition ex_maConn :: "Multiaddr \<Rightarrow> MultiaddrConnection" where
  "ex_maConn ma = \<lparr>remoteAddr = ma,
     timeline = \<lparr>timeline_open = 1, timeline_upgraded = None, timeline_close = None\<rparr>\<rparr>"

definition ex_gater :: "(error + bool) option \<Rightarrow> ConnectionGater" where
  "ex_gater answer =
     \<lparr>gater_denyInboundConnection = map_option (\<lambda>r _. r) answer,
      gater_denyOutboundConnection = map_option (\<lambda>r _ _. r) answer,
      gater_denyInboundEncryptedConnection = map_option (\<lambda>r _ _. r) answer,
      gater_denyOutboundEncryptedConnection = map_option (\<lambda>r _ _. r) answer,
      gater_denyInboundUpgradedConnection = map_option (\<lambda>r _ _. r) answer,
      gater_denyOutboundUpgradedConnection = map_option (\<lambda>r _ _. r) answer\<rparr>"

definition ex_handler :: "StreamHandlerOptions \<Rightarrow> StreamHandlerRecord" where
  "ex_handler hopts = \<lparr>handler = (\<lambda>_ _. None), handler_options = hopts\<rparr>"

definition ex_registrar :: "(string \<times> StreamHandlerOptions) list \<Rightarrow> Registrar" where
  "ex_registrar hs =
     \<lparr>getProtocols = map fst hs,
      getHandler = (\<lambda>p. case map_of hs p of
                           Some hopts \<Rightarrow> Inr (ex_handler hopts)
                         | None \<Rightarrow> Inl (Error ''UnhandledProtocolError'' ''No handler registered''))\<rparr>"

definition ex_components ::
  "error + bool \<Rightarrow> (error + bool) option \<Rightarrow> (string \<times> StreamHandlerOptions) list \<Rightarrow> Components"
where
  "ex_components accept answer hs =
     \<lparr>connectionManager_acceptIncomingConnection = (\<lambda>_. accept),
      connectionGater = ex_gater answer,
      connectionProtector = None,
      registrar = ex_registrar hs,
      peerStore_merge = (\<lambda>_ _. Inr ())\<rparr>"

definition ex_negotiated :: NegotiatedStream where
  "ex_negotiated = \<lparr>neg_source = 10, neg_sink = 11, neg_closeWrite = None,
     neg_closeRead = None, neg_close = Some 12\<rparr>"

definition ex_platform :: "error option \<Rightarrow> Platform" where
  "ex_platform failure =
     \<lparr>mss_handle = (\<lambda>c ps. case failure of
                               Some err \<Rightarrow> Inl err
                             | None \<Rightarrow> Inr (c, hd ps)),
      mss_select = (\<lambda>c ps. case failure of
                               Some err \<Rightarrow> Inl err
                             | None \<Rightarrow> Inr (c, hd ps)),
      mss_handle_stream = (\<lambda>s ps. Inr (ex_negotiated, hd ps)),
      mss_select_stream = (\<lambda>s ps _. Inr (ex_negotiated, hd ps)),
      peerIdFromString = Inr,
      Date_now = 2,
      stream_abort = (\<lambda>_ s. s\<lparr>stream_timeline_close := Some 3\<rparr>),
      maConn_close = (\<lambda>_ _. Inr ()),
      timeout_fires = None\<rparr>"


definition ex_encrypter :: ConnectionEncrypter where
  "ex_encrypter =
     \<lparr>encrypter_protocol = ''/noise'',
      secureInbound = (\<lambda>c. Inr \<lparr>secured_conn = c, secured_remotePeer = ''QmPeer''\<rparr>),
      secureOutbound = (\<lambda>c _. Inr \<lparr>secured_conn = c, secured_remotePeer = ''QmPeer''\<rparr>)\<rparr>"

definition ex_muxer :: "Stream list \<Rightarrow> StreamMuxer" where
  "ex_muxer ss =
     \<lparr>muxer_protocol = ''/yamux/1.0.0'', muxer_streams = ss,
      muxer_newStream = Inl (JsError ''muxer closed'')\<rparr>"

definition ex_factory :: StreamMuxerFactory where
  "ex_factory = \<lparr>factory_protocol = ''/yamux/1.0.0'', createStreamMuxer = ex_muxer []\<rparr>"

definition ex_upgrader :: "Components \<Rightarrow> DefaultUpgrader" where
  "ex_upgrader comps =
     new_DefaultUpgrader comps
       \<lparr>init_connectionEncrypters = [ex_encrypter], init_streamMuxers = [ex_factory],
        init_inboundUpgradeTimeout = None\<rparr>"

section \<open>Trace predicates\<close>

text \<open>\<open>only P m\<close>: every event of the operation \<open>m\<close> satisfies \<open>P\<close>.\<close>

definition only :: "(event \<Rightarrow> bool) \<Rightarrow> 'a io \<Rightarrow> bool" where
  "only P m = list_all P (fst m)"

text \<open>
  The events of an upgrade other than the release of the inbound slot and the closing or
  aborting of the connection.
\<close>

definition upgrade_step :: "event \<Rightarrow> bool" where
  "upgrade_step ev =
     (ev \<noteq> AfterUpgradeInbound \<and> (\<forall>c. ev \<noteq> MaConnClose c) \<and> (\<forall>e. ev \<noteq> MaConnAbort e))"

text \<open>The gating checkpoints of a trace, in the order of their calls, with their answers.\<close>

fun checkpoints :: "event list \<Rightarrow> (checkpoint \<times> (error + bool)) list" where
  "checkpoints [] = []"
| "checkpoints (Checkpoint cp r # t) = (cp, r) # checkpoints t"
| "checkpoints (_ # t) = checkpoints t"

text \<open>
  A checkpoint lets the upgrade pass when the admission answers \<open>true\<close>, or a gater
  method answers \<open>false\<close>; it denies when it answers otherwise, or fails.
\<close>

fun passes :: "checkpoint \<times> (error + bool) \<Rightarrow> bool" where
  "passes (acceptIncomingConnection, r) = (r = Inr True)"
| "passes (denyInboundConnection, r) = (r = Inr False)"
| "passes (gater ty, r) = (r = Inr False)"

definition inbound_order :: "checkpoint list" where
  "inbound_order =
     [acceptIncomingConnection, denyInboundConnection,
      gater denyInboundEncryptedConnection, gater denyInboundUpgradedConnection]"

text \<open>
  The checkpoints an inbound upgrade has to pass: the admission, and those gater methods
  that are present; the post-encryption method only when encryption is not skipped.
\<close>

definition inbound_checkpoints :: "DefaultUpgrader \<Rightarrow> UpgraderOptions \<Rightarrow> checkpoint list" where
  "inbound_checkpoints u opts =
     (let g = connectionGater (components u) in
      [acceptIncomingConnection]
      @ (if gater_denyInboundConnection g \<noteq> None then [denyInboundConnection] else [])
      @ (if \<not> skipEncryption opts \<and> gater_denyInboundEncryptedConnection g \<noteq> None
         then [gater denyInboundEncryptedConnection] else [])
      @ (if gater_denyInboundUpgradedConnection g \<noteq> None
         then [gater denyInboundUpgradedConnection] else []))"

text \<open>
  \<open>gated order m\<close>: the checkpoints the operation \<open>m\<close> calls are the first ones of
  \<open>order\<close>, in that order; each of them but the last one called has passed; and when
  \<open>m\<close> returns, all of \<open>order\<close> have been called and have passed.
\<close>

definition gated :: "checkpoint list \<Rightarrow> 'a io \<Rightarrow> bool" where
  "gated order m =
     (prefix (map fst (checkpoints (fst m))) order
      \<and> list_all passes (butlast (checkpoints (fst m)))
      \<and> (\<not> isl (snd m)
           \<longrightarrow> map fst (checkpoints (fst m)) = order \<and> list_all passes (checkpoints (fst m))))"

text \<open>
  The stages of an inbound upgrade that a trace shows: a gating checkpoint, the
  protector, a negotiation by \<^verbatim>\<open>mss.handle\<close> over the offered protocols (those of the
  encrypters in \<^verbatim>\<open>_encryptInbound\<close>, those of the muxers in \<^verbatim>\<open>_multiplexInbound\<close>), the
  encrypter's \<^verbatim>\<open>secureInbound\<close>, and the dispatch of an event.
\<close>

datatype stage =
    Gate checkpoint
  | Protection
  | Negotiation "string list"
  | Handshake
  | Dispatch string

fun stage_of :: "event \<Rightarrow> stage option" where
  "stage_of (Checkpoint cp r) = Some (Gate cp)"
| "stage_of Protect = Some Protection"
| "stage_of (MssHandle ps) = Some (Negotiation ps)"
| "stage_of (SecureInbound p) = Some Handshake"
| "stage_of (DispatchEvent ev) = Some (Dispatch ev)"
| "stage_of _ = None"

fun stages :: "event list \<Rightarrow> stage list" where
  "stages [] = []"
| "stages (ev # t) = (case stage_of ev of Some s \<Rightarrow> s # stages t | None \<Rightarrow> stages t)"

text \<open>
  The stages of an inbound upgrade that returns a connection, in their order: the
  admission; the first gater method; the protector; encryption (negotiation, then the
  handshake) and after it the post-encryption gater method, unless encryption is skipped;
  the negotiation of a muxer, when the options give none and the upgrader has some; the
  last gater method; and the dispatch of \<^verbatim>\<open>connection:open\<close>.  A gater method or a
  protector that is absent has no stage.
\<close>

definition inbound_schedule :: "DefaultUpgrader \<Rightarrow> UpgraderOptions \<Rightarrow> stage list" where
  "inbound_schedule u opts =
     (let g = connectionGater (components u) in
      [Gate acceptIncomingConnection]
      @ (if gater_denyInboundConnection g \<noteq> None then [Gate denyInboundConnection] else [])
      @ (if \<not> skipProtection opts \<and> connectionProtector (components u) \<noteq> None
         then [Protection] else [])
      @ (if \<not> skipEncryption opts then
           [Negotiation (Map_keys (connectionEncrypters u)), Handshake]
           @ (if gater_denyInboundEncryptedConnection g \<noteq> None
              then [Gate (gater denyInboundEncryptedConnection)] else [])
         else [])
      @ (if opt_muxerFactory opts = None \<and> length (streamMuxers u) > 0
         then [Negotiation (Map_keys (streamMuxers u))] else [])
      @ (if gater_denyInboundUpgradedConnection g \<noteq> None
         then [Gate (gater denyInboundUpgradedConnection)] else [])
      @ [Dispatch ''connection:open''])"

text \<open>\<open>halted t\<close>: after a checkpoint of \<open>t\<close> that does not pass, no stage follows.\<close>

fun halted :: "event list \<Rightarrow> bool" where
  "halted [] = True"
| "halted (Checkpoint cp r # t) = ((passes (cp, r) \<or> stages t = []) \<and> halted t)"
| "halted (_ # t) = halted t"

text \<open>
  \<open>staged order m\<close>: the stages of the operation \<open>m\<close> are the first ones of \<open>order\<close>, in
  that order; no stage follows a checkpoint that does not pass; and when \<open>m\<close> returns,
  all of \<open>order\<close> have taken place and every checkpoint has passed.
\<close>

definition staged :: "stage list \<Rightarrow> 'a io \<Rightarrow> bool" where
  "staged order m =
     (prefix (stages (fst m)) order
      \<and> halted (fst m)
      \<and> (\<not> isl (snd m)
           \<longrightarrow> stages (fst m) = order \<and> list_all passes (checkpoints (fst m))))"

text \<open>Upgrade options that skip encryption, as a transport with native encryption passes.\<close>

definition ex_skip :: UpgraderOptions where
  "ex_skip = no_options\<lparr>skipEncryption := True\<rparr>"

text \<open>The same options of a caller that also names the peer it expects.\<close>

definition ex_skip_peer :: UpgraderOptions where
  "ex_skip_peer = ex_skip\<lparr>opt_remotePeer := Some ''QmPeer''\<rparr>"

text \<open>
  Streams and stream options of the examples: an open stream whose protocol is not yet
  negotiated, the same stream after the negotiation of a protocol, a connection over the
  example muxer with given limits and streams, and handler options with an inbound limit.
\<close>

definition ex_stream :: "string \<Rightarrow> Direction \<Rightarrow> Stream" where
  "ex_stream sid dir =
     \<lparr>stream_id = sid, stream_direction = dir, stream_protocol = None,
      stream_timeline_close = None, stream_source = 0, stream_sink = 1,
      stream_closeWrite = 2, stream_closeRead = 3, stream_close = 4\<rparr>"

definition ex_installed :: "string \<Rightarrow> Direction \<Rightarrow> string \<Rightarrow> Stream" where
  "ex_installed sid dir protocol = rebind (ex_stream sid dir) ex_negotiated protocol"

definition ex_connection :: "ConnectionLimits option \<Rightarrow> StreamMuxer option \<Rightarrow> Connection" where
  "ex_connection lim muxer =
     \<lparr>conn_remoteAddr = ex_addr_peer, conn_remotePeer = ''QmPeer'', conn_status = ''open'',
      conn_direction = inbound,
      conn_timeline = \<lparr>timeline_open = 1, timeline_upgraded = Some 2, timeline_close = None\<rparr>,
      conn_multiplexer = map_option muxer_protocol muxer, conn_encryption = ''/noise'',
      conn_limits = lim, conn_muxer = muxer\<rparr>"

definition ex_handler_options :: "int option \<Rightarrow> int option \<Rightarrow> bool option \<Rightarrow> StreamHandlerOptions" where
  "ex_handler_options maxIn maxOut limited =
     \<lparr>maxInboundStreams = maxIn, maxOutboundStreams = maxOut,
      runOnLimitedConnection = limited\<rparr>"

definition ex_create :: "StreamMuxerFactory option \<Rightarrow> CreateConnectionOptions" where
  "ex_create factory =
     \<lparr>cc_cryptoProtocol = ''/noise'', cc_direction = inbound, cc_maConn = ex_maConn ex_addr_peer,
      cc_upgradedConn = ex_maConn ex_addr_peer, cc_remotePeer = ''QmPeer'',
      cc_muxerFactory = factory, cc_limits = None\<rparr>"

definition ex_limits :: ConnectionLimits where
  "ex_limits = \<lparr>limit_bytes = Some 1024, limit_seconds = None\<rparr>"

text \<open>
  Components whose registrar lists \<open>/echo/1.0.0\<close> among its protocols and has no
  handler for it.
\<close>

definition ex_unhandled :: Components where
  "ex_unhandled =
     (ex_components (Inr True) None [])
       \<lparr>registrar := (ex_registrar [])\<lparr>getProtocols := [''/echo/1.0.0'']\<rparr>\<rparr>"


definition ex_new_stream_options :: "int option \<Rightarrow> NewStreamOptions" where
  "ex_new_stream_options maxOut = \<lparr>signal = None, opt_maxOutboundStreams = maxOut\<rparr>"

text \<open>
  A connection object that refuses to open a stream on a limited connection (only what
  has opted in may run over one) and lets every other call through.
\<close>

definition ex_guard :: ConnectionGuard where
  "ex_guard connection options =
     (if conn_limits connection \<noteq> None
      then Some (LimitedConnectionError ''Cannot open protocol stream on limited connection'')
      else None)"

text \<open>
  A transport whose socket connects, and dial options with a given signal whose upgrader
  returns a connection.
\<close>

definition ex_tcp :: TCP where
  "ex_tcp =
     \<lparr>net_connect = (\<lambda>_. Connect 7), cOptsStr = (\<lambda>_. ''127.0.0.1:4001''),
      toMultiaddrConnection = (\<lambda>_ ma. ex_maConn ma)\<rparr>"

definition ex_dial_options :: "DialSignal option \<Rightarrow> TCPDialOptions" where
  "ex_dial_options sig =
     \<lparr>dial_signal = sig, keepAlive = None, noDelay = None, dial_onProgress = False,
      upgrader_upgradeOutbound = (\<lambda>_. Inr (ex_connection None None))\<rparr>"

section \<open>Properties\<close>

subsection \<open>Helper lemmas: which events a stage can cause\<close>

lemmas ex_defs = ex_addr_def ex_addr_peer_def ex_maConn_def ex_gater_def ex_handler_def
  ex_registrar_def ex_components_def ex_negotiated_def ex_platform_def ex_encrypter_def
  ex_muxer_def ex_factory_def ex_upgrader_def new_DefaultUpgrader_def no_options_def

lemmas io_defs = ret_def throw_def emit_def await_def bind_io_def try_catch_def try_finally_def
  on_timeout_def
  attempt_def await_checkpoint_def

lemmas upgrade_defs = upgradeInbound_def upgradeInbound_try_def upgradeInbound_inner_def
  upgradeOutbound_def upgradeOutbound_peer_def upgradeOutbound_try_def protect_def progress_def shouldBlockConnection_def
  encryptInbound_def encryptOutbound_def multiplexInbound_def multiplexOutbound_def
  createConnection_def Map_get_def Map_keys_def spread_def

lemma bind_io_Inr: "m = (t, Inr x) \<Longrightarrow> bind_io m f = (t @ fst (f x), snd (f x))"
  by (simp add: bind_io_def split: prod.splits)

lemma try_catch_Inr: "m = (t, Inr x) \<Longrightarrow> try_catch m h = (t, Inr x)"
  by (simp add: try_catch_def)

lemmas stream_defs = onStream_def onIncomingStream_then_def onIncomingStream_def
  newStream_try_def newStream_def default_signal_def findIncomingStreamLimit_def
  findOutgoingStreamLimit_def countStreams_def getStreams_def rebind_def tooManyInbound_def
  tooManyOutbound_def

lemmas ex_stream_defs = ex_stream_def ex_installed_def ex_connection_def ex_handler_options_def
  ex_create_def

lemma try_catch_rethrow: "try_catch m throw = m"
  by (cases m) (auto simp: try_catch_def throw_def split: sum.splits)

lemma only_bind_io:
  "only P m \<Longrightarrow> (\<And>x. only P (f x)) \<Longrightarrow> only P (bind_io m f)"
  by (auto simp: only_def bind_io_def split: prod.splits sum.splits) (metis fst_conv)

lemma only_try_catch:
  "only P m \<Longrightarrow> (\<And>x. only P (h x)) \<Longrightarrow> only P (try_catch m h)"
  by (auto simp: only_def try_catch_def split: prod.splits sum.splits) (metis fst_conv)

lemma only_ret: "only P (ret x)"
  by (simp add: only_def ret_def)

lemma only_throw: "only P (throw x)"
  by (simp add: only_def throw_def)

lemma only_attempt: "only P (attempt x)"
  by (simp add: only_def attempt_def)

lemma only_emit: "P e \<Longrightarrow> only P (emit e)"
  by (simp add: only_def emit_def)

lemma only_await: "P e \<Longrightarrow> only P (await e r)"
  by (simp add: only_def await_def)

lemma only_await_checkpoint: "P (Checkpoint cp r) \<Longrightarrow> only P (await_checkpoint cp r)"
  by (simp add: only_def await_checkpoint_def)

lemmas only_intros = only_bind_io only_try_catch only_ret only_throw only_attempt only_emit
  only_await only_await_checkpoint

lemma upgrade_step_simps [simp]:
  "upgrade_step (Checkpoint cp r)" "upgrade_step (Progress s)" "upgrade_step Protect"
  "upgrade_step (MssHandle ps)" "upgrade_step (MssSelect ps)" "upgrade_step (SecureInbound p)"
  "upgrade_step (SecureOutbound p)" "upgrade_step CreateStreamMuxer" "upgrade_step PipeMuxer"
  "upgrade_step (TimelineUpgraded n)" "upgrade_step (DispatchEvent s)"
  "upgrade_step TimeoutListenerAdded" "upgrade_step TimeoutListenerRemoved"
  by (simp_all add: upgrade_step_def)

lemma only_shouldBlockConnection: "only upgrade_step (shouldBlockConnection u p c ty)"
  unfolding shouldBlockConnection_def
  by (auto split: option.splits intro!: only_intros)

lemma only_encryptInbound: "only upgrade_step (encryptInbound pf u c)"
  unfolding encryptInbound_def Let_def
  by (auto split: option.splits prod.splits intro!: only_intros)

lemma only_multiplexInbound: "only upgrade_step (multiplexInbound pf c ms)"
  unfolding multiplexInbound_def Let_def
  by (auto split: option.splits prod.splits intro!: only_intros)

lemma only_protect: "only upgrade_step (protect u c opts)"
  unfolding protect_def
  by (auto split: option.splits intro!: only_intros)

lemma only_progress: "only upgrade_step (progress opts s)"
  unfolding progress_def
  by (auto intro!: only_intros)

lemma only_createConnection: "only upgrade_step (createConnection pf opts)"
  unfolding createConnection_def Let_def only_def
  by simp

lemma only_encryptOutbound: "only upgrade_step (encryptOutbound pf u c options)"
  unfolding encryptOutbound_def Let_def
  by (auto split: option.splits prod.splits intro!: only_intros)

lemma only_multiplexOutbound: "only upgrade_step (multiplexOutbound pf c ms)"
  unfolding multiplexOutbound_def Let_def
  by (auto split: option.splits prod.splits intro!: only_intros)

lemmas only_stage = only_shouldBlockConnection only_encryptInbound only_multiplexInbound
  only_encryptOutbound only_multiplexOutbound only_protect only_progress only_createConnection

lemma only_upgradeInbound_inner: "only upgrade_step (upgradeInbound_inner pf u maConn pc opts)"
  unfolding upgradeInbound_inner_def
  by (auto split: option.splits prod.splits intro!: only_intros only_stage)

lemma only_upgradeInbound_try: "only upgrade_step (upgradeInbound_try pf u maConn opts)"
  unfolding upgradeInbound_try_def
  by (auto split: option.splits prod.splits
        intro!: only_intros only_stage only_upgradeInbound_inner)



lemma count_upgrade_step: "list_all upgrade_step t \<Longrightarrow> count_list t AfterUpgradeInbound = 0"
  by (induction t) (auto simp: upgrade_step_def)



text \<open>The timeout listener adds its event to the block's events and leaves the rest.\<close>

lemma on_timeout_snd: "snd (on_timeout k ev m) = snd m"
  by (simp add: on_timeout_def split: option.splits prod.splits)

lemma count_list_take_drop: "count_list (take n t) x + count_list (drop n t) x = count_list t x"
  using count_list_append [of "take n t" "drop n t" x] by simp

lemma count_list_insert:
  "ev \<noteq> x \<Longrightarrow> count_list (take n t @ ev # drop n t) x = count_list t x"
  using count_list_take_drop [of n t x] by simp

lemma on_timeout_count:
  "ev \<noteq> x \<Longrightarrow> count_list (fst (on_timeout k ev m)) x = count_list (fst m) x"
proof (cases k)
  case None
  then show ?thesis
    by (simp add: on_timeout_def)
next
  case (Some n)
  assume "ev \<noteq> x"
  from count_list_insert [OF this, of "Suc n" "fst m"] Some show ?thesis
    by (cases m) (simp add: on_timeout_def)
qed



subsection \<open>C1: release of the inbound slot\<close>

text \<open>
  C1, as the spec states it: every call to \<open>upgradeInbound\<close>, whether it returns or
  throws (admission denial included), invokes \<open>afterUpgradeInbound\<close> exactly once.
  The code checks admission before its \<open>try\<close> block, so a call the connection manager
  does not accept throws without the \<open>finally\<close> block: with an admission that answers
  \<open>false\<close> the trace holds the admission call alone.
\<close>

theorem upgradeInbound_denied_counterexample:
  "upgradeInbound (ex_platform None) (ex_upgrader (ex_components (Inr False) None []))
       (ex_maConn ex_addr) no_options
     = ([Checkpoint acceptIncomingConnection (Inr False)],
        Inl (ConnectionDeniedError ''connection denied''))
   \<and> count_list
         (fst (upgradeInbound (ex_platform None) (ex_upgrader (ex_components (Inr False) None []))
            (ex_maConn ex_addr) no_options))
         AfterUpgradeInbound = 0"
  by (simp add: ex_defs io_defs upgrade_defs)

text \<open>
  C1, amended: a call to \<open>upgradeInbound\<close> that the connection manager accepts invokes
  \<open>afterUpgradeInbound\<close> exactly once, as its last action, whether the call then returns
  a connection or throws; a call that is not accepted (the admission answers \<open>false\<close> or
  itself fails) throws and never invokes it.
\<close>

theorem upgradeInbound_afterUpgradeInbound:
  assumes "upgradeInbound pf u maConn opts = (t, r)"
  shows "if connectionManager_acceptIncomingConnection (components u) maConn = Inr True
         then count_list t AfterUpgradeInbound = 1 \<and> last t = AfterUpgradeInbound
         else count_list t AfterUpgradeInbound = 0 \<and> (\<exists>err. r = Inl err)"
proof -
  obtain t' r' where body:
    "on_timeout (timeout_fires pf) (MaConnAbort (TimeoutError ''inbound upgrade timeout''))
       (upgradeInbound_try pf u maConn opts) = (t', r')"
    by (cases "on_timeout (timeout_fires pf)
          (MaConnAbort (TimeoutError ''inbound upgrade timeout''))
          (upgradeInbound_try pf u maConn opts)")
  have "count_list (fst (upgradeInbound_try pf u maConn opts)) AfterUpgradeInbound = 0"
    using only_upgradeInbound_try [of pf u maConn opts]
    by (simp add: only_def count_upgrade_step)
  with body have quiet: "count_list t' AfterUpgradeInbound = 0"
    using on_timeout_count
      [of "MaConnAbort (TimeoutError ''inbound upgrade timeout'')" AfterUpgradeInbound
        "timeout_fires pf" "upgradeInbound_try pf u maConn opts"]
    by simp
  show ?thesis
  proof (cases "connectionManager_acceptIncomingConnection (components u) maConn")
    case (Inl err)
    with assms show ?thesis
      by (auto simp: upgradeInbound_def bind_io_def await_checkpoint_def)
  next
    case (Inr accept)
    with assms body quiet show ?thesis
      by (cases accept)
        (auto simp: upgradeInbound_def bind_io_def await_checkpoint_def throw_def emit_def
          try_finally_def)
  qed
qed

theorem upgradeInbound_afterUpgradeInbound_witness:
  "connectionManager_acceptIncomingConnection (components (ex_upgrader (ex_components (Inr True) (Some (Inr False)) [])))
       (ex_maConn ex_addr) = Inr True
   \<and> count_list
         (fst (upgradeInbound (ex_platform None)
            (ex_upgrader (ex_components (Inr True) (Some (Inr False)) []))
            (ex_maConn ex_addr) no_options))
         AfterUpgradeInbound = 1
   \<and> last
         (fst (upgradeInbound (ex_platform None)
            (ex_upgrader (ex_components (Inr True) (Some (Inr False)) []))
            (ex_maConn ex_addr) no_options))
       = AfterUpgradeInbound"
proof -
  have run:
    "upgradeInbound (ex_platform None)
         (ex_upgrader (ex_components (Inr True) (Some (Inr False)) []))
         (ex_maConn ex_addr) no_options
       = (fst (upgradeInbound (ex_platform None)
            (ex_upgrader (ex_components (Inr True) (Some (Inr False)) []))
            (ex_maConn ex_addr) no_options),
          snd (upgradeInbound (ex_platform None)
            (ex_upgrader (ex_components (Inr True) (Some (Inr False)) []))
            (ex_maConn ex_addr) no_options))"
    by simp
  have accepted:
    "connectionManager_acceptIncomingConnection (components (ex_upgrader (ex_components (Inr True) (Some (Inr False)) [])))
       (ex_maConn ex_addr) = Inr True"
    by (simp add: ex_defs)
  from upgradeInbound_afterUpgradeInbound [OF run] accepted show ?thesis
    by simp
qed

subsection \<open>Helper lemmas: the checkpoints of a stage\<close>

lemma checkpoints_append [simp]: "checkpoints (t @ t') = checkpoints t @ checkpoints t'"
  by (induction t rule: checkpoints.induct) simp_all

lemma checkpoints_take_drop:
  "checkpoints (take n t @ MaConnAbort e # drop n t) = checkpoints t"
  using checkpoints_append [of "take n t" "drop n t"] by simp

lemma checkpoints_on_timeout:
  "checkpoints (fst (on_timeout k (MaConnAbort e) m)) = checkpoints (fst m)"
  by (cases m; cases k) (simp_all add: on_timeout_def checkpoints_take_drop del: checkpoints_append)

lemma list_all_butlast: "list_all P xs \<Longrightarrow> list_all P (butlast xs)"
  by (auto simp: list_all_iff dest: in_set_butlastD)

lemma gated_bind_io:
  assumes "gated o1 m" and "\<And>x. snd m = Inr x \<Longrightarrow> gated o2 (f x)"
  shows "gated (o1 @ o2) (bind_io m f)"
proof (cases m)
  case (Pair t r)
  show ?thesis
  proof (cases r)
    case (Inl err)
    with Pair assms(1) show ?thesis
      by (auto simp: gated_def bind_io_def)
  next
    case (Inr x)
    obtain t' r' where fx: "f x = (t', r')"
      by (cases "f x")
    from assms(2) [of x] Pair Inr fx have g2: "gated o2 (t', r')"
      by simp
    from assms(1) Pair Inr have g1:
      "map fst (checkpoints t) = o1" "list_all passes (checkpoints t)"
      by (auto simp: gated_def)
    have bl: "list_all passes (butlast (checkpoints t @ checkpoints t'))"
      using g1(2) g2
      by (cases "checkpoints t' = []") (auto simp: gated_def butlast_append list_all_butlast)
    from g1 g2 bl show ?thesis
      unfolding Pair Inr
      by (auto simp: gated_def bind_io_def fx)
  qed
qed

lemma gated_quiet: "checkpoints (fst m) = [] \<Longrightarrow> gated [] m"
  by (simp add: gated_def)

lemma gated_then:
  "checkpoints (fst m) = [] \<Longrightarrow> (\<And>x. gated order (f x)) \<Longrightarrow> gated order (bind_io m f)"
  using gated_bind_io [of "[]" m order f] by (simp add: gated_quiet)

lemma gated_before:
  "gated order m \<Longrightarrow> (\<And>x. checkpoints (fst (f x)) = []) \<Longrightarrow> gated order (bind_io m f)"
  using gated_bind_io [of order m "[]" f] by (simp add: gated_quiet)

lemma quiet_progress: "checkpoints (fst (progress opts s)) = []"
  by (simp add: progress_def emit_def ret_def)

lemma quiet_protect: "checkpoints (fst (protect u c opts)) = []"
  by (simp add: protect_def await_def ret_def split: option.splits)

lemma quiet_encryptInbound: "checkpoints (fst (encryptInbound pf u c)) = []"
  by (auto simp: encryptInbound_def io_defs Let_def split: option.splits sum.splits prod.splits)

lemma quiet_multiplexInbound: "checkpoints (fst (multiplexInbound pf c ms)) = []"
  by (auto simp: multiplexInbound_def io_defs Let_def split: option.splits sum.splits prod.splits)

lemma quiet_createConnection: "checkpoints (fst (createConnection pf opts)) = []"
  by (simp add: createConnection_def Let_def)

lemma gated_shouldBlockConnection:
  "gated (if gater_method (connectionGater (components u)) ty \<noteq> None then [gater ty] else [])
     (shouldBlockConnection u p c ty)"
  by (auto simp: gated_def shouldBlockConnection_def io_defs split: option.splits sum.splits)

lemma gated_upgradeInbound_inner:
  "gated
     (if \<not> skipEncryption opts
        \<and> gater_denyInboundEncryptedConnection (connectionGater (components u)) \<noteq> None
      then [gater denyInboundEncryptedConnection] else [])
     (upgradeInbound_inner pf u maConn pc opts)"
  unfolding upgradeInbound_inner_def
proof (rule gated_before)
  show "gated
     (if \<not> skipEncryption opts
        \<and> gater_denyInboundEncryptedConnection (connectionGater (components u)) \<noteq> None
      then [gater denyInboundEncryptedConnection] else [])
     (if \<not> skipEncryption opts then
          bind_io (progress opts ''upgrader:encrypt-inbound-connection'') (\<lambda>_.
          bind_io (encryptInbound pf u pc) (\<lambda>cr.
          bind_io
            (shouldBlockConnection u (crypto_remotePeer cr)
               (spread pc (crypto_conn cr)) denyInboundEncryptedConnection) (\<lambda>_.
          ret (crypto_conn cr, crypto_remotePeer cr, crypto_protocol cr))))
        else
          (case getPeerId (remoteAddr maConn) of
             None \<Rightarrow>
               throw (InvalidMultiaddrError
                 ''inbound connection that skipped encryption must have a peer id'')
           | Some idStr \<Rightarrow>
               bind_io (attempt (peerIdFromString pf idStr)) (\<lambda>remotePeerId.
               ret (pc, remotePeerId, ''native''))))"
  proof (cases "skipEncryption opts")
    case True
    then show ?thesis
      by (auto simp: io_defs split: option.splits sum.splits intro!: gated_quiet)
  next
    case False
    have "gated
       (if gater_method (connectionGater (components u)) denyInboundEncryptedConnection \<noteq> None
        then [gater denyInboundEncryptedConnection] else [])
       (bind_io (progress opts ''upgrader:encrypt-inbound-connection'') (\<lambda>_.
          bind_io (encryptInbound pf u pc) (\<lambda>cr.
          bind_io
            (shouldBlockConnection u (crypto_remotePeer cr)
               (spread pc (crypto_conn cr)) denyInboundEncryptedConnection) (\<lambda>_.
          ret (crypto_conn cr, crypto_remotePeer cr, crypto_protocol cr)))))"
      by (intro gated_then gated_before gated_shouldBlockConnection quiet_progress
            quiet_encryptInbound) (simp add: ret_def)
    with False show ?thesis
      by simp
  qed
next
  fix x :: "MultiaddrConnection \<times> PeerId \<times> string"
  show "checkpoints
          (fst (case x of
                  (encryptedConn, remotePeer, cryptoProtocol) \<Rightarrow>
                    (case opt_muxerFactory opts of
                       Some mf \<Rightarrow> ret (remotePeer, cryptoProtocol, encryptedConn, Some mf)
                     | None \<Rightarrow>
                         if length (streamMuxers u) > 0 then
                           bind_io (progress opts ''upgrader:multiplex-inbound-connection'') (\<lambda>_.
                           bind_io
                             (multiplexInbound pf (spread pc encryptedConn) (streamMuxers u))
                             (\<lambda>(stream, muxerFactory).
                                ret (remotePeer, cryptoProtocol, stream, muxerFactory)))
                         else ret (remotePeer, cryptoProtocol, encryptedConn, None)))) = []"
    using quiet_multiplexInbound [of pf "spread pc (fst x)" "streamMuxers u"]
    by (auto simp: io_defs progress_def split: option.splits sum.splits prod.splits)
qed

lemma gated_gate:
  assumes "\<And>x. passes (cp, Inr x) \<Longrightarrow> gated order (f x)"
    and "\<And>x. \<not> passes (cp, Inr x) \<Longrightarrow> checkpoints (fst (f x)) = [] \<and> isl (snd (f x))"
  shows "gated (cp # order) (bind_io (await_checkpoint cp r) f)"
proof (cases r)
  case (Inl err)
  then show ?thesis
    by (simp add: gated_def bind_io_def await_checkpoint_def)
next
  case (Inr x)
  obtain t' r' where fx: "f x = (t', r')"
    by (cases "f x")
  show ?thesis
  proof (cases "passes (cp, Inr x)")
    case True
    from assms(1) [OF True] fx have "gated order (t', r')"
      by simp
    with True show ?thesis
      unfolding Inr
      by (auto simp: gated_def bind_io_def await_checkpoint_def fx)
  next
    case False
    from assms(2) [OF False] fx have "checkpoints t' = []" "isl r'"
      by simp_all
    then show ?thesis
      unfolding Inr
      by (simp add: gated_def bind_io_def await_checkpoint_def fx)
  qed
qed

lemma gated_upgradeInbound_try:
  "gated
     ((if gater_denyInboundConnection (connectionGater (components u)) \<noteq> None
       then [denyInboundConnection] else [])
      @ (if \<not> skipEncryption opts
           \<and> gater_denyInboundEncryptedConnection (connectionGater (components u)) \<noteq> None
         then [gater denyInboundEncryptedConnection] else [])
      @ (if gater_denyInboundUpgradedConnection (connectionGater (components u)) \<noteq> None
         then [gater denyInboundUpgradedConnection] else []))
     (upgradeInbound_try pf u maConn opts)"
proof -
  let ?enc = "if \<not> skipEncryption opts
           \<and> gater_denyInboundEncryptedConnection (connectionGater (components u)) \<noteq> None
         then [gater denyInboundEncryptedConnection] else []"
  let ?upg = "if gater_denyInboundUpgradedConnection (connectionGater (components u)) \<noteq> None
         then [gater denyInboundUpgradedConnection] else []"
  let ?rest = "bind_io (protect u maConn opts) (\<lambda>protectedConn.
       bind_io
         (try_catch (upgradeInbound_inner pf u maConn protectedConn opts) (\<lambda>err. throw err))
         (\<lambda>(remotePeer, cryptoProtocol, upgradedConn, muxerFactory).
       bind_io (shouldBlockConnection u remotePeer maConn denyInboundUpgradedConnection) (\<lambda>_.
       createConnection pf
         \<lparr>cc_cryptoProtocol = cryptoProtocol,
          cc_direction = inbound,
          cc_maConn = maConn,
          cc_upgradedConn = upgradedConn,
          cc_remotePeer = remotePeer,
          cc_muxerFactory = muxerFactory,
          cc_limits = opt_limits opts\<rparr>)))"
  have tail: "gated ?upg
       (bind_io (shouldBlockConnection u remotePeer maConn denyInboundUpgradedConnection) (\<lambda>_.
          createConnection pf copts))" for remotePeer copts
    using gated_shouldBlockConnection [of u denyInboundUpgradedConnection remotePeer maConn]
    by (intro gated_before quiet_createConnection) simp
  have rest: "gated (?enc @ ?upg) ?rest"
  proof (rule gated_then [OF quiet_protect])
    fix pc
    show "gated (?enc @ ?upg)
       (bind_io (try_catch (upgradeInbound_inner pf u maConn pc opts) (\<lambda>err. throw err))
         (\<lambda>(remotePeer, cryptoProtocol, upgradedConn, muxerFactory).
       bind_io (shouldBlockConnection u remotePeer maConn denyInboundUpgradedConnection) (\<lambda>_.
       createConnection pf
         \<lparr>cc_cryptoProtocol = cryptoProtocol,
          cc_direction = inbound,
          cc_maConn = maConn,
          cc_upgradedConn = upgradedConn,
          cc_remotePeer = remotePeer,
          cc_muxerFactory = muxerFactory,
          cc_limits = opt_limits opts\<rparr>)))"
      unfolding try_catch_rethrow
      by (rule gated_bind_io [OF gated_upgradeInbound_inner])
        (simp only: split_def tail)
  qed
  show ?thesis
  proof (cases "gater_denyInboundConnection (connectionGater (components u))")
    case None
    with rest show ?thesis
      by (simp add: upgradeInbound_try_def bind_io_def ret_def split: prod.splits)
  next
    case (Some deny)
    have "gated (denyInboundConnection # ?enc @ ?upg)
       (bind_io (await_checkpoint denyInboundConnection (deny maConn)) (\<lambda>denied.
          if denied then
            throw (ConnectionInterceptedError
              ''The multiaddr connection is blocked by gater.acceptConnection'')
          else ?rest))"
    proof (rule gated_gate)
      fix x
      assume "passes (denyInboundConnection, Inr x)"
      then have "\<not> x"
        by simp
      then show "gated (?enc @ ?upg)
          (if x then
             throw (ConnectionInterceptedError
               ''The multiaddr connection is blocked by gater.acceptConnection'')
           else ?rest)"
        using rest by (simp only: if_False)
    next
      fix x
      assume "\<not> passes (denyInboundConnection, Inr x)"
      then have x
        by simp
      then show "checkpoints
            (fst (if x then
                    throw (ConnectionInterceptedError
                      ''The multiaddr connection is blocked by gater.acceptConnection'')
                  else ?rest)) = []
          \<and> isl (snd (if x then
                    throw (ConnectionInterceptedError
                      ''The multiaddr connection is blocked by gater.acceptConnection'')
                  else ?rest))"
        by (simp add: throw_def)
    qed
    with Some show ?thesis
      by (simp add: upgradeInbound_try_def)
  qed
qed

lemma gated_upgradeInbound:
  "gated (inbound_checkpoints u opts) (upgradeInbound pf u maConn opts)"
proof -
  have fin: "gated order (bind_io (emit TimeoutListenerAdded) (\<lambda>_.
       try_finally (on_timeout k (MaConnAbort e) m)
         [TimeoutListenerRemoved, AfterUpgradeInbound]))" if "gated order m"
    for order k e and m :: "Connection io"
    using that checkpoints_on_timeout [of k e m] on_timeout_snd [of k "MaConnAbort e" m]
    by (cases "on_timeout k (MaConnAbort e) m")
      (simp add: gated_def bind_io_def emit_def try_finally_def)
  show ?thesis
    unfolding upgradeInbound_def inbound_checkpoints_def Let_def append_Cons append_Nil
  proof (rule gated_gate)
    fix x
    assume "passes (acceptIncomingConnection, Inr x)"
    then have x
      by simp
    then show "gated
        ((if gater_denyInboundConnection (connectionGater (components u)) \<noteq> None
          then [denyInboundConnection] else [])
         @ (if \<not> skipEncryption opts
              \<and> gater_denyInboundEncryptedConnection (connectionGater (components u)) \<noteq> None
            then [gater denyInboundEncryptedConnection] else [])
         @ (if gater_denyInboundUpgradedConnection (connectionGater (components u)) \<noteq> None
            then [gater denyInboundUpgradedConnection] else []))
        (if \<not> x then throw (ConnectionDeniedError ''connection denied'')
         else
           bind_io (emit TimeoutListenerAdded) (\<lambda>_.
           try_finally
             (on_timeout (timeout_fires pf)
                (MaConnAbort (TimeoutError ''inbound upgrade timeout''))
                (upgradeInbound_try pf u maConn opts))
             [TimeoutListenerRemoved, AfterUpgradeInbound]))"
      using fin [OF gated_upgradeInbound_try]
      by (simp only: not_True_eq_False if_False)
  next
    fix x
    assume "\<not> passes (acceptIncomingConnection, Inr x)"
    then have "\<not> x"
      by simp
    then show "checkpoints
          (fst (if \<not> x then throw (ConnectionDeniedError ''connection denied'')
                else
                  bind_io (emit TimeoutListenerAdded) (\<lambda>_.
                  try_finally
                    (on_timeout (timeout_fires pf)
                       (MaConnAbort (TimeoutError ''inbound upgrade timeout''))
                       (upgradeInbound_try pf u maConn opts))
                    [TimeoutListenerRemoved, AfterUpgradeInbound]))) = []
        \<and> isl (snd (if \<not> x then throw (ConnectionDeniedError ''connection denied'')
                else
                  bind_io (emit TimeoutListenerAdded) (\<lambda>_.
                  try_finally
                    (on_timeout (timeout_fires pf)
                       (MaConnAbort (TimeoutError ''inbound upgrade timeout''))
                       (upgradeInbound_try pf u maConn opts))
                    [TimeoutListenerRemoved, AfterUpgradeInbound])))"
      by (simp add: throw_def)
  qed
qed

lemma subseq_inbound_checkpoints: "subseq (inbound_checkpoints u opts) inbound_order"
  by (auto simp: inbound_checkpoints_def inbound_order_def Let_def)

subsection \<open>Helper lemmas: the stages of an inbound upgrade\<close>

lemma stages_append [simp]: "stages (t @ t') = stages t @ stages t'"
  by (induction t) (simp_all split: option.splits)

lemma stages_Nil_checkpoints: "stages t = [] \<Longrightarrow> checkpoints t = []"
  by (induction t rule: checkpoints.induct) (simp_all split: option.splits)

lemma halted_quiet: "checkpoints t = [] \<Longrightarrow> halted t"
  by (induction t rule: halted.induct) simp_all

lemma halted_append:
  "halted t \<Longrightarrow> halted t' \<Longrightarrow> list_all passes (checkpoints t) \<or> stages t' = []
     \<Longrightarrow> halted (t @ t')"
  by (induction t rule: halted.induct) auto

lemma halted_insert: "halted (t1 @ t2) \<Longrightarrow> halted (t1 @ MaConnAbort e # t2)"
  by (induction t1 rule: halted.induct) simp_all

lemma stages_on_timeout: "stages (fst (on_timeout k (MaConnAbort e) m)) = stages (fst m)"
proof (cases k)
  case None
  then show ?thesis
    by (simp add: on_timeout_def)
next
  case (Some n)
  have "stages (take (Suc n) (fst m) @ MaConnAbort e # drop (Suc n) (fst m))
          = stages (take (Suc n) (fst m) @ drop (Suc n) (fst m))"
    by (simp only: stages_append) simp
  with Some show ?thesis
    by (cases m) (simp add: on_timeout_def del: stages_append)
qed

lemma halted_on_timeout:
  assumes "halted (fst m)"
  shows "halted (fst (on_timeout k (MaConnAbort e) m))"
proof (cases k)
  case None
  with assms show ?thesis
    by (simp add: on_timeout_def)
next
  case (Some n)
  from assms have "halted (take (Suc n) (fst m) @ drop (Suc n) (fst m))"
    by simp
  then have "halted (take (Suc n) (fst m) @ MaConnAbort e # drop (Suc n) (fst m))"
    by (rule halted_insert)
  with Some assms show ?thesis
    by (cases m) (simp add: on_timeout_def)
qed

lemma staged_bind_io:
  assumes "staged o1 m" and "\<And>x. snd m = Inr x \<Longrightarrow> staged o2 (f x)"
  shows "staged (o1 @ o2) (bind_io m f)"
proof (cases m)
  case (Pair t r)
  show ?thesis
  proof (cases r)
    case (Inl err)
    with Pair assms(1) show ?thesis
      by (auto simp: staged_def bind_io_def prefix_def)
  next
    case (Inr x)
    obtain t' r' where fx: "f x = (t', r')"
      by (cases "f x")
    from assms(2) [of x] Pair Inr fx have s2: "staged o2 (t', r')"
      by simp
    from assms(1) Pair Inr have s1:
      "stages t = o1" "halted t" "list_all passes (checkpoints t)"
      by (auto simp: staged_def)
    from s1 s2 have "halted (t @ t')"
      by (intro halted_append) (simp_all add: staged_def)
    with s1 s2 show ?thesis
      unfolding Pair Inr
      by (auto simp: staged_def bind_io_def fx)
  qed
qed

lemma staged_quiet: "stages (fst m) = [] \<Longrightarrow> staged [] m"
  by (simp add: staged_def stages_Nil_checkpoints halted_quiet)

lemma staged_fail: "stages (fst m) = [] \<Longrightarrow> isl (snd m) \<Longrightarrow> staged order m"
  by (simp add: staged_def stages_Nil_checkpoints halted_quiet)

lemma staged_then:
  "stages (fst m) = [] \<Longrightarrow> (\<And>x. staged order (f x)) \<Longrightarrow> staged order (bind_io m f)"
  using staged_bind_io [of "[]" m order f] by (simp add: staged_quiet)

lemma staged_before:
  "staged order m \<Longrightarrow> (\<And>x. stages (fst (f x)) = []) \<Longrightarrow> staged order (bind_io m f)"
  using staged_bind_io [of order m "[]" f] by (simp add: staged_quiet)

lemma staged_gate:
  assumes "\<And>x. passes (cp, Inr x) \<Longrightarrow> staged order (f x)"
    and "\<And>x. \<not> passes (cp, Inr x) \<Longrightarrow> stages (fst (f x)) = [] \<and> isl (snd (f x))"
  shows "staged (Gate cp # order) (bind_io (await_checkpoint cp r) f)"
proof (cases r)
  case (Inl err)
  then show ?thesis
    by (simp add: staged_def bind_io_def await_checkpoint_def)
next
  case (Inr x)
  obtain t' r' where fx: "f x = (t', r')"
    by (cases "f x")
  show ?thesis
  proof (cases "passes (cp, Inr x)")
    case True
    from assms(1) [OF True] fx have "staged order (t', r')"
      by simp
    with True show ?thesis
      unfolding Inr
      by (auto simp: staged_def bind_io_def await_checkpoint_def fx)
  next
    case False
    from assms(2) [OF False] fx have "stages t' = []" "isl r'"
      by simp_all
    then show ?thesis
      unfolding Inr
      by (simp add: staged_def bind_io_def await_checkpoint_def fx stages_Nil_checkpoints
            halted_quiet)
  qed
qed

lemma still_progress: "stages (fst (progress opts s)) = []"
  by (simp add: progress_def emit_def ret_def)

lemma still_ret: "stages (fst (ret x)) = []"
  by (simp add: ret_def)

lemma staged_protect:
  "staged
     (if \<not> skipProtection opts \<and> connectionProtector (components u) \<noteq> None
      then [Protection] else [])
     (protect u c opts)"
  by (auto simp: staged_def protect_def await_def ret_def split: option.splits)

lemma staged_encryptInbound:
  "staged [Negotiation (Map_keys (connectionEncrypters u)), Handshake] (encryptInbound pf u c)"
  by (auto simp: staged_def encryptInbound_def io_defs Let_def
        split: option.splits sum.splits prod.splits)

lemma staged_multiplexInbound: "staged [Negotiation (Map_keys ms)] (multiplexInbound pf c ms)"
  by (auto simp: staged_def multiplexInbound_def io_defs Let_def
        split: option.splits sum.splits prod.splits)

lemma staged_createConnection:
  "staged [Dispatch ''connection:open''] (createConnection pf copts)"
  by (simp add: staged_def createConnection_def Let_def)

lemma staged_shouldBlockConnection:
  "staged
     (if gater_method (connectionGater (components u)) ty \<noteq> None then [Gate (gater ty)] else [])
     (shouldBlockConnection u p c ty)"
  by (auto simp: staged_def shouldBlockConnection_def io_defs split: option.splits sum.splits)

lemma staged_upgradeInbound_inner:
  "staged
     ((if \<not> skipEncryption opts then
         [Negotiation (Map_keys (connectionEncrypters u)), Handshake]
         @ (if gater_denyInboundEncryptedConnection (connectionGater (components u)) \<noteq> None
            then [Gate (gater denyInboundEncryptedConnection)] else [])
       else [])
      @ (if opt_muxerFactory opts = None \<and> length (streamMuxers u) > 0
         then [Negotiation (Map_keys (streamMuxers u))] else []))
     (upgradeInbound_inner pf u maConn pc opts)"
  unfolding upgradeInbound_inner_def
proof (rule staged_bind_io)
  show "staged
     (if \<not> skipEncryption opts then
         [Negotiation (Map_keys (connectionEncrypters u)), Handshake]
         @ (if gater_denyInboundEncryptedConnection (connectionGater (components u)) \<noteq> None
            then [Gate (gater denyInboundEncryptedConnection)] else [])
       else [])
     (if \<not> skipEncryption opts then
          bind_io (progress opts ''upgrader:encrypt-inbound-connection'') (\<lambda>_.
          bind_io (encryptInbound pf u pc) (\<lambda>cr.
          bind_io
            (shouldBlockConnection u (crypto_remotePeer cr)
               (spread pc (crypto_conn cr)) denyInboundEncryptedConnection) (\<lambda>_.
          ret (crypto_conn cr, crypto_remotePeer cr, crypto_protocol cr))))
        else
          (case getPeerId (remoteAddr maConn) of
             None \<Rightarrow>
               throw (InvalidMultiaddrError
                 ''inbound connection that skipped encryption must have a peer id'')
           | Some idStr \<Rightarrow>
               bind_io (attempt (peerIdFromString pf idStr)) (\<lambda>remotePeerId.
               ret (pc, remotePeerId, ''native''))))"
  proof (cases "skipEncryption opts")
    case True
    then show ?thesis
      by (auto simp: io_defs split: option.splits sum.splits intro!: staged_quiet)
  next
    case False
    have gate: "staged
       (if gater_denyInboundEncryptedConnection (connectionGater (components u)) \<noteq> None
        then [Gate (gater denyInboundEncryptedConnection)] else [])
       (bind_io
            (shouldBlockConnection u (crypto_remotePeer cr)
               (spread pc (crypto_conn cr)) denyInboundEncryptedConnection) (\<lambda>_.
          ret (crypto_conn cr, crypto_remotePeer cr, crypto_protocol cr)))" for cr
      using staged_shouldBlockConnection
        [of u denyInboundEncryptedConnection "crypto_remotePeer cr" "spread pc (crypto_conn cr)"]
      by (intro staged_before still_ret) simp
    have "staged
       ([Negotiation (Map_keys (connectionEncrypters u)), Handshake]
        @ (if gater_denyInboundEncryptedConnection (connectionGater (components u)) \<noteq> None
           then [Gate (gater denyInboundEncryptedConnection)] else []))
       (bind_io (progress opts ''upgrader:encrypt-inbound-connection'') (\<lambda>_.
          bind_io (encryptInbound pf u pc) (\<lambda>cr.
          bind_io
            (shouldBlockConnection u (crypto_remotePeer cr)
               (spread pc (crypto_conn cr)) denyInboundEncryptedConnection) (\<lambda>_.
          ret (crypto_conn cr, crypto_remotePeer cr, crypto_protocol cr)))))"
      by (rule staged_then [OF still_progress])
        (rule staged_bind_io [OF staged_encryptInbound gate])
    with False show ?thesis
      by (simp only: if_True not_False_eq_True)
  qed
next
  fix x :: "MultiaddrConnection \<times> PeerId \<times> string"
  obtain encryptedConn remotePeer cryptoProtocol where x:
    "x = (encryptedConn, remotePeer, cryptoProtocol)"
    by (cases x)
  have mux: "staged [Negotiation (Map_keys (streamMuxers u))]
      (bind_io (progress opts ''upgrader:multiplex-inbound-connection'') (\<lambda>_.
       bind_io (multiplexInbound pf (spread pc encryptedConn) (streamMuxers u))
         (\<lambda>(stream, muxerFactory). ret (remotePeer, cryptoProtocol, stream, muxerFactory))))"
    by (rule staged_then [OF still_progress])
      (rule staged_before [OF staged_multiplexInbound], simp add: split_def ret_def)
  show "staged
      (if opt_muxerFactory opts = None \<and> length (streamMuxers u) > 0
       then [Negotiation (Map_keys (streamMuxers u))] else [])
      (case x of
         (encryptedConn, remotePeer, cryptoProtocol) \<Rightarrow>
           (case opt_muxerFactory opts of
              Some mf \<Rightarrow> ret (remotePeer, cryptoProtocol, encryptedConn, Some mf)
            | None \<Rightarrow>
                if length (streamMuxers u) > 0 then
                  bind_io (progress opts ''upgrader:multiplex-inbound-connection'') (\<lambda>_.
                  bind_io
                    (multiplexInbound pf (spread pc encryptedConn) (streamMuxers u))
                    (\<lambda>(stream, muxerFactory).
                       ret (remotePeer, cryptoProtocol, stream, muxerFactory)))
                else ret (remotePeer, cryptoProtocol, encryptedConn, None)))"
  proof (cases "opt_muxerFactory opts")
    case (Some mf)
    then show ?thesis
      by (simp add: x staged_quiet still_ret)
  next
    case None
    show ?thesis
    proof (cases "length (streamMuxers u) > 0")
      case True
      with None mux show ?thesis
        by (simp add: x)
    next
      case False
      with None show ?thesis
        by (simp add: x staged_quiet still_ret)
    qed
  qed
qed

lemma staged_upgradeInbound_try:
  "staged
     ((if gater_denyInboundConnection (connectionGater (components u)) \<noteq> None
       then [Gate denyInboundConnection] else [])
      @ (if \<not> skipProtection opts \<and> connectionProtector (components u) \<noteq> None
         then [Protection] else [])
      @ (if \<not> skipEncryption opts then
           [Negotiation (Map_keys (connectionEncrypters u)), Handshake]
           @ (if gater_denyInboundEncryptedConnection (connectionGater (components u)) \<noteq> None
              then [Gate (gater denyInboundEncryptedConnection)] else [])
         else [])
      @ (if opt_muxerFactory opts = None \<and> length (streamMuxers u) > 0
         then [Negotiation (Map_keys (streamMuxers u))] else [])
      @ (if gater_denyInboundUpgradedConnection (connectionGater (components u)) \<noteq> None
         then [Gate (gater denyInboundUpgradedConnection)] else [])
      @ [Dispatch ''connection:open''])
     (upgradeInbound_try pf u maConn opts)"
proof -
  let ?prot = "if \<not> skipProtection opts \<and> connectionProtector (components u) \<noteq> None
         then [Protection] else []"
  let ?inner = "(if \<not> skipEncryption opts then
           [Negotiation (Map_keys (connectionEncrypters u)), Handshake]
           @ (if gater_denyInboundEncryptedConnection (connectionGater (components u)) \<noteq> None
              then [Gate (gater denyInboundEncryptedConnection)] else [])
         else [])
      @ (if opt_muxerFactory opts = None \<and> length (streamMuxers u) > 0
         then [Negotiation (Map_keys (streamMuxers u))] else [])"
  let ?upg = "(if gater_denyInboundUpgradedConnection (connectionGater (components u)) \<noteq> None
         then [Gate (gater denyInboundUpgradedConnection)] else [])
      @ [Dispatch ''connection:open'']"
  let ?rest = "bind_io (protect u maConn opts) (\<lambda>protectedConn.
       bind_io
         (try_catch (upgradeInbound_inner pf u maConn protectedConn opts) (\<lambda>err. throw err))
         (\<lambda>(remotePeer, cryptoProtocol, upgradedConn, muxerFactory).
       bind_io (shouldBlockConnection u remotePeer maConn denyInboundUpgradedConnection) (\<lambda>_.
       createConnection pf
         \<lparr>cc_cryptoProtocol = cryptoProtocol,
          cc_direction = inbound,
          cc_maConn = maConn,
          cc_upgradedConn = upgradedConn,
          cc_remotePeer = remotePeer,
          cc_muxerFactory = muxerFactory,
          cc_limits = opt_limits opts\<rparr>)))"
  have tail: "staged ?upg
       (bind_io (shouldBlockConnection u remotePeer maConn denyInboundUpgradedConnection) (\<lambda>_.
          createConnection pf copts))" for remotePeer copts
    using staged_bind_io
      [OF staged_shouldBlockConnection [of u denyInboundUpgradedConnection remotePeer maConn],
        of "[Dispatch ''connection:open'']" "\<lambda>_. createConnection pf copts"]
      staged_createConnection [of pf copts]
    by simp
  have rest: "staged (?prot @ ?inner @ ?upg) ?rest"
  proof (rule staged_bind_io [OF staged_protect])
    fix pc
    show "staged (?inner @ ?upg)
       (bind_io (try_catch (upgradeInbound_inner pf u maConn pc opts) (\<lambda>err. throw err))
         (\<lambda>(remotePeer, cryptoProtocol, upgradedConn, muxerFactory).
       bind_io (shouldBlockConnection u remotePeer maConn denyInboundUpgradedConnection) (\<lambda>_.
       createConnection pf
         \<lparr>cc_cryptoProtocol = cryptoProtocol,
          cc_direction = inbound,
          cc_maConn = maConn,
          cc_upgradedConn = upgradedConn,
          cc_remotePeer = remotePeer,
          cc_muxerFactory = muxerFactory,
          cc_limits = opt_limits opts\<rparr>)))"
      unfolding try_catch_rethrow
      by (rule staged_bind_io [OF staged_upgradeInbound_inner])
        (simp only: split_def tail)
  qed
  show ?thesis
  proof (cases "gater_denyInboundConnection (connectionGater (components u))")
    case None
    with rest show ?thesis
      by (simp add: upgradeInbound_try_def bind_io_def ret_def split: prod.splits)
  next
    case (Some deny)
    have "staged (Gate denyInboundConnection # ?prot @ ?inner @ ?upg)
       (bind_io (await_checkpoint denyInboundConnection (deny maConn)) (\<lambda>denied.
          if denied then
            throw (ConnectionInterceptedError
              ''The multiaddr connection is blocked by gater.acceptConnection'')
          else ?rest))"
    proof (rule staged_gate)
      fix x
      assume "passes (denyInboundConnection, Inr x)"
      then have "\<not> x"
        by simp
      then show "staged (?prot @ ?inner @ ?upg)
          (if x then
             throw (ConnectionInterceptedError
               ''The multiaddr connection is blocked by gater.acceptConnection'')
           else ?rest)"
        using rest by (simp only: if_False)
    next
      fix x
      assume "\<not> passes (denyInboundConnection, Inr x)"
      then have x
        by simp
      then show "stages
            (fst (if x then
                    throw (ConnectionInterceptedError
                      ''The multiaddr connection is blocked by gater.acceptConnection'')
                  else ?rest)) = []
          \<and> isl (snd (if x then
                    throw (ConnectionInterceptedError
                      ''The multiaddr connection is blocked by gater.acceptConnection'')
                  else ?rest))"
        by (simp add: throw_def)
    qed
    with Some show ?thesis
      by (simp add: upgradeInbound_try_def)
  qed
qed

lemma staged_upgradeInbound:
  "staged (inbound_schedule u opts) (upgradeInbound pf u maConn opts)"
proof -
  have fin: "staged order (bind_io (emit TimeoutListenerAdded) (\<lambda>_.
       try_finally (on_timeout k (MaConnAbort e) m)
         [TimeoutListenerRemoved, AfterUpgradeInbound]))" if "staged order m"
    for order k e and m :: "Connection io"
  proof -
    obtain t r where run: "on_timeout k (MaConnAbort e) m = (t, r)"
      by (cases "on_timeout k (MaConnAbort e) m")
    with that stages_on_timeout [of k e m] checkpoints_on_timeout [of k e m]
      on_timeout_snd [of k "MaConnAbort e" m] halted_on_timeout [of m k e]
    have "stages t = stages (fst m)" "checkpoints t = checkpoints (fst m)" "r = snd m"
      "halted t"
      by (simp_all add: staged_def)
    moreover from \<open>halted t\<close> have "halted (t @ [TimeoutListenerRemoved, AfterUpgradeInbound])"
      by (intro halted_append) simp_all
    ultimately show ?thesis
      using that
      by (simp add: staged_def bind_io_def emit_def try_finally_def run)
  qed
  show ?thesis
    unfolding upgradeInbound_def inbound_schedule_def Let_def append_Cons append_Nil
  proof (rule staged_gate)
    fix x
    assume "passes (acceptIncomingConnection, Inr x)"
    then have x
      by simp
    then show "staged
        ((if gater_denyInboundConnection (connectionGater (components u)) \<noteq> None
          then [Gate denyInboundConnection] else [])
         @ (if \<not> skipProtection opts \<and> connectionProtector (components u) \<noteq> None
            then [Protection] else [])
         @ (if \<not> skipEncryption opts then
              Negotiation (Map_keys (connectionEncrypters u)) # Handshake
              # (if gater_denyInboundEncryptedConnection (connectionGater (components u)) \<noteq> None
                 then [Gate (gater denyInboundEncryptedConnection)] else [])
            else [])
         @ (if opt_muxerFactory opts = None \<and> length (streamMuxers u) > 0
            then [Negotiation (Map_keys (streamMuxers u))] else [])
         @ (if gater_denyInboundUpgradedConnection (connectionGater (components u)) \<noteq> None
            then [Gate (gater denyInboundUpgradedConnection)] else [])
         @ [Dispatch ''connection:open''])
        (if \<not> x then throw (ConnectionDeniedError ''connection denied'')
         else
           bind_io (emit TimeoutListenerAdded) (\<lambda>_.
           try_finally
             (on_timeout (timeout_fires pf)
                (MaConnAbort (TimeoutError ''inbound upgrade timeout''))
                (upgradeInbound_try pf u maConn opts))
             [TimeoutListenerRemoved, AfterUpgradeInbound]))"
      using fin [OF staged_upgradeInbound_try]
      by (simp only: not_True_eq_False if_False append_Cons append_Nil)
  next
    fix x
    assume "\<not> passes (acceptIncomingConnection, Inr x)"
    then have "\<not> x"
      by simp
    then show "stages
          (fst (if \<not> x then throw (ConnectionDeniedError ''connection denied'')
                else
                  bind_io (emit TimeoutListenerAdded) (\<lambda>_.
                  try_finally
                    (on_timeout (timeout_fires pf)
                       (MaConnAbort (TimeoutError ''inbound upgrade timeout''))
                       (upgradeInbound_try pf u maConn opts))
                    [TimeoutListenerRemoved, AfterUpgradeInbound]))) = []
        \<and> isl (snd (if \<not> x then throw (ConnectionDeniedError ''connection denied'')
                else
                  bind_io (emit TimeoutListenerAdded) (\<lambda>_.
                  try_finally
                    (on_timeout (timeout_fires pf)
                       (MaConnAbort (TimeoutError ''inbound upgrade timeout''))
                       (upgradeInbound_try pf u maConn opts))
                    [TimeoutListenerRemoved, AfterUpgradeInbound])))"
      by (simp add: throw_def)
  qed
qed

subsection \<open>C2: order of the inbound gating checkpoints\<close>

text \<open>
  C2, as the spec states it: during every inbound upgrade the four gating checkpoints
  \<open>acceptIncomingConnection\<close>, \<open>denyInboundConnection\<close>,
  \<open>denyInboundEncryptedConnection\<close> and \<open>denyInboundUpgradedConnection\<close> are invoked, in
  this order, and a checkpoint that denies fails the upgrade, so that no later checkpoint
  is invoked.  The post-encryption checkpoint stands in the branch that encrypts: an
  upgrade that skips encryption returns its connection, under a gater that has all its
  methods and denies nothing, without a call of \<open>denyInboundEncryptedConnection\<close>.
\<close>

theorem upgradeInbound_checkpoints_counterexample:
  "map fst (checkpoints (fst (upgradeInbound (ex_platform None)
       (ex_upgrader (ex_components (Inr True) (Some (Inr False)) []))
       (ex_maConn ex_addr_peer) ex_skip)))
     = [acceptIncomingConnection, denyInboundConnection, gater denyInboundUpgradedConnection]
   \<and> \<not> isl (snd (upgradeInbound (ex_platform None)
       (ex_upgrader (ex_components (Inr True) (Some (Inr False)) []))
       (ex_maConn ex_addr_peer) ex_skip))
   \<and> gater_denyInboundEncryptedConnection
       (connectionGater (components (ex_upgrader (ex_components (Inr True) (Some (Inr False)) []))))
     \<noteq> None"
  by (simp add: ex_defs ex_skip_def io_defs upgrade_defs)

text \<open>
  C2, amended: during every inbound upgrade the gating checkpoints are invoked in the
  order \<open>acceptIncomingConnection\<close>, \<open>denyInboundConnection\<close>,
  \<open>denyInboundEncryptedConnection\<close>, \<open>denyInboundUpgradedConnection\<close>, where the
  post-encryption checkpoint is invoked only when encryption is not skipped and a gater
  method only when the gater has it; a checkpoint that denies fails the upgrade, so that
  no later checkpoint is invoked.

  For every run of \<open>upgradeInbound\<close>: the checkpoints called are a subsequence of the four
  in their order, and the first ones of those the upgrade has to pass
  (\<open>inbound_checkpoints\<close>); a checkpoint that does not let the upgrade pass is the last
  one called and the upgrade throws; an upgrade that returns a connection has passed all
  of them, which are all four, in order, when encryption is not skipped and no gater
  method is absent.

  The place of each checkpoint among the other stages: the stages of the run (the
  checkpoints, the protector, the negotiations of \<^verbatim>\<open>_encryptInbound\<close> and
  \<^verbatim>\<open>_multiplexInbound\<close>, the encrypter's handshake, the dispatch of
  \<^verbatim>\<open>connection:open\<close>) are the first ones of \<open>inbound_schedule\<close>, where
  \<open>denyInboundConnection\<close> stands before the protector and the encryption,
  \<open>denyInboundEncryptedConnection\<close> right after the handshake and before the negotiation
  of a muxer, and \<open>denyInboundUpgradedConnection\<close> after that negotiation and before
  \<^verbatim>\<open>connection:open\<close>; no stage follows a checkpoint that does not pass; and a run that
  returns a connection has gone through the whole schedule.
\<close>

theorem upgradeInbound_checkpoints:
  assumes "upgradeInbound pf u maConn opts = (t, r)"
  shows "subseq (map fst (checkpoints t)) inbound_order
     \<and> prefix (map fst (checkpoints t)) (inbound_checkpoints u opts)
     \<and> (\<forall>i. i < length (checkpoints t) \<and> \<not> passes (checkpoints t ! i)
            \<longrightarrow> Suc i = length (checkpoints t))
     \<and> ((\<exists>c \<in> set (checkpoints t). \<not> passes c) \<longrightarrow> (\<exists>err. r = Inl err))
     \<and> ((\<exists>c. r = Inr c) \<longrightarrow> map fst (checkpoints t) = inbound_checkpoints u opts)
     \<and> ((\<exists>c. r = Inr c) \<and> \<not> skipEncryption opts
          \<and> gater_denyInboundConnection (connectionGater (components u)) \<noteq> None
          \<and> gater_denyInboundEncryptedConnection (connectionGater (components u)) \<noteq> None
          \<and> gater_denyInboundUpgradedConnection (connectionGater (components u)) \<noteq> None
          \<longrightarrow> map fst (checkpoints t) = inbound_order)
     \<and> prefix (stages t) (inbound_schedule u opts)
     \<and> halted t
     \<and> ((\<exists>c. r = Inr c) \<longrightarrow> stages t = inbound_schedule u opts)"
proof -
  let ?cps = "checkpoints t"
  from gated_upgradeInbound [of u opts pf maConn] assms
  have pre: "prefix (map fst ?cps) (inbound_checkpoints u opts)"
    and bl: "list_all passes (butlast ?cps)"
    and ok: "\<not> isl r \<Longrightarrow> map fst ?cps = inbound_checkpoints u opts \<and> list_all passes ?cps"
    by (simp_all add: gated_def)
  have sub: "subseq (map fst ?cps) inbound_order"
    using pre subseq_inbound_checkpoints [of u opts]
    by (meson prefix_imp_subseq subseq_order.trans)
  have last: "Suc i = length ?cps" if "i < length ?cps" "\<not> passes (?cps ! i)" for i
  proof (rule ccontr)
    assume "Suc i \<noteq> length ?cps"
    with that(1) have "i < length (butlast ?cps)"
      by simp
    with bl have "passes (butlast ?cps ! i)"
      by (simp add: list_all_length)
    with \<open>i < length (butlast ?cps)\<close> that(2) show False
      by (simp add: nth_butlast)
  qed
  have deny: "\<exists>err. r = Inl err" if "\<exists>c \<in> set ?cps. \<not> passes c"
  proof (cases r)
    case (Inr c)
    with ok have "list_all passes ?cps"
      by simp
    with that show ?thesis
      by (auto simp: list_all_iff)
  qed simp
  have full: "map fst ?cps = inbound_checkpoints u opts" if "\<exists>c. r = Inr c"
    using that ok by auto
  have four: "inbound_checkpoints u opts = inbound_order"
    if "\<not> skipEncryption opts"
      "gater_denyInboundConnection (connectionGater (components u)) \<noteq> None"
      "gater_denyInboundEncryptedConnection (connectionGater (components u)) \<noteq> None"
      "gater_denyInboundUpgradedConnection (connectionGater (components u)) \<noteq> None"
    using that by (simp add: inbound_checkpoints_def inbound_order_def)
  from staged_upgradeInbound [of u opts pf maConn] assms
  have sched: "prefix (stages t) (inbound_schedule u opts)"
    and halt: "halted t"
    and whole: "\<not> isl r \<Longrightarrow> stages t = inbound_schedule u opts"
    by (simp_all add: staged_def)
  have through: "stages t = inbound_schedule u opts" if "\<exists>c. r = Inr c"
    using that whole by auto
  from sub pre last deny full four sched halt through show ?thesis
    by (intro conjI impI allI) auto
qed

theorem upgradeInbound_checkpoints_witness:
  "map fst (checkpoints (fst (upgradeInbound (ex_platform None)
       (ex_upgrader (ex_components (Inr True) (Some (Inr False)) []))
       (ex_maConn ex_addr) no_options)))
     = [acceptIncomingConnection, denyInboundConnection,
        gater denyInboundEncryptedConnection, gater denyInboundUpgradedConnection]
   \<and> (\<exists>c. snd (upgradeInbound (ex_platform None)
       (ex_upgrader (ex_components (Inr True) (Some (Inr False)) []))
       (ex_maConn ex_addr) no_options) = Inr c)
   \<and> stages (fst (upgradeInbound (ex_platform None)
       (ex_upgrader (ex_components (Inr True) (Some (Inr False)) []))
       (ex_maConn ex_addr) no_options))
     = [Gate acceptIncomingConnection, Gate denyInboundConnection,
        Negotiation [''/noise''], Handshake, Gate (gater denyInboundEncryptedConnection),
        Negotiation [''/yamux/1.0.0''], Gate (gater denyInboundUpgradedConnection),
        Dispatch ''connection:open'']
   \<and> checkpoints (fst (upgradeInbound (ex_platform None)
       (ex_upgrader (ex_components (Inr True) (Some (Inr True)) []))
       (ex_maConn ex_addr) no_options))
     = [(acceptIncomingConnection, Inr True), (denyInboundConnection, Inr True)]
   \<and> (\<exists>err. snd (upgradeInbound (ex_platform None)
       (ex_upgrader (ex_components (Inr True) (Some (Inr True)) []))
       (ex_maConn ex_addr) no_options) = Inl err)
   \<and> stages (fst (upgradeInbound (ex_platform None)
       (ex_upgrader (ex_components (Inr True) (Some (Inr True)) []))
       (ex_maConn ex_addr) no_options))
     = [Gate acceptIncomingConnection, Gate denyInboundConnection]"
proof -
  let ?allow = "upgradeInbound (ex_platform None)
       (ex_upgrader (ex_components (Inr True) (Some (Inr False)) []))
       (ex_maConn ex_addr) no_options"
  let ?deny = "upgradeInbound (ex_platform None)
       (ex_upgrader (ex_components (Inr True) (Some (Inr True)) []))
       (ex_maConn ex_addr) no_options"
  have returned: "\<exists>c. snd ?allow = Inr c"
    by (simp add: ex_defs io_defs upgrade_defs)
  have present:
    "\<not> skipEncryption no_options"
    "gater_denyInboundConnection (connectionGater (components
       (ex_upgrader (ex_components (Inr True) (Some (Inr False)) [])))) \<noteq> None"
    "gater_denyInboundEncryptedConnection (connectionGater (components
       (ex_upgrader (ex_components (Inr True) (Some (Inr False)) [])))) \<noteq> None"
    "gater_denyInboundUpgradedConnection (connectionGater (components
       (ex_upgrader (ex_components (Inr True) (Some (Inr False)) [])))) \<noteq> None"
    by (simp_all add: ex_defs)
  have called: "checkpoints (fst ?deny)
      = [(acceptIncomingConnection, Inr True), (denyInboundConnection, Inr True)]"
    by (simp add: ex_defs io_defs upgrade_defs)
  have allow: "?allow = (fst ?allow, snd ?allow)" and deny: "?deny = (fst ?deny, snd ?deny)"
    by simp_all
  from upgradeInbound_checkpoints [OF allow] returned present
  have "map fst (checkpoints (fst ?allow)) = inbound_order"
    by blast
  moreover from upgradeInbound_checkpoints [OF deny] called
  have "\<exists>err. snd ?deny = Inl err"
    by simp
  moreover from upgradeInbound_checkpoints [OF allow] returned
  have "stages (fst ?allow)
      = inbound_schedule (ex_upgrader (ex_components (Inr True) (Some (Inr False)) []))
          no_options"
    by blast
  then have "stages (fst ?allow)
      = [Gate acceptIncomingConnection, Gate denyInboundConnection,
         Negotiation [''/noise''], Handshake, Gate (gater denyInboundEncryptedConnection),
         Negotiation [''/yamux/1.0.0''], Gate (gater denyInboundUpgradedConnection),
         Dispatch ''connection:open'']"
    by (simp add: inbound_schedule_def ex_defs Map_keys_def)
  moreover have "stages (fst ?deny)
      = [Gate acceptIncomingConnection, Gate denyInboundConnection]"
    by (simp add: ex_defs io_defs upgrade_defs)
  ultimately show ?thesis
    using returned called by (simp add: inbound_order_def)
qed

subsection \<open>C5: closing the connection when an upgrade fails\<close>








subsection \<open>C6: upgrades that skip encryption\<close>

lemma createConnection_encryption:
  "createConnection pf copts = (t, Inr c) \<Longrightarrow> conn_encryption c = cc_cryptoProtocol copts"
  by (auto simp: createConnection_def Let_def)

lemma upgradeInbound_inner_skip:
  assumes "skipEncryption opts"
    and "upgradeInbound_inner pf u maConn pc opts = (t, Inr (remotePeer, cryptoProtocol, rest))"
  shows "cryptoProtocol = ''native''
     \<and> (\<exists>idStr. getPeerId (remoteAddr maConn) = Some idStr
           \<and> peerIdFromString pf idStr = Inr remotePeer)"
  using assms
  by (auto simp: upgradeInbound_inner_def io_defs
        split: option.splits sum.splits prod.splits if_splits)

lemma upgradeOutbound_try_skip:
  assumes "skipEncryption opts"
    and "upgradeOutbound_try pf u remotePeerId pc opts
           = (t, Inr (remotePeer, cryptoProtocol, rest))"
  shows "cryptoProtocol = ''native'' \<and> remotePeerId = Some remotePeer"
  using assms
  by (auto simp: upgradeOutbound_try_def io_defs
        split: option.splits sum.splits prod.splits if_splits)

lemma bind_io_returns:
  assumes "bind_io m f = (t, Inr y)"
  obtains t1 x t2 where "m = (t1, Inr x)" and "f x = (t2, Inr y)" and "t = t1 @ t2"
  using assms by (auto simp: bind_io_def split: prod.splits sum.splits)

lemma try_finally_returns:
  assumes "try_finally m fin = (t, Inr y)"
  obtains t1 where "m = (t1, Inr y)"
  using assms by (auto simp: try_finally_def split: prod.splits)

lemma upgradeInbound_try_returns:
  assumes "upgradeInbound_try pf u maConn opts = (t, Inr c)"
  shows "\<exists>pc t1 remotePeer cryptoProtocol rest.
           upgradeInbound_inner pf u maConn pc opts = (t1, Inr (remotePeer, cryptoProtocol, rest))
           \<and> conn_encryption c = cryptoProtocol"
proof -
  from assms [unfolded upgradeInbound_try_def try_catch_rethrow]
  obtain t1 denied t2 where
    "(if denied then
        throw (ConnectionInterceptedError
          ''The multiaddr connection is blocked by gater.acceptConnection'')
      else
        bind_io (protect u maConn opts) (\<lambda>protectedConn.
        bind_io (upgradeInbound_inner pf u maConn protectedConn opts)
          (\<lambda>(remotePeer, cryptoProtocol, upgradedConn, muxerFactory).
        bind_io (shouldBlockConnection u remotePeer maConn denyInboundUpgradedConnection) (\<lambda>_.
        createConnection pf
          \<lparr>cc_cryptoProtocol = cryptoProtocol,
           cc_direction = inbound,
           cc_maConn = maConn,
           cc_upgradedConn = upgradedConn,
           cc_remotePeer = remotePeer,
           cc_muxerFactory = muxerFactory,
           cc_limits = opt_limits opts\<rparr>)))) = (t2, Inr c)"
    by (rule bind_io_returns)
  then have "bind_io (protect u maConn opts) (\<lambda>protectedConn.
        bind_io (upgradeInbound_inner pf u maConn protectedConn opts)
          (\<lambda>(remotePeer, cryptoProtocol, upgradedConn, muxerFactory).
        bind_io (shouldBlockConnection u remotePeer maConn denyInboundUpgradedConnection) (\<lambda>_.
        createConnection pf
          \<lparr>cc_cryptoProtocol = cryptoProtocol,
           cc_direction = inbound,
           cc_maConn = maConn,
           cc_upgradedConn = upgradedConn,
           cc_remotePeer = remotePeer,
           cc_muxerFactory = muxerFactory,
           cc_limits = opt_limits opts\<rparr>))) = (t2, Inr c)"
    by (cases denied) (simp_all add: throw_def)
  then obtain tp pc t3 where
    "bind_io (upgradeInbound_inner pf u maConn pc opts)
          (\<lambda>(remotePeer, cryptoProtocol, upgradedConn, muxerFactory).
        bind_io (shouldBlockConnection u remotePeer maConn denyInboundUpgradedConnection) (\<lambda>_.
        createConnection pf
          \<lparr>cc_cryptoProtocol = cryptoProtocol,
           cc_direction = inbound,
           cc_maConn = maConn,
           cc_upgradedConn = upgradedConn,
           cc_remotePeer = remotePeer,
           cc_muxerFactory = muxerFactory,
           cc_limits = opt_limits opts\<rparr>)) = (t3, Inr c)"
    by (rule bind_io_returns)
  then obtain ti x t4 where
    inner: "upgradeInbound_inner pf u maConn pc opts = (ti, Inr x)" and
    "(case x of (remotePeer, cryptoProtocol, upgradedConn, muxerFactory) \<Rightarrow>
        bind_io (shouldBlockConnection u remotePeer maConn denyInboundUpgradedConnection) (\<lambda>_.
        createConnection pf
          \<lparr>cc_cryptoProtocol = cryptoProtocol,
           cc_direction = inbound,
           cc_maConn = maConn,
           cc_upgradedConn = upgradedConn,
           cc_remotePeer = remotePeer,
           cc_muxerFactory = muxerFactory,
           cc_limits = opt_limits opts\<rparr>)) = (t4, Inr c)"
    by (rule bind_io_returns)
  then obtain remotePeer cryptoProtocol upgradedConn muxerFactory where
    x: "x = (remotePeer, cryptoProtocol, upgradedConn, muxerFactory)" and
    "bind_io (shouldBlockConnection u remotePeer maConn denyInboundUpgradedConnection) (\<lambda>_.
        createConnection pf
          \<lparr>cc_cryptoProtocol = cryptoProtocol,
           cc_direction = inbound,
           cc_maConn = maConn,
           cc_upgradedConn = upgradedConn,
           cc_remotePeer = remotePeer,
           cc_muxerFactory = muxerFactory,
           cc_limits = opt_limits opts\<rparr>) = (t4, Inr c)"
    by (cases x) auto
  then obtain t5 where
    "createConnection pf
          \<lparr>cc_cryptoProtocol = cryptoProtocol,
           cc_direction = inbound,
           cc_maConn = maConn,
           cc_upgradedConn = upgradedConn,
           cc_remotePeer = remotePeer,
           cc_muxerFactory = muxerFactory,
           cc_limits = opt_limits opts\<rparr> = (t5, Inr c)"
    by (auto elim: bind_io_returns)
  from createConnection_encryption [OF this] inner x
  have "upgradeInbound_inner pf u maConn pc opts
          = (ti, Inr (remotePeer, cryptoProtocol, upgradedConn, muxerFactory))
        \<and> conn_encryption c = cryptoProtocol"
    by simp
  then show ?thesis
    by blast
qed

lemma upgradeInbound_returns:
  assumes "upgradeInbound pf u maConn opts = (t, Inr c)"
  shows "\<exists>t'. upgradeInbound_try pf u maConn opts = (t', Inr c)"
proof -
  from assms [unfolded upgradeInbound_def]
  obtain t1 accept t2 where
    "(if \<not> accept then throw (ConnectionDeniedError ''connection denied'')
      else
        bind_io (emit TimeoutListenerAdded) (\<lambda>_.
        try_finally
          (on_timeout (timeout_fires pf)
             (MaConnAbort (TimeoutError ''inbound upgrade timeout''))
             (upgradeInbound_try pf u maConn opts))
          [TimeoutListenerRemoved, AfterUpgradeInbound])) = (t2, Inr c)"
    by (rule bind_io_returns)
  then have "bind_io (emit TimeoutListenerAdded) (\<lambda>_.
        try_finally
          (on_timeout (timeout_fires pf)
             (MaConnAbort (TimeoutError ''inbound upgrade timeout''))
             (upgradeInbound_try pf u maConn opts))
          [TimeoutListenerRemoved, AfterUpgradeInbound]) = (t2, Inr c)"
    by (cases accept) (simp_all add: throw_def)
  then obtain t3 where
    "on_timeout (timeout_fires pf) (MaConnAbort (TimeoutError ''inbound upgrade timeout''))
       (upgradeInbound_try pf u maConn opts) = (t3, Inr c)"
    by (auto elim!: bind_io_returns try_finally_returns)
  with on_timeout_snd [of "timeout_fires pf"
      "MaConnAbort (TimeoutError ''inbound upgrade timeout'')"
      "upgradeInbound_try pf u maConn opts"]
  have "snd (upgradeInbound_try pf u maConn opts) = Inr c"
    by simp
  then show ?thesis
    by (cases "upgradeInbound_try pf u maConn opts") simp
qed

lemma upgradeOutbound_returns:
  assumes "upgradeOutbound pf u maConn opts = (t, Inr c)"
  shows "\<exists>remotePeerId pc t1 remotePeer cryptoProtocol rest.
           upgradeOutbound_try pf u remotePeerId pc opts
             = (t1, Inr (remotePeer, cryptoProtocol, rest))
           \<and> conn_encryption c = cryptoProtocol"
proof -
  from assms [unfolded upgradeOutbound_def]
  obtain t0 remotePeerId t1 where
    "bind_io (protect u maConn opts) (\<lambda>protectedConn.
     bind_io
       (try_catch (upgradeOutbound_try pf u remotePeerId protectedConn opts)
          (\<lambda>err.
             bind_io (await (MaConnClose (Some err)) (maConn_close pf maConn (Some err))) (\<lambda>_.
             throw err)))
       (\<lambda>(remotePeer, cryptoProtocol, upgradedConn, muxerFactory).
     bind_io (shouldBlockConnection u remotePeer maConn denyOutboundUpgradedConnection) (\<lambda>_.
     createConnection pf
       \<lparr>cc_cryptoProtocol = cryptoProtocol,
        cc_direction = outbound,
        cc_maConn = maConn,
        cc_upgradedConn = upgradedConn,
        cc_remotePeer = remotePeer,
        cc_muxerFactory = muxerFactory,
        cc_limits = opt_limits opts\<rparr>))) = (t1, Inr c)"
    by (rule bind_io_returns)
  then obtain tp pc t2 where
    "bind_io
       (try_catch (upgradeOutbound_try pf u remotePeerId pc opts)
          (\<lambda>err.
             bind_io (await (MaConnClose (Some err)) (maConn_close pf maConn (Some err))) (\<lambda>_.
             throw err)))
       (\<lambda>(remotePeer, cryptoProtocol, upgradedConn, muxerFactory).
     bind_io (shouldBlockConnection u remotePeer maConn denyOutboundUpgradedConnection) (\<lambda>_.
     createConnection pf
       \<lparr>cc_cryptoProtocol = cryptoProtocol,
        cc_direction = outbound,
        cc_maConn = maConn,
        cc_upgradedConn = upgradedConn,
        cc_remotePeer = remotePeer,
        cc_muxerFactory = muxerFactory,
        cc_limits = opt_limits opts\<rparr>)) = (t2, Inr c)"
    by (rule bind_io_returns)
  then obtain t3 x t4 where
    caught: "try_catch (upgradeOutbound_try pf u remotePeerId pc opts)
          (\<lambda>err.
             bind_io (await (MaConnClose (Some err)) (maConn_close pf maConn (Some err))) (\<lambda>_.
             throw err)) = (t3, Inr x)" and
    "(case x of (remotePeer, cryptoProtocol, upgradedConn, muxerFactory) \<Rightarrow>
     bind_io (shouldBlockConnection u remotePeer maConn denyOutboundUpgradedConnection) (\<lambda>_.
     createConnection pf
       \<lparr>cc_cryptoProtocol = cryptoProtocol,
        cc_direction = outbound,
        cc_maConn = maConn,
        cc_upgradedConn = upgradedConn,
        cc_remotePeer = remotePeer,
        cc_muxerFactory = muxerFactory,
        cc_limits = opt_limits opts\<rparr>)) = (t4, Inr c)"
    by (rule bind_io_returns)
  then obtain remotePeer cryptoProtocol upgradedConn muxerFactory t5 where
    x: "x = (remotePeer, cryptoProtocol, upgradedConn, muxerFactory)" and
    made: "createConnection pf
       \<lparr>cc_cryptoProtocol = cryptoProtocol,
        cc_direction = outbound,
        cc_maConn = maConn,
        cc_upgradedConn = upgradedConn,
        cc_remotePeer = remotePeer,
        cc_muxerFactory = muxerFactory,
        cc_limits = opt_limits opts\<rparr> = (t5, Inr c)"
    by (cases x) (auto elim: bind_io_returns)
  from caught have "upgradeOutbound_try pf u remotePeerId pc opts = (t3, Inr x)"
    by (auto simp: try_catch_def bind_io_def await_def throw_def
          split: prod.splits sum.splits)
  with createConnection_encryption [OF made] x
  have "upgradeOutbound_try pf u remotePeerId pc opts
          = (t3, Inr (remotePeer, cryptoProtocol, upgradedConn, muxerFactory))
        \<and> conn_encryption c = cryptoProtocol"
    by simp
  then show ?thesis
    by blast
qed

lemma upgradeInbound_skip_native:
  assumes "skipEncryption opts" and "upgradeInbound pf u maConn opts = (t, Inr c)"
  shows "conn_encryption c = ''native'' \<and> getPeerId (remoteAddr maConn) \<noteq> None"
proof -
  from upgradeInbound_returns [OF assms(2)] obtain t' where
    "upgradeInbound_try pf u maConn opts = (t', Inr c)"
    by blast
  from upgradeInbound_try_returns [OF this] obtain pc t1 remotePeer cryptoProtocol rest where
    "upgradeInbound_inner pf u maConn pc opts = (t1, Inr (remotePeer, cryptoProtocol, rest))"
    and "conn_encryption c = cryptoProtocol"
    by blast
  with upgradeInbound_inner_skip [OF assms(1), of pf u maConn pc t1 remotePeer cryptoProtocol rest]
  show ?thesis
    by auto
qed

lemma upgradeOutbound_skip_native:
  assumes "skipEncryption opts" and "upgradeOutbound pf u maConn opts = (t, Inr c)"
  shows "conn_encryption c = ''native'' \<and> getPeerId (remoteAddr maConn) \<noteq> None"
proof -
  from upgradeOutbound_returns [OF assms(2)]
  obtain remotePeerId pc t1 remotePeer cryptoProtocol rest where
    inner: "upgradeOutbound_try pf u remotePeerId pc opts
       = (t1, Inr (remotePeer, cryptoProtocol, rest))"
    and enc: "conn_encryption c = cryptoProtocol"
    by blast
  from upgradeOutbound_try_skip [OF assms(1) inner] enc
  have native: "conn_encryption c = ''native''"
    by simp
  have "getPeerId (remoteAddr maConn) \<noteq> None"
  proof
    assume none: "getPeerId (remoteAddr maConn) = None"
    then have "upgradeOutbound_peer pf u maConn = ([], Inr None)"
      by (simp add: upgradeOutbound_peer_def ret_def)
    with assms have "\<exists>err. snd (upgradeOutbound pf u maConn opts) = Inl err"
      by (auto simp: upgradeOutbound_def upgradeOutbound_try_def io_defs
            split: sum.splits prod.splits)
    with assms(2) show False
      by simp
  qed
  with native show ?thesis
    by simp
qed

lemma upgradeInbound_result:
  assumes "connectionManager_acceptIncomingConnection (components u) maConn = Inr True"
  shows "snd (upgradeInbound pf u maConn opts) = snd (upgradeInbound_try pf u maConn opts)"
  using assms
    on_timeout_snd [of "timeout_fires pf" "MaConnAbort (TimeoutError ''inbound upgrade timeout'')"
      "upgradeInbound_try pf u maConn opts"]
  by (cases "on_timeout (timeout_fires pf)
        (MaConnAbort (TimeoutError ''inbound upgrade timeout''))
        (upgradeInbound_try pf u maConn opts)")
    (simp add: upgradeInbound_def bind_io_def await_checkpoint_def emit_def try_finally_def)

lemma shouldBlockConnection_passes:
  assumes "case gater_method (connectionGater (components u)) ty of
             None \<Rightarrow> True
           | Some deny \<Rightarrow> deny p c = Inr False"
  shows "\<exists>t. shouldBlockConnection u p c ty = (t, Inr ())"
  using assms
  by (simp add: shouldBlockConnection_def io_defs split: option.splits)

lemma createConnection_fields:
  "\<exists>t c. createConnection pf copts = (t, Inr c)
     \<and> conn_encryption c = cc_cryptoProtocol copts
     \<and> conn_remotePeer c = cc_remotePeer copts"
  by (simp add: createConnection_def Let_def)

lemma upgradeInbound_inner_native:
  assumes "skipEncryption opts"
    and "getPeerId (remoteAddr maConn) = Some idStr"
    and "peerIdFromString pf idStr = Inr peer"
    and "opt_muxerFactory opts \<noteq> None \<or> streamMuxers u = []
         \<or> (\<exists>negotiated. mss_handle pf (spread pc pc) (Map_keys (streamMuxers u))
               = Inr negotiated)"
  shows "\<exists>t upgradedConn muxerFactory.
           upgradeInbound_inner pf u maConn pc opts
             = (t, Inr (peer, ''native'', upgradedConn, muxerFactory))"
  using assms
  by (cases "opt_muxerFactory opts"; cases "streamMuxers u = []")
    (auto simp: upgradeInbound_inner_def multiplexInbound_def progress_def io_defs Let_def)

lemma upgradeOutbound_try_native:
  assumes "skipEncryption opts"
    and "opt_muxerFactory opts \<noteq> None \<or> streamMuxers u = []
         \<or> (\<exists>negotiated. mss_select pf (spread pc pc) (Map_keys (streamMuxers u))
               = Inr negotiated)"
  shows "\<exists>t upgradedConn muxerFactory.
           upgradeOutbound_try pf u (Some peer) pc opts
             = (t, Inr (peer, ''native'', upgradedConn, muxerFactory))"
  using assms
  by (cases "opt_muxerFactory opts"; cases "streamMuxers u = []")
    (auto simp: upgradeOutbound_try_def multiplexOutbound_def io_defs Let_def)

lemma upgradeInbound_skip_proceeds:
  assumes skip: "skipEncryption opts"
    and addr: "getPeerId (remoteAddr maConn) = Some idStr"
    and peer: "peerIdFromString pf idStr = Inr peer"
    and accept: "connectionManager_acceptIncomingConnection (components u) maConn = Inr True"
    and gate: "case gater_denyInboundConnection (connectionGater (components u)) of
                 None \<Rightarrow> True
               | Some deny \<Rightarrow> deny maConn = Inr False"
    and prot: "protect u maConn opts = (tp, Inr pc)"
    and mux: "opt_muxerFactory opts \<noteq> None \<or> streamMuxers u = []
         \<or> (\<exists>negotiated. mss_handle pf (spread pc pc) (Map_keys (streamMuxers u))
               = Inr negotiated)"
    and last: "case gater_denyInboundUpgradedConnection (connectionGater (components u)) of
                 None \<Rightarrow> True
               | Some deny \<Rightarrow> deny peer maConn = Inr False"
  shows "\<exists>c. snd (upgradeInbound pf u maConn opts) = Inr c
           \<and> conn_encryption c = ''native'' \<and> conn_remotePeer c = peer"
proof -
  from gate obtain tg where first:
    "(case gater_denyInboundConnection (connectionGater (components u)) of
        None \<Rightarrow> ret False
      | Some deny \<Rightarrow> await_checkpoint denyInboundConnection (deny maConn)) = (tg, Inr False)"
    by (auto simp: ret_def await_checkpoint_def split: option.splits)
  from upgradeInbound_inner_native [OF skip addr peer mux]
  obtain ti upgradedConn muxerFactory where inner:
    "upgradeInbound_inner pf u maConn pc opts
       = (ti, Inr (peer, ''native'', upgradedConn, muxerFactory))"
    by blast
  from last have "case gater_method (connectionGater (components u)) denyInboundUpgradedConnection of
             None \<Rightarrow> True
           | Some deny \<Rightarrow> deny peer maConn = Inr False"
    by simp
  from shouldBlockConnection_passes [OF this] obtain ts where
    pass: "shouldBlockConnection u peer maConn denyInboundUpgradedConnection = (ts, Inr ())"
    by blast
  let ?copts = "\<lparr>cc_cryptoProtocol = ''native'',
          cc_direction = inbound,
          cc_maConn = maConn,
          cc_upgradedConn = upgradedConn,
          cc_remotePeer = peer,
          cc_muxerFactory = muxerFactory,
          cc_limits = opt_limits opts\<rparr>"
  have "snd (upgradeInbound_try pf u maConn opts) = snd (createConnection pf ?copts)"
    by (simp add: upgradeInbound_try_def bind_io_Inr [OF first] bind_io_Inr [OF prot]
          try_catch_rethrow bind_io_Inr [OF inner] bind_io_Inr [OF pass])
  with upgradeInbound_result [OF accept, of pf opts] createConnection_fields [of pf ?copts]
  show ?thesis
    by auto
qed

lemma upgradeOutbound_skip_proceeds:
  assumes skip: "skipEncryption opts"
    and addr: "getPeerId (remoteAddr maConn) = Some idStr"
    and peer: "peerIdFromString pf idStr = Inr peer"
    and gate: "case gater_denyOutboundConnection (connectionGater (components u)) of
                 None \<Rightarrow> True
               | Some deny \<Rightarrow> deny peer maConn = Inr False"
    and prot: "protect u maConn opts = (tp, Inr pc)"
    and mux: "opt_muxerFactory opts \<noteq> None \<or> streamMuxers u = []
         \<or> (\<exists>negotiated. mss_select pf (spread pc pc) (Map_keys (streamMuxers u))
               = Inr negotiated)"
    and last: "case gater_denyOutboundUpgradedConnection (connectionGater (components u)) of
                 None \<Rightarrow> True
               | Some deny \<Rightarrow> deny peer maConn = Inr False"
  shows "\<exists>c. snd (upgradeOutbound pf u maConn opts) = Inr c
           \<and> conn_encryption c = ''native'' \<and> conn_remotePeer c = peer"
proof -
  from gate have "case gater_method (connectionGater (components u)) denyOutboundConnection of
             None \<Rightarrow> True
           | Some deny \<Rightarrow> deny peer maConn = Inr False"
    by simp
  from shouldBlockConnection_passes [OF this] obtain t0 where
    "shouldBlockConnection u peer maConn denyOutboundConnection = (t0, Inr ())"
    by blast
  with addr peer have first: "upgradeOutbound_peer pf u maConn = (t0, Inr (Some peer))"
    by (simp add: upgradeOutbound_peer_def attempt_def bind_io_def ret_def)
  from upgradeOutbound_try_native [OF skip mux]
  obtain ti upgradedConn muxerFactory where
    "upgradeOutbound_try pf u (Some peer) pc opts
       = (ti, Inr (peer, ''native'', upgradedConn, muxerFactory))"
    by blast
  then have inner: "try_catch (upgradeOutbound_try pf u (Some peer) pc opts) h
       = (ti, Inr (peer, ''native'', upgradedConn, muxerFactory))" for h
    by (rule try_catch_Inr)
  from last have "case gater_method (connectionGater (components u)) denyOutboundUpgradedConnection of
             None \<Rightarrow> True
           | Some deny \<Rightarrow> deny peer maConn = Inr False"
    by simp
  from shouldBlockConnection_passes [OF this] obtain ts where
    pass: "shouldBlockConnection u peer maConn denyOutboundUpgradedConnection = (ts, Inr ())"
    by blast
  let ?copts = "\<lparr>cc_cryptoProtocol = ''native'',
          cc_direction = outbound,
          cc_maConn = maConn,
          cc_upgradedConn = upgradedConn,
          cc_remotePeer = peer,
          cc_muxerFactory = muxerFactory,
          cc_limits = opt_limits opts\<rparr>"
  have "snd (upgradeOutbound pf u maConn opts) = snd (createConnection pf ?copts)"
    by (simp add: upgradeOutbound_def bind_io_Inr [OF first] bind_io_Inr [OF prot]
          bind_io_Inr [OF inner] bind_io_Inr [OF pass])
  with createConnection_fields [of pf ?copts] show ?thesis
    by auto
qed

text \<open>
  C6, as the spec states it: when encryption is skipped, an outbound upgrade fails with
  \<open>InvalidPeerIdError\<close> only when no peer id was supplied by the caller or embedded in
  the remote address, and goes on with the crypto protocol \<open>native\<close> when the peer id is
  available.  \<open>upgradeOutbound\<close> takes the peer id from the remote address alone, and
  overwrites a \<^verbatim>\<open>remotePeer\<close> of the caller's options: an outbound upgrade that skips
  encryption, whose caller names the peer and whose remote address holds no peer id,
  fails with \<open>InvalidPeerIdError\<close>.
\<close>

theorem skipped_encryption_counterexample:
  "skipEncryption ex_skip_peer
   \<and> opt_remotePeer ex_skip_peer = Some ''QmPeer''
   \<and> getPeerId (remoteAddr (ex_maConn ex_addr)) = None
   \<and> upgradeOutbound (ex_platform None) (ex_upgrader (ex_components (Inr True) None []))
       (ex_maConn ex_addr) ex_skip_peer
     = ([MaConnClose (Some (InvalidPeerIdError ''Encryption was skipped but no peer id was passed''))],
        Inl (InvalidPeerIdError ''Encryption was skipped but no peer id was passed''))"
  by (simp add: ex_defs ex_skip_def ex_skip_peer_def io_defs upgrade_defs)

text \<open>
  C6, amended: when encryption is skipped, an inbound upgrade whose remote address holds
  no peer id fails with \<open>InvalidMultiaddrError\<close>, and an outbound upgrade whose remote
  address holds no peer id fails with \<open>InvalidPeerIdError\<close>, whatever peer the caller's
  options name; when the remote address holds a peer id, the upgrade goes on with that
  peer and records the crypto protocol \<open>native\<close>.

  With \<open>skipEncryption\<close> and no peer id in the remote address: the encryption step of
  either direction throws its error at once; no upgrade returns a connection; an
  inbound upgrade that was admitted, let pass by the first gater and protected throws
  \<open>InvalidMultiaddrError\<close>; an outbound upgrade that was protected throws
  \<open>InvalidPeerIdError\<close> (after closing the connection with it).  With
  \<open>skipEncryption\<close>, every connection an upgrade returns has the encryption \<open>native\<close>,
  and its remote address held a peer id.  With \<open>skipEncryption\<close> and a peer id in the
  remote address that \<^verbatim>\<open>peerIdFromString\<close> accepts, an upgrade that the other stages let
  pass (the admission and the gater methods, the protector, the choice of a muxer)
  returns a connection with that remote peer and the encryption \<open>native\<close>.
\<close>

theorem skipped_encryption:
  assumes "skipEncryption opts"
  shows "(getPeerId (remoteAddr maConn) = None \<longrightarrow>
            upgradeInbound_inner pf u maConn protectedConn opts
              = ([], Inl (InvalidMultiaddrError
                    ''inbound connection that skipped encryption must have a peer id''))
          \<and> (\<exists>err. snd (upgradeInbound pf u maConn opts) = Inl err)
          \<and> (connectionManager_acceptIncomingConnection (components u) maConn = Inr True
               \<and> (case gater_denyInboundConnection (connectionGater (components u)) of
                     None \<Rightarrow> True
                   | Some deny \<Rightarrow> deny maConn = Inr False)
               \<and> (\<exists>tp pc. protect u maConn opts = (tp, Inr pc))
               \<longrightarrow> snd (upgradeInbound pf u maConn opts)
                     = Inl (InvalidMultiaddrError
                         ''inbound connection that skipped encryption must have a peer id''))
          \<and> upgradeOutbound_try pf u None protectedConn opts
              = ([], Inl (InvalidPeerIdError ''Encryption was skipped but no peer id was passed''))
          \<and> (\<exists>err. snd (upgradeOutbound pf u maConn opts) = Inl err)
          \<and> ((\<exists>tp pc. protect u maConn opts = (tp, Inr pc))
               \<and> maConn_close pf maConn
                    (Some (InvalidPeerIdError ''Encryption was skipped but no peer id was passed''))
                   = Inr ()
               \<longrightarrow> snd (upgradeOutbound pf u maConn opts)
                     = Inl (InvalidPeerIdError
                         ''Encryption was skipped but no peer id was passed'')))
     \<and> (\<forall>t c. upgradeInbound pf u maConn opts = (t, Inr c)
            \<longrightarrow> conn_encryption c = ''native'' \<and> getPeerId (remoteAddr maConn) \<noteq> None)
     \<and> (\<forall>t c. upgradeOutbound pf u maConn opts = (t, Inr c)
            \<longrightarrow> conn_encryption c = ''native'' \<and> getPeerId (remoteAddr maConn) \<noteq> None)
     \<and> (\<forall>idStr peer tp pc.
           getPeerId (remoteAddr maConn) = Some idStr
           \<and> peerIdFromString pf idStr = Inr peer
           \<and> connectionManager_acceptIncomingConnection (components u) maConn = Inr True
           \<and> (case gater_denyInboundConnection (connectionGater (components u)) of
                 None \<Rightarrow> True
               | Some deny \<Rightarrow> deny maConn = Inr False)
           \<and> protect u maConn opts = (tp, Inr pc)
           \<and> (opt_muxerFactory opts \<noteq> None \<or> streamMuxers u = []
                \<or> (\<exists>negotiated. mss_handle pf (spread pc pc) (Map_keys (streamMuxers u))
                      = Inr negotiated))
           \<and> (case gater_denyInboundUpgradedConnection (connectionGater (components u)) of
                 None \<Rightarrow> True
               | Some deny \<Rightarrow> deny peer maConn = Inr False)
           \<longrightarrow> (\<exists>c. snd (upgradeInbound pf u maConn opts) = Inr c
                  \<and> conn_encryption c = ''native'' \<and> conn_remotePeer c = peer))
     \<and> (\<forall>idStr peer tp pc.
           getPeerId (remoteAddr maConn) = Some idStr
           \<and> peerIdFromString pf idStr = Inr peer
           \<and> (case gater_denyOutboundConnection (connectionGater (components u)) of
                 None \<Rightarrow> True
               | Some deny \<Rightarrow> deny peer maConn = Inr False)
           \<and> protect u maConn opts = (tp, Inr pc)
           \<and> (opt_muxerFactory opts \<noteq> None \<or> streamMuxers u = []
                \<or> (\<exists>negotiated. mss_select pf (spread pc pc) (Map_keys (streamMuxers u))
                      = Inr negotiated))
           \<and> (case gater_denyOutboundUpgradedConnection (connectionGater (components u)) of
                 None \<Rightarrow> True
               | Some deny \<Rightarrow> deny peer maConn = Inr False)
           \<longrightarrow> (\<exists>c. snd (upgradeOutbound pf u maConn opts) = Inr c
                  \<and> conn_encryption c = ''native'' \<and> conn_remotePeer c = peer))"
proof (intro conjI impI allI)
  assume none: "getPeerId (remoteAddr maConn) = None"
  from none assms show inner: "upgradeInbound_inner pf u maConn protectedConn opts
      = ([], Inl (InvalidMultiaddrError
            ''inbound connection that skipped encryption must have a peer id''))"
    by (simp add: upgradeInbound_inner_def bind_io_def throw_def)
  show "\<exists>err. snd (upgradeInbound pf u maConn opts) = Inl err"
  proof (cases "snd (upgradeInbound pf u maConn opts)")
    case (Inr c)
    then have "upgradeInbound pf u maConn opts = (fst (upgradeInbound pf u maConn opts), Inr c)"
      by (metis prod.collapse)
    from upgradeInbound_skip_native [OF assms this] none show ?thesis
      by simp
  qed simp
  from none assms show out: "upgradeOutbound_try pf u None protectedConn opts
      = ([], Inl (InvalidPeerIdError ''Encryption was skipped but no peer id was passed''))"
    by (simp add: upgradeOutbound_try_def bind_io_def throw_def)
  show "\<exists>err. snd (upgradeOutbound pf u maConn opts) = Inl err"
  proof (cases "snd (upgradeOutbound pf u maConn opts)")
    case (Inr c)
    then have "upgradeOutbound pf u maConn opts = (fst (upgradeOutbound pf u maConn opts), Inr c)"
      by (metis prod.collapse)
    from upgradeOutbound_skip_native [OF assms this] none show ?thesis
      by simp
  qed simp
next
  assume none: "getPeerId (remoteAddr maConn) = None"
    and reached: "connectionManager_acceptIncomingConnection (components u) maConn = Inr True
       \<and> (case gater_denyInboundConnection (connectionGater (components u)) of
             None \<Rightarrow> True
           | Some deny \<Rightarrow> deny maConn = Inr False)
       \<and> (\<exists>tp pc. protect u maConn opts = (tp, Inr pc))"
  then obtain tp pc where prot: "protect u maConn opts = (tp, Inr pc)"
    by blast
  from reached have accept:
    "connectionManager_acceptIncomingConnection (components u) maConn = Inr True"
    by simp
  from none assms have "upgradeInbound_inner pf u maConn pc opts
      = ([], Inl (InvalidMultiaddrError
            ''inbound connection that skipped encryption must have a peer id''))"
    by (simp add: upgradeInbound_inner_def bind_io_def throw_def)
  with reached prot have "snd (upgradeInbound_try pf u maConn opts)
      = Inl (InvalidMultiaddrError
          ''inbound connection that skipped encryption must have a peer id'')"
    by (simp add: upgradeInbound_try_def try_catch_rethrow bind_io_def
          await_checkpoint_def ret_def split: option.splits)
  with upgradeInbound_result [OF accept, of pf opts]
  show "snd (upgradeInbound pf u maConn opts)
      = Inl (InvalidMultiaddrError
          ''inbound connection that skipped encryption must have a peer id'')"
    by simp
next
  assume none: "getPeerId (remoteAddr maConn) = None"
    and reached: "(\<exists>tp pc. protect u maConn opts = (tp, Inr pc))
       \<and> maConn_close pf maConn
            (Some (InvalidPeerIdError ''Encryption was skipped but no peer id was passed''))
           = Inr ()"
  then obtain tp pc where prot: "protect u maConn opts = (tp, Inr pc)"
    by blast
  from none assms have "upgradeOutbound_try pf u None pc opts
      = ([], Inl (InvalidPeerIdError ''Encryption was skipped but no peer id was passed''))"
    by (simp add: upgradeOutbound_try_def bind_io_def throw_def)
  with none reached prot show "snd (upgradeOutbound pf u maConn opts)
      = Inl (InvalidPeerIdError ''Encryption was skipped but no peer id was passed'')"
    by (simp add: upgradeOutbound_def upgradeOutbound_peer_def try_catch_def bind_io_def
          await_def throw_def ret_def)
next
  fix t c
  assume "upgradeInbound pf u maConn opts = (t, Inr c)"
  from upgradeInbound_skip_native [OF assms this]
  show "conn_encryption c = ''native''" and "getPeerId (remoteAddr maConn) \<noteq> None"
    by simp_all
next
  fix t c
  assume "upgradeOutbound pf u maConn opts = (t, Inr c)"
  from upgradeOutbound_skip_native [OF assms this]
  show "conn_encryption c = ''native''" and "getPeerId (remoteAddr maConn) \<noteq> None"
    by simp_all
next
  fix idStr peer tp pc
  assume "getPeerId (remoteAddr maConn) = Some idStr
           \<and> peerIdFromString pf idStr = Inr peer
           \<and> connectionManager_acceptIncomingConnection (components u) maConn = Inr True
           \<and> (case gater_denyInboundConnection (connectionGater (components u)) of
                 None \<Rightarrow> True
               | Some deny \<Rightarrow> deny maConn = Inr False)
           \<and> protect u maConn opts = (tp, Inr pc)
           \<and> (opt_muxerFactory opts \<noteq> None \<or> streamMuxers u = []
                \<or> (\<exists>negotiated. mss_handle pf (spread pc pc) (Map_keys (streamMuxers u))
                      = Inr negotiated))
           \<and> (case gater_denyInboundUpgradedConnection (connectionGater (components u)) of
                 None \<Rightarrow> True
               | Some deny \<Rightarrow> deny peer maConn = Inr False)"
  then show "\<exists>c. snd (upgradeInbound pf u maConn opts) = Inr c
                  \<and> conn_encryption c = ''native'' \<and> conn_remotePeer c = peer"
    by (elim conjE) (rule upgradeInbound_skip_proceeds [OF assms])
next
  fix idStr peer tp pc
  assume "getPeerId (remoteAddr maConn) = Some idStr
           \<and> peerIdFromString pf idStr = Inr peer
           \<and> (case gater_denyOutboundConnection (connectionGater (components u)) of
                 None \<Rightarrow> True
               | Some deny \<Rightarrow> deny peer maConn = Inr False)
           \<and> protect u maConn opts = (tp, Inr pc)
           \<and> (opt_muxerFactory opts \<noteq> None \<or> streamMuxers u = []
                \<or> (\<exists>negotiated. mss_select pf (spread pc pc) (Map_keys (streamMuxers u))
                      = Inr negotiated))
           \<and> (case gater_denyOutboundUpgradedConnection (connectionGater (components u)) of
                 None \<Rightarrow> True
               | Some deny \<Rightarrow> deny peer maConn = Inr False)"
  then show "\<exists>c. snd (upgradeOutbound pf u maConn opts) = Inr c
                  \<and> conn_encryption c = ''native'' \<and> conn_remotePeer c = peer"
    by (elim conjE) (rule upgradeOutbound_skip_proceeds [OF assms])
qed

theorem skipped_encryption_witness:
  "skipEncryption ex_skip
   \<and> getPeerId (remoteAddr (ex_maConn ex_addr)) = None
   \<and> snd (upgradeInbound (ex_platform None) (ex_upgrader (ex_components (Inr True) None []))
         (ex_maConn ex_addr) ex_skip)
       = Inl (InvalidMultiaddrError
           ''inbound connection that skipped encryption must have a peer id'')
   \<and> snd (upgradeOutbound (ex_platform None) (ex_upgrader (ex_components (Inr True) None []))
         (ex_maConn ex_addr) ex_skip)
       = Inl (InvalidPeerIdError ''Encryption was skipped but no peer id was passed'')
   \<and> getPeerId (remoteAddr (ex_maConn ex_addr_peer)) = Some ''QmPeer''
   \<and> (\<exists>c. snd (upgradeInbound (ex_platform None)
            (ex_upgrader (ex_components (Inr True) (Some (Inr False)) []))
            (ex_maConn ex_addr_peer) ex_skip) = Inr c
          \<and> conn_encryption c = ''native'' \<and> conn_remotePeer c = ''QmPeer'')
   \<and> (\<exists>c. snd (upgradeOutbound (ex_platform None)
            (ex_upgrader (ex_components (Inr True) (Some (Inr False)) []))
            (ex_maConn ex_addr_peer) ex_skip) = Inr c
          \<and> conn_encryption c = ''native'' \<and> conn_remotePeer c = ''QmPeer'')"
proof -
  let ?pf = "ex_platform None"
  let ?u = "ex_upgrader (ex_components (Inr True) None [])"
  let ?g = "ex_upgrader (ex_components (Inr True) (Some (Inr False)) [])"
  have skip: "skipEncryption ex_skip"
    by (simp add: ex_skip_def)
  have none: "getPeerId (remoteAddr (ex_maConn ex_addr)) = None"
    by (simp add: ex_defs)
  have some: "getPeerId (remoteAddr (ex_maConn ex_addr_peer)) = Some ''QmPeer''"
    by (simp add: ex_defs)
  have reached_in:
    "connectionManager_acceptIncomingConnection (components ?u) (ex_maConn ex_addr) = Inr True
     \<and> (case gater_denyInboundConnection (connectionGater (components ?u)) of
           None \<Rightarrow> True
         | Some deny \<Rightarrow> deny (ex_maConn ex_addr) = Inr False)
     \<and> (\<exists>tp pc. protect ?u (ex_maConn ex_addr) ex_skip = (tp, Inr pc))"
    by (simp add: ex_defs ex_skip_def protect_def ret_def)
  have reached_out:
    "(\<exists>tp pc. protect ?u (ex_maConn ex_addr) ex_skip = (tp, Inr pc))
     \<and> maConn_close ?pf (ex_maConn ex_addr)
          (Some (InvalidPeerIdError ''Encryption was skipped but no peer id was passed''))
         = Inr ()"
    by (simp add: ex_defs ex_skip_def protect_def ret_def)
  have passes_in:
    "getPeerId (remoteAddr (ex_maConn ex_addr_peer)) = Some ''QmPeer''
     \<and> peerIdFromString ?pf ''QmPeer'' = Inr ''QmPeer''
     \<and> connectionManager_acceptIncomingConnection (components ?g) (ex_maConn ex_addr_peer)
         = Inr True
     \<and> (case gater_denyInboundConnection (connectionGater (components ?g)) of
           None \<Rightarrow> True
         | Some deny \<Rightarrow> deny (ex_maConn ex_addr_peer) = Inr False)
     \<and> protect ?g (ex_maConn ex_addr_peer) ex_skip = ([], Inr (ex_maConn ex_addr_peer))
     \<and> (opt_muxerFactory ex_skip \<noteq> None \<or> streamMuxers ?g = []
          \<or> (\<exists>negotiated.
                mss_handle ?pf (spread (ex_maConn ex_addr_peer) (ex_maConn ex_addr_peer))
                  (Map_keys (streamMuxers ?g)) = Inr negotiated))
     \<and> (case gater_denyInboundUpgradedConnection (connectionGater (components ?g)) of
           None \<Rightarrow> True
         | Some deny \<Rightarrow> deny ''QmPeer'' (ex_maConn ex_addr_peer) = Inr False)"
    by (simp add: ex_defs ex_skip_def protect_def ret_def)
  have passes_out:
    "getPeerId (remoteAddr (ex_maConn ex_addr_peer)) = Some ''QmPeer''
     \<and> peerIdFromString ?pf ''QmPeer'' = Inr ''QmPeer''
     \<and> (case gater_denyOutboundConnection (connectionGater (components ?g)) of
           None \<Rightarrow> True
         | Some deny \<Rightarrow> deny ''QmPeer'' (ex_maConn ex_addr_peer) = Inr False)
     \<and> protect ?g (ex_maConn ex_addr_peer) ex_skip = ([], Inr (ex_maConn ex_addr_peer))
     \<and> (opt_muxerFactory ex_skip \<noteq> None \<or> streamMuxers ?g = []
          \<or> (\<exists>negotiated.
                mss_select ?pf (spread (ex_maConn ex_addr_peer) (ex_maConn ex_addr_peer))
                  (Map_keys (streamMuxers ?g)) = Inr negotiated))
     \<and> (case gater_denyOutboundUpgradedConnection (connectionGater (components ?g)) of
           None \<Rightarrow> True
         | Some deny \<Rightarrow> deny ''QmPeer'' (ex_maConn ex_addr_peer) = Inr False)"
    by (simp add: ex_defs ex_skip_def protect_def ret_def)
  note missing = skipped_encryption [OF skip, of "ex_maConn ex_addr" ?pf ?u "ex_maConn ex_addr"]
  note given =
    skipped_encryption [OF skip, of "ex_maConn ex_addr_peer" ?pf ?g "ex_maConn ex_addr_peer"]
  from missing none reached_in
  have a: "snd (upgradeInbound ?pf ?u (ex_maConn ex_addr) ex_skip)
      = Inl (InvalidMultiaddrError
          ''inbound connection that skipped encryption must have a peer id'')"
    by blast
  from missing none reached_out
  have b: "snd (upgradeOutbound ?pf ?u (ex_maConn ex_addr) ex_skip)
      = Inl (InvalidPeerIdError ''Encryption was skipped but no peer id was passed'')"
    by blast
  from given have
    "\<forall>idStr peer tp pc.
           getPeerId (remoteAddr (ex_maConn ex_addr_peer)) = Some idStr
           \<and> peerIdFromString ?pf idStr = Inr peer
           \<and> connectionManager_acceptIncomingConnection (components ?g) (ex_maConn ex_addr_peer)
               = Inr True
           \<and> (case gater_denyInboundConnection (connectionGater (components ?g)) of
                 None \<Rightarrow> True
               | Some deny \<Rightarrow> deny (ex_maConn ex_addr_peer) = Inr False)
           \<and> protect ?g (ex_maConn ex_addr_peer) ex_skip = (tp, Inr pc)
           \<and> (opt_muxerFactory ex_skip \<noteq> None \<or> streamMuxers ?g = []
                \<or> (\<exists>negotiated. mss_handle ?pf (spread pc pc) (Map_keys (streamMuxers ?g))
                      = Inr negotiated))
           \<and> (case gater_denyInboundUpgradedConnection (connectionGater (components ?g)) of
                 None \<Rightarrow> True
               | Some deny \<Rightarrow> deny peer (ex_maConn ex_addr_peer) = Inr False)
           \<longrightarrow> (\<exists>c. snd (upgradeInbound ?pf ?g (ex_maConn ex_addr_peer) ex_skip) = Inr c
                  \<and> conn_encryption c = ''native'' \<and> conn_remotePeer c = peer)"
    by (elim conjE)
  then have
    "getPeerId (remoteAddr (ex_maConn ex_addr_peer)) = Some ''QmPeer''
     \<and> peerIdFromString ?pf ''QmPeer'' = Inr ''QmPeer''
     \<and> connectionManager_acceptIncomingConnection (components ?g) (ex_maConn ex_addr_peer)
         = Inr True
     \<and> (case gater_denyInboundConnection (connectionGater (components ?g)) of
           None \<Rightarrow> True
         | Some deny \<Rightarrow> deny (ex_maConn ex_addr_peer) = Inr False)
     \<and> protect ?g (ex_maConn ex_addr_peer) ex_skip = ([], Inr (ex_maConn ex_addr_peer))
     \<and> (opt_muxerFactory ex_skip \<noteq> None \<or> streamMuxers ?g = []
          \<or> (\<exists>negotiated.
                mss_handle ?pf (spread (ex_maConn ex_addr_peer) (ex_maConn ex_addr_peer))
                  (Map_keys (streamMuxers ?g)) = Inr negotiated))
     \<and> (case gater_denyInboundUpgradedConnection (connectionGater (components ?g)) of
           None \<Rightarrow> True
         | Some deny \<Rightarrow> deny ''QmPeer'' (ex_maConn ex_addr_peer) = Inr False)
     \<longrightarrow> (\<exists>c. snd (upgradeInbound ?pf ?g (ex_maConn ex_addr_peer) ex_skip) = Inr c
            \<and> conn_encryption c = ''native'' \<and> conn_remotePeer c = ''QmPeer'')"
    by (elim allE)
  with passes_in have c:
    "\<exists>c. snd (upgradeInbound ?pf ?g (ex_maConn ex_addr_peer) ex_skip) = Inr c
       \<and> conn_encryption c = ''native'' \<and> conn_remotePeer c = ''QmPeer''"
    by (rule mp [rotated])
  from given have
    "\<forall>idStr peer tp pc.
           getPeerId (remoteAddr (ex_maConn ex_addr_peer)) = Some idStr
           \<and> peerIdFromString ?pf idStr = Inr peer
           \<and> (case gater_denyOutboundConnection (connectionGater (components ?g)) of
                 None \<Rightarrow> True
               | Some deny \<Rightarrow> deny peer (ex_maConn ex_addr_peer) = Inr False)
           \<and> protect ?g (ex_maConn ex_addr_peer) ex_skip = (tp, Inr pc)
           \<and> (opt_muxerFactory ex_skip \<noteq> None \<or> streamMuxers ?g = []
                \<or> (\<exists>negotiated. mss_select ?pf (spread pc pc) (Map_keys (streamMuxers ?g))
                      = Inr negotiated))
           \<and> (case gater_denyOutboundUpgradedConnection (connectionGater (components ?g)) of
                 None \<Rightarrow> True
               | Some deny \<Rightarrow> deny peer (ex_maConn ex_addr_peer) = Inr False)
           \<longrightarrow> (\<exists>c. snd (upgradeOutbound ?pf ?g (ex_maConn ex_addr_peer) ex_skip) = Inr c
                  \<and> conn_encryption c = ''native'' \<and> conn_remotePeer c = peer)"
    by (elim conjE)
  then have
    "getPeerId (remoteAddr (ex_maConn ex_addr_peer)) = Some ''QmPeer''
     \<and> peerIdFromString ?pf ''QmPeer'' = Inr ''QmPeer''
     \<and> (case gater_denyOutboundConnection (connectionGater (components ?g)) of
           None \<Rightarrow> True
         | Some deny \<Rightarrow> deny ''QmPeer'' (ex_maConn ex_addr_peer) = Inr False)
     \<and> protect ?g (ex_maConn ex_addr_peer) ex_skip = ([], Inr (ex_maConn ex_addr_peer))
     \<and> (opt_muxerFactory ex_skip \<noteq> None \<or> streamMuxers ?g = []
          \<or> (\<exists>negotiated.
                mss_select ?pf (spread (ex_maConn ex_addr_peer) (ex_maConn ex_addr_peer))
                  (Map_keys (streamMuxers ?g)) = Inr negotiated))
     \<and> (case gater_denyOutboundUpgradedConnection (connectionGater (components ?g)) of
           None \<Rightarrow> True
         | Some deny \<Rightarrow> deny ''QmPeer'' (ex_maConn ex_addr_peer) = Inr False)
     \<longrightarrow> (\<exists>c. snd (upgradeOutbound ?pf ?g (ex_maConn ex_addr_peer) ex_skip) = Inr c
            \<and> conn_encryption c = ''native'' \<and> conn_remotePeer c = ''QmPeer'')"
    by (elim allE)
  with passes_out have d:
    "\<exists>c. snd (upgradeOutbound ?pf ?g (ex_maConn ex_addr_peer) ex_skip) = Inr c
       \<and> conn_encryption c = ''native'' \<and> conn_remotePeer c = ''QmPeer''"
    by (rule mp [rotated])
  from skip none a b some c d show ?thesis
    by (intro conjI)
qed

subsection \<open>C8: connections without a muxer\<close>

text \<open>
  C8, as the spec states it: on a connection built by \<open>_createConnection\<close> without a
  muxer, every \<open>newStream\<close> call fails with \<open>MuxerUnavailableError\<close>.  The function that
  \<open>_createConnection\<close> passes for \<open>newStream\<close> does; the connection object calls it after
  its own checks.  Under a connection object that refuses to open streams on a limited
  connection, a \<open>newStream\<close> call on a limited connection built without a muxer fails
  with \<open>LimitedConnectionError\<close>.
\<close>

theorem createConnection_multiplexer_counterexample:
  "createConnection (ex_platform None) ((ex_create None)\<lparr>cc_limits := Some ex_limits\<rparr>)
     = ([TimelineUpgraded 2, DispatchEvent ''connection:open''],
        Inr (ex_connection (Some ex_limits) None))
   \<and> conn_multiplexer (ex_connection (Some ex_limits) None) = None
   \<and> connection_newStream ex_guard (ex_platform None)
         (ex_upgrader (ex_components (Inr True) None []))
         (ex_connection (Some ex_limits) None) [''/echo/1.0.0''] (ex_new_stream_options None)
       = ([], Inl (LimitedConnectionError ''Cannot open protocol stream on limited connection''))"
  by (simp add: createConnection_def Let_def ex_create_def ex_connection_def ex_limits_def
        ex_defs connection_newStream_def ex_guard_def throw_def)

text \<open>
  C8, amended: a connection built by \<open>_createConnection\<close> has its \<open>multiplexer\<close> field set
  if and only if a muxer was installed; without a muxer \<open>getStreams\<close> returns the empty
  list, the function passed for \<open>newStream\<close> fails with \<open>MuxerUnavailableError\<close> on every
  call, and so does every \<open>newStream\<close> call that the connection object lets through; a
  call that the object refuses fails with the object's error.

  \<open>createConnection\<close> always returns a connection.  Its \<open>multiplexer\<close> is the protocol of
  the muxer the closures hold, so it is set exactly when there is a muxer, which is
  exactly when a muxer factory was given.  Without a muxer a \<open>newStream\<close> call has no
  effect and throws, whatever the guard of the connection object.
\<close>

theorem createConnection_multiplexer:
  "\<exists>c. snd (createConnection pf copts) = Inr c
     \<and> conn_multiplexer c = map_option muxer_protocol (conn_muxer c)
     \<and> (conn_multiplexer c \<noteq> None \<longleftrightarrow> conn_muxer c \<noteq> None)
     \<and> (conn_muxer c \<noteq> None \<longleftrightarrow> cc_muxerFactory copts \<noteq> None)
     \<and> (conn_muxer c = None \<longrightarrow>
          (\<forall>pf' u protocols options.
             newStream pf' u c protocols options
               = ([], Inl (MuxerUnavailableError ''Connection is not multiplexed'')))
          \<and> (\<forall>guard pf' u protocols options.
               connection_newStream guard pf' u c protocols options
                 = ([], Inl (case guard c options of
                               Some err \<Rightarrow> err
                             | None \<Rightarrow> MuxerUnavailableError ''Connection is not multiplexed'')))
          \<and> getStreams c = [])"
proof -
  obtain t c where made: "createConnection pf copts = (t, Inr c)"
    by (simp add: createConnection_def Let_def)
  then have fields:
    "conn_muxer c = map_option createStreamMuxer (cc_muxerFactory copts)"
    "conn_multiplexer c = map_option muxer_protocol (conn_muxer c)"
    by (auto simp: createConnection_def Let_def)
  have raw: "newStream pf' u c protocols options
          = ([], Inl (MuxerUnavailableError ''Connection is not multiplexed''))"
    if "conn_muxer c = None" for pf' u protocols options
    using that by (simp add: newStream_def throw_def)
  have guarded: "connection_newStream guard pf' u c protocols options
          = ([], Inl (case guard c options of
                        Some err \<Rightarrow> err
                      | None \<Rightarrow> MuxerUnavailableError ''Connection is not multiplexed''))"
    if "conn_muxer c = None" for guard pf' u protocols options
    using raw [OF that, of pf' u protocols options]
    by (simp add: connection_newStream_def throw_def split: option.splits)
  have empty: "getStreams c = []" if "conn_muxer c = None"
    using that by (simp add: getStreams_def)
  from raw guarded empty have without:
    "conn_muxer c = None \<longrightarrow>
          (\<forall>pf' u protocols options.
             newStream pf' u c protocols options
               = ([], Inl (MuxerUnavailableError ''Connection is not multiplexed'')))
          \<and> (\<forall>guard pf' u protocols options.
               connection_newStream guard pf' u c protocols options
                 = ([], Inl (case guard c options of
                               Some err \<Rightarrow> err
                             | None \<Rightarrow> MuxerUnavailableError ''Connection is not multiplexed'')))
          \<and> getStreams c = []"
    by (intro impI conjI allI)
  from made have result: "snd (createConnection pf copts) = Inr c"
    by simp
  from fields have iffs:
    "conn_multiplexer c \<noteq> None \<longleftrightarrow> conn_muxer c \<noteq> None"
    "conn_muxer c \<noteq> None \<longleftrightarrow> cc_muxerFactory copts \<noteq> None"
    by simp_all
  show ?thesis
    by (rule exI [of _ c]) (intro conjI result fields(2) iffs without)
qed

theorem createConnection_multiplexer_witness:
  "(\<exists>c. snd (createConnection (ex_platform None) (ex_create None)) = Inr c
      \<and> conn_multiplexer c = None
      \<and> newStream (ex_platform None) (ex_upgrader (ex_components (Inr True) None [])) c
           [''/echo/1.0.0''] (ex_new_stream_options None)
         = ([], Inl (MuxerUnavailableError ''Connection is not multiplexed''))
      \<and> connection_newStream ex_guard (ex_platform None)
           (ex_upgrader (ex_components (Inr True) None [])) c
           [''/echo/1.0.0''] (ex_new_stream_options None)
         = ([], Inl (MuxerUnavailableError ''Connection is not multiplexed''))
      \<and> getStreams c = [])
   \<and> (\<exists>c. snd (createConnection (ex_platform None) (ex_create (Some ex_factory))) = Inr c
      \<and> conn_multiplexer c = Some ''/yamux/1.0.0'')"
proof -
  let ?pf = "ex_platform None"
  let ?u = "ex_upgrader (ex_components (Inr True) None [])"
  from createConnection_multiplexer [of ?pf "ex_create None"]
  obtain c where built:
    "snd (createConnection ?pf (ex_create None)) = Inr c
     \<and> conn_multiplexer c = map_option muxer_protocol (conn_muxer c)
     \<and> (conn_multiplexer c \<noteq> None \<longleftrightarrow> conn_muxer c \<noteq> None)
     \<and> (conn_muxer c \<noteq> None \<longleftrightarrow> cc_muxerFactory (ex_create None) \<noteq> None)
     \<and> (conn_muxer c = None \<longrightarrow>
          (\<forall>pf' u protocols options.
             newStream pf' u c protocols options
               = ([], Inl (MuxerUnavailableError ''Connection is not multiplexed'')))
          \<and> (\<forall>guard pf' u protocols options.
               connection_newStream guard pf' u c protocols options
                 = ([], Inl (case guard c options of
                               Some err \<Rightarrow> err
                             | None \<Rightarrow> MuxerUnavailableError ''Connection is not multiplexed'')))
          \<and> getStreams c = [])"
    by (rule exE)
  have "cc_muxerFactory (ex_create None) = None"
    by (simp add: ex_create_def)
  with built have nomux: "conn_muxer c = None"
    by simp
  with built have nofield: "conn_multiplexer c = None"
    by simp
  from built have made: "snd (createConnection ?pf (ex_create None)) = Inr c"
    by simp
  then have unlimited: "conn_limits c = None"
    by (auto simp: createConnection_def Let_def ex_create_def)
  from built nomux have calls:
    "\<forall>pf' u protocols options.
       newStream pf' u c protocols options
         = ([], Inl (MuxerUnavailableError ''Connection is not multiplexed''))"
    and objects:
    "\<forall>guard pf' u protocols options.
       connection_newStream guard pf' u c protocols options
         = ([], Inl (case guard c options of
                       Some err \<Rightarrow> err
                     | None \<Rightarrow> MuxerUnavailableError ''Connection is not multiplexed''))"
    and empty: "getStreams c = []"
    by simp_all
  from calls have fails:
    "newStream ?pf ?u c [''/echo/1.0.0''] (ex_new_stream_options None)
       = ([], Inl (MuxerUnavailableError ''Connection is not multiplexed''))"
    by (elim allE)
  from objects have
    "connection_newStream ex_guard ?pf ?u c [''/echo/1.0.0''] (ex_new_stream_options None)
       = ([], Inl (case ex_guard c (ex_new_stream_options None) of
                     Some err \<Rightarrow> err
                   | None \<Rightarrow> MuxerUnavailableError ''Connection is not multiplexed''))"
    by (elim allE)
  with unlimited have through:
    "connection_newStream ex_guard ?pf ?u c [''/echo/1.0.0''] (ex_new_stream_options None)
       = ([], Inl (MuxerUnavailableError ''Connection is not multiplexed''))"
    by (simp add: ex_guard_def)
  have first:
    "\<exists>c. snd (createConnection ?pf (ex_create None)) = Inr c
      \<and> conn_multiplexer c = None
      \<and> newStream ?pf ?u c [''/echo/1.0.0''] (ex_new_stream_options None)
         = ([], Inl (MuxerUnavailableError ''Connection is not multiplexed''))
      \<and> connection_newStream ex_guard ?pf ?u c [''/echo/1.0.0''] (ex_new_stream_options None)
         = ([], Inl (MuxerUnavailableError ''Connection is not multiplexed''))
      \<and> getStreams c = []"
    by (rule exI [of _ c]) (intro conjI made nofield fails through empty)
  have second:
    "\<exists>c. snd (createConnection ?pf (ex_create (Some ex_factory))) = Inr c
      \<and> conn_multiplexer c = Some ''/yamux/1.0.0''"
    by (simp add: createConnection_def Let_def ex_create_def ex_factory_def ex_muxer_def)
  from first second show ?thesis
    by (rule conjI)
qed

subsection \<open>Helper lemmas: routing an inbound stream\<close>

lemma onStream_cases:
  "fst (onStream u connection stream protocol) = []
   \<or> fst (onStream u connection stream protocol) = [HandlerCalled protocol (stream_id stream)]"
  by (simp add: onStream_def io_defs split: sum.splits)

lemma stream_id_rebind [simp]: "stream_id (rebind s n p) = stream_id s"
  by (simp add: rebind_def)

lemma stream_timeline_close_rebind [simp]:
  "stream_timeline_close (rebind s n p) = stream_timeline_close s"
  by (simp add: rebind_def)

lemma stream_protocol_rebind [simp]: "stream_protocol (rebind s n p) = Some p"
  by (simp add: rebind_def)

text \<open>The callback once the limit check has let the stream pass.\<close>

lemma onIncomingStream_then_admitted:
  assumes "mss_handle_stream pf muxedStream (getProtocols (registrar (components u)))
             = Inr (stream, protocol)"
    and "findIncomingStreamLimit protocol (registrar (components u)) = Inr incomingLimit"
    and "incomingLimit \<noteq> Some (countStreams protocol inbound connection)"
  shows "onIncomingStream_then pf u connection muxedStream
     = (case peerStore_merge (components u) (conn_remotePeer connection) [protocol] of
          Inl err \<Rightarrow>
            ([MssHandle (getProtocols (registrar (components u))),
              PeerStoreMerge (conn_remotePeer connection) [protocol]],
             rebind muxedStream stream protocol, Inl err)
        | Inr _ \<Rightarrow>
            ([MssHandle (getProtocols (registrar (components u))),
              PeerStoreMerge (conn_remotePeer connection) [protocol]]
               @ fst (onStream u connection (rebind muxedStream stream protocol) protocol),
             rebind muxedStream stream protocol,
             snd (onStream u connection (rebind muxedStream stream protocol) protocol)))"
  using assms
  by (auto simp: onIncomingStream_then_def Let_def split: sum.splits prod.splits)

text \<open>The callback when the limit check stops the stream.\<close>

lemma onIncomingStream_then_refused:
  assumes "mss_handle_stream pf muxedStream (getProtocols (registrar (components u)))
             = Inr (stream, protocol)"
    and "findIncomingStreamLimit protocol (registrar (components u))
           = Inr (Some (countStreams protocol inbound connection))"
  shows "onIncomingStream_then pf u connection muxedStream
     = ([MssHandle (getProtocols (registrar (components u))),
         StreamAbort (stream_id muxedStream)
           (tooManyInbound protocol (countStreams protocol inbound connection))],
        stream_abort pf (tooManyInbound protocol (countStreams protocol inbound connection))
          muxedStream,
        Inl (tooManyInbound protocol (countStreams protocol inbound connection)))"
  using assms
  by (simp add: onIncomingStream_then_def Let_def)

subsection \<open>C9: a handler without an inbound limit\<close>

text \<open>
  C9: with a handler registered for a protocol whose options do not set
  \<open>maxInboundStreams\<close>, \<open>findIncomingStreamLimit\<close> returns \<open>undefined\<close> and not the
  default, so the equality check of the router never fires and inbound streams of the
  protocol are admitted without a limit; the default applies only when no handler is
  registered.

  With a handler the limit is the handler's own \<open>maxInboundStreams\<close>, set or not; the
  default is the limit when the lookup throws \<open>UnhandledProtocolError\<close>.  With a handler
  whose limit is not set, whatever streams the connection has, the stream is not aborted:
  its protocol is rebound and the peer store is told.
\<close>

theorem findIncomingStreamLimit_unset:
  "(getHandler reg protocol = Inr h
      \<longrightarrow> findIncomingStreamLimit protocol reg = Inr (maxInboundStreams (handler_options h)))
   \<and> (getHandler reg protocol = Inl err \<and> name err = ''UnhandledProtocolError''
      \<longrightarrow> findIncomingStreamLimit protocol reg = Inr (Some DEFAULT_MAX_INBOUND_STREAMS))
   \<and> (registrar (components u) = reg \<and> getHandler reg protocol = Inr h
        \<and> maxInboundStreams (handler_options h) = None
        \<and> mss_handle_stream pf muxedStream (getProtocols reg) = Inr (stream, protocol)
      \<longrightarrow> findIncomingStreamLimit protocol reg = Inr None
          \<and> (\<forall>sid e. StreamAbort sid e
                \<notin> set (fst (onIncomingStream_then pf u connection muxedStream)))
          \<and> PeerStoreMerge (conn_remotePeer connection) [protocol]
                \<in> set (fst (onIncomingStream_then pf u connection muxedStream))
          \<and> fst (snd (onIncomingStream_then pf u connection muxedStream))
                = rebind muxedStream stream protocol)"
proof (intro conjI impI)
  assume "getHandler reg protocol = Inr h"
  then show "findIncomingStreamLimit protocol reg = Inr (maxInboundStreams (handler_options h))"
    by (simp add: findIncomingStreamLimit_def)
next
  assume "getHandler reg protocol = Inl err \<and> name err = ''UnhandledProtocolError''"
  then show "findIncomingStreamLimit protocol reg = Inr (Some DEFAULT_MAX_INBOUND_STREAMS)"
    by (simp add: findIncomingStreamLimit_def)
next
  assume hyp: "registrar (components u) = reg \<and> getHandler reg protocol = Inr h
        \<and> maxInboundStreams (handler_options h) = None
        \<and> mss_handle_stream pf muxedStream (getProtocols reg) = Inr (stream, protocol)"
  then show limit: "findIncomingStreamLimit protocol reg = Inr None"
    by (simp add: findIncomingStreamLimit_def)
  from hyp limit have run: "onIncomingStream_then pf u connection muxedStream
     = (case peerStore_merge (components u) (conn_remotePeer connection) [protocol] of
          Inl err \<Rightarrow>
            ([MssHandle (getProtocols (registrar (components u))),
              PeerStoreMerge (conn_remotePeer connection) [protocol]],
             rebind muxedStream stream protocol, Inl err)
        | Inr _ \<Rightarrow>
            ([MssHandle (getProtocols (registrar (components u))),
              PeerStoreMerge (conn_remotePeer connection) [protocol]]
               @ fst (onStream u connection (rebind muxedStream stream protocol) protocol),
             rebind muxedStream stream protocol,
             snd (onStream u connection (rebind muxedStream stream protocol) protocol)))"
    by (intro onIncomingStream_then_admitted [where incomingLimit = None]) simp_all
  show "\<forall>sid e. StreamAbort sid e \<notin> set (fst (onIncomingStream_then pf u connection muxedStream))"
    using onStream_cases [of u connection "rebind muxedStream stream protocol" protocol]
    unfolding run by (auto split: sum.splits)
  show "PeerStoreMerge (conn_remotePeer connection) [protocol]
          \<in> set (fst (onIncomingStream_then pf u connection muxedStream))"
    unfolding run by (simp split: sum.splits)
  show "fst (snd (onIncomingStream_then pf u connection muxedStream))
          = rebind muxedStream stream protocol"
    unfolding run by (simp split: sum.splits)
qed

theorem findIncomingStreamLimit_unset_witness:
  "findIncomingStreamLimit ''/echo/1.0.0''
       (ex_registrar [(''/echo/1.0.0'', ex_handler_options None None None)]) = Inr None
   \<and> findIncomingStreamLimit ''/ping/1.0.0''
       (ex_registrar [(''/echo/1.0.0'', ex_handler_options None None None)])
       = Inr (Some DEFAULT_MAX_INBOUND_STREAMS)
   \<and> countStreams ''/echo/1.0.0'' inbound
       (ex_connection None (Some (ex_muxer
          [ex_installed ''s1'' inbound ''/echo/1.0.0'', ex_installed ''s2'' inbound ''/echo/1.0.0'',
           ex_installed ''s3'' inbound ''/echo/1.0.0'']))) = 3
   \<and> PeerStoreMerge ''QmPeer'' [''/echo/1.0.0'']
       \<in> set (fst (onIncomingStream_then (ex_platform None)
           (ex_upgrader (ex_components (Inr True) None
              [(''/echo/1.0.0'', ex_handler_options None None None)]))
           (ex_connection None (Some (ex_muxer
              [ex_installed ''s1'' inbound ''/echo/1.0.0'',
               ex_installed ''s2'' inbound ''/echo/1.0.0'',
               ex_installed ''s3'' inbound ''/echo/1.0.0''])))
           (ex_stream ''s4'' inbound)))
   \<and> stream_protocol (fst (snd (onIncomingStream_then (ex_platform None)
           (ex_upgrader (ex_components (Inr True) None
              [(''/echo/1.0.0'', ex_handler_options None None None)]))
           (ex_connection None (Some (ex_muxer
              [ex_installed ''s1'' inbound ''/echo/1.0.0'',
               ex_installed ''s2'' inbound ''/echo/1.0.0'',
               ex_installed ''s3'' inbound ''/echo/1.0.0''])))
           (ex_stream ''s4'' inbound)))) = Some ''/echo/1.0.0''"
proof -
  let ?reg = "ex_registrar [(''/echo/1.0.0'', ex_handler_options None None None)]"
  let ?u = "ex_upgrader (ex_components (Inr True) None
              [(''/echo/1.0.0'', ex_handler_options None None None)])"
  let ?c = "ex_connection None (Some (ex_muxer
              [ex_installed ''s1'' inbound ''/echo/1.0.0'',
               ex_installed ''s2'' inbound ''/echo/1.0.0'',
               ex_installed ''s3'' inbound ''/echo/1.0.0'']))"
  let ?h = "ex_handler (ex_handler_options None None None)"
  let ?err = "Error ''UnhandledProtocolError'' ''No handler registered''"
  have reg: "registrar (components ?u) = ?reg"
    by (simp add: ex_defs)
  have found: "getHandler ?reg ''/echo/1.0.0'' = Inr ?h"
    by (simp add: ex_defs)
  have unset: "maxInboundStreams (handler_options ?h) = None"
    by (simp add: ex_defs ex_stream_defs)
  have missing: "getHandler ?reg ''/ping/1.0.0'' = Inl ?err \<and> name ?err = ''UnhandledProtocolError''"
    by (simp add: ex_defs)
  have negotiated: "mss_handle_stream (ex_platform None) (ex_stream ''s4'' inbound)
      (getProtocols ?reg) = Inr (ex_negotiated, ''/echo/1.0.0'')"
    by (simp add: ex_defs)
  have three: "countStreams ''/echo/1.0.0'' inbound ?c = 3"
    by (simp add: countStreams_def getStreams_def ex_defs ex_stream_defs rebind_def)
  note echo = findIncomingStreamLimit_unset [of ?reg "''/echo/1.0.0''" ?h ?err ?u
      "ex_platform None" "ex_stream ''s4'' inbound" ex_negotiated ?c]
  note ping = findIncomingStreamLimit_unset [of ?reg "''/ping/1.0.0''" ?h ?err ?u
      "ex_platform None" "ex_stream ''s4'' inbound" ex_negotiated ?c]
  from echo reg found unset negotiated
  have a: "findIncomingStreamLimit ''/echo/1.0.0'' ?reg = Inr None"
    and b: "PeerStoreMerge (conn_remotePeer ?c) [''/echo/1.0.0'']
       \<in> set (fst (onIncomingStream_then (ex_platform None) ?u ?c (ex_stream ''s4'' inbound)))"
    and c: "fst (snd (onIncomingStream_then (ex_platform None) ?u ?c (ex_stream ''s4'' inbound)))
       = rebind (ex_stream ''s4'' inbound) ex_negotiated ''/echo/1.0.0''"
    by simp_all
  from ping missing
  have d: "findIncomingStreamLimit ''/ping/1.0.0'' ?reg = Inr (Some DEFAULT_MAX_INBOUND_STREAMS)"
    by simp
  have peer: "conn_remotePeer ?c = ''QmPeer''"
    by (simp add: ex_stream_defs)
  from a b c d three peer show ?thesis
    by simp
qed

subsection \<open>C7: limited connections\<close>

lemma onIncomingStream_no_handler:
  assumes "fst (onStream u connection (rebind muxedStream
              (fst (projr (mss_handle_stream pf muxedStream
                 (getProtocols (registrar (components u))))))
              (snd (projr (mss_handle_stream pf muxedStream
                 (getProtocols (registrar (components u)))))))
              (snd (projr (mss_handle_stream pf muxedStream
                 (getProtocols (registrar (components u))))))) = []"
  shows "HandlerCalled p sid \<notin> set (fst (onIncomingStream pf u (Some connection) muxedStream))"
  using assms
  by (auto simp: onIncomingStream_def onIncomingStream_then_def Let_def
        split: sum.splits prod.splits if_splits)

lemma onStream_limited:
  assumes "conn_limits connection \<noteq> None"
    and "getHandler (registrar (components u)) protocol = Inr h"
    and "runOnLimitedConnection (handler_options h) \<noteq> Some True"
  shows "onStream u connection stream protocol
     = ([], Inl (LimitedConnectionError ''Cannot open protocol stream on limited connection''))"
  using assms by (simp add: onStream_def io_defs)

lemma onStream_delivered:
  assumes "getHandler (registrar (components u)) protocol = Inr h"
    and "conn_limits connection = None \<or> runOnLimitedConnection (handler_options h) = Some True"
  shows "onStream u connection stream protocol
     = ([HandlerCalled protocol (stream_id stream)],
        case handler h connection stream of Some err \<Rightarrow> Inl err | None \<Rightarrow> Inr ())"
  using assms by (auto simp: onStream_def io_defs)

text \<open>
  C7: on a connection whose \<open>limits\<close> are set, an inbound stream negotiated for a protocol
  whose handler does not set \<open>runOnLimitedConnection = true\<close> makes the router raise
  \<open>LimitedConnectionError\<close> before the handler is invoked; the handler is never called and
  the rejected stream is closed, if not closed already; handlers that set the flag get
  their streams.

  The router is \<open>onStream\<close>; \<open>onIncomingStream\<close> calls it once the stream limit has let the
  stream pass and the peer store has merged the protocol.
\<close>

theorem limited_connection_routing:
  assumes "conn_limits connection \<noteq> None"
    and "getHandler (registrar (components u)) protocol = Inr h"
  shows "(runOnLimitedConnection (handler_options h) \<noteq> Some True \<longrightarrow>
            onStream u connection stream protocol
              = ([], Inl (LimitedConnectionError
                    ''Cannot open protocol stream on limited connection''))
          \<and> (mss_handle_stream pf muxedStream (getProtocols (registrar (components u)))
                = Inr (negotiated, protocol) \<longrightarrow>
               (\<forall>p sid. HandlerCalled p sid
                  \<notin> set (fst (onIncomingStream pf u (Some connection) muxedStream)))
             \<and> (maxInboundStreams (handler_options h)
                   \<noteq> Some (countStreams protocol inbound connection)
                 \<and> peerStore_merge (components u) (conn_remotePeer connection) [protocol] = Inr ()
                 \<longrightarrow> onIncomingStream_then pf u connection muxedStream
                       = ([MssHandle (getProtocols (registrar (components u))),
                           PeerStoreMerge (conn_remotePeer connection) [protocol]],
                          rebind muxedStream negotiated protocol,
                          Inl (LimitedConnectionError
                            ''Cannot open protocol stream on limited connection''))
                   \<and> onIncomingStream pf u (Some connection) muxedStream
                       = ([MssHandle (getProtocols (registrar (components u))),
                           PeerStoreMerge (conn_remotePeer connection) [protocol]]
                            @ (if stream_timeline_close muxedStream = None
                               then [StreamClose (stream_id muxedStream)] else []),
                          rebind muxedStream negotiated protocol))))
     \<and> (runOnLimitedConnection (handler_options h) = Some True \<longrightarrow>
            onStream u connection stream protocol
              = ([HandlerCalled protocol (stream_id stream)],
                 case handler h connection stream of Some err \<Rightarrow> Inl err | None \<Rightarrow> Inr ())
          \<and> (mss_handle_stream pf muxedStream (getProtocols (registrar (components u)))
                = Inr (negotiated, protocol)
              \<and> maxInboundStreams (handler_options h)
                   \<noteq> Some (countStreams protocol inbound connection)
              \<and> peerStore_merge (components u) (conn_remotePeer connection) [protocol] = Inr ()
              \<longrightarrow> fst (onIncomingStream_then pf u connection muxedStream)
                    = [MssHandle (getProtocols (registrar (components u))),
                       PeerStoreMerge (conn_remotePeer connection) [protocol],
                       HandlerCalled protocol (stream_id muxedStream)]))"
proof (intro conjI impI allI)
  assume no: "runOnLimitedConnection (handler_options h) \<noteq> Some True"
  from onStream_limited [OF assms no]
  show "onStream u connection stream protocol
      = ([], Inl (LimitedConnectionError ''Cannot open protocol stream on limited connection''))" .
next
  fix p sid
  assume no: "runOnLimitedConnection (handler_options h) \<noteq> Some True"
    and neg: "mss_handle_stream pf muxedStream (getProtocols (registrar (components u)))
                = Inr (negotiated, protocol)"
  show "HandlerCalled p sid \<notin> set (fst (onIncomingStream pf u (Some connection) muxedStream))"
    by (rule onIncomingStream_no_handler) (simp add: neg onStream_limited [OF assms no])
next
  assume no: "runOnLimitedConnection (handler_options h) \<noteq> Some True"
    and neg: "mss_handle_stream pf muxedStream (getProtocols (registrar (components u)))
                = Inr (negotiated, protocol)"
    and pass: "maxInboundStreams (handler_options h)
                   \<noteq> Some (countStreams protocol inbound connection)
                 \<and> peerStore_merge (components u) (conn_remotePeer connection) [protocol] = Inr ()"
  have limit: "findIncomingStreamLimit protocol (registrar (components u))
      = Inr (maxInboundStreams (handler_options h))"
    using assms(2) by (simp add: findIncomingStreamLimit_def)
  from onIncomingStream_then_admitted [OF neg limit] pass
  show run: "onIncomingStream_then pf u connection muxedStream
      = ([MssHandle (getProtocols (registrar (components u))),
          PeerStoreMerge (conn_remotePeer connection) [protocol]],
         rebind muxedStream negotiated protocol,
         Inl (LimitedConnectionError ''Cannot open protocol stream on limited connection''))"
    by (simp add: onStream_limited [OF assms no])
  show "onIncomingStream pf u (Some connection) muxedStream
      = ([MssHandle (getProtocols (registrar (components u))),
          PeerStoreMerge (conn_remotePeer connection) [protocol]]
           @ (if stream_timeline_close muxedStream = None
              then [StreamClose (stream_id muxedStream)] else []),
         rebind muxedStream negotiated protocol)"
    by (simp add: onIncomingStream_def run)
next
  assume yes: "runOnLimitedConnection (handler_options h) = Some True"
  then show "onStream u connection stream protocol
      = ([HandlerCalled protocol (stream_id stream)],
         case handler h connection stream of Some err \<Rightarrow> Inl err | None \<Rightarrow> Inr ())"
    by (intro onStream_delivered [OF assms(2)]) simp
next
  assume yes: "runOnLimitedConnection (handler_options h) = Some True"
    and pass: "mss_handle_stream pf muxedStream (getProtocols (registrar (components u)))
                = Inr (negotiated, protocol)
              \<and> maxInboundStreams (handler_options h)
                   \<noteq> Some (countStreams protocol inbound connection)
              \<and> peerStore_merge (components u) (conn_remotePeer connection) [protocol] = Inr ()"
  have limit: "findIncomingStreamLimit protocol (registrar (components u))
      = Inr (maxInboundStreams (handler_options h))"
    using assms(2) by (simp add: findIncomingStreamLimit_def)
  have "onStream u connection (rebind muxedStream negotiated protocol) protocol
      = ([HandlerCalled protocol (stream_id (rebind muxedStream negotiated protocol))],
         case handler h connection (rebind muxedStream negotiated protocol) of
           Some err \<Rightarrow> Inl err | None \<Rightarrow> Inr ())"
    using yes by (intro onStream_delivered [OF assms(2)]) simp
  with onIncomingStream_then_admitted [OF _ limit, of pf muxedStream negotiated connection] pass
  show "fst (onIncomingStream_then pf u connection muxedStream)
      = [MssHandle (getProtocols (registrar (components u))),
         PeerStoreMerge (conn_remotePeer connection) [protocol],
         HandlerCalled protocol (stream_id muxedStream)]"
    by simp
qed

theorem limited_connection_routing_witness:
  "onIncomingStream (ex_platform None)
       (ex_upgrader (ex_components (Inr True) None
          [(''/ping/1.0.0'', ex_handler_options None None None),
           (''/identify/1.0.0'', ex_handler_options None None (Some True))]))
       (Some (ex_connection (Some ex_limits) (Some (ex_muxer []))))
       (ex_stream ''s1'' inbound)
     = ([MssHandle [''/ping/1.0.0'', ''/identify/1.0.0''],
         PeerStoreMerge ''QmPeer'' [''/ping/1.0.0''], StreamClose ''s1''],
        ex_installed ''s1'' inbound ''/ping/1.0.0'')
   \<and> fst (onIncomingStream_then (ex_platform None)
       (ex_upgrader (ex_components (Inr True) None
          [(''/identify/1.0.0'', ex_handler_options None None (Some True)),
           (''/ping/1.0.0'', ex_handler_options None None None)]))
       (ex_connection (Some ex_limits) (Some (ex_muxer [])))
       (ex_stream ''s2'' inbound))
     = [MssHandle [''/identify/1.0.0'', ''/ping/1.0.0''],
        PeerStoreMerge ''QmPeer'' [''/identify/1.0.0''],
        HandlerCalled ''/identify/1.0.0'' ''s2'']"
proof -
  let ?pf = "ex_platform None"
  let ?up = "ex_upgrader (ex_components (Inr True) None
          [(''/ping/1.0.0'', ex_handler_options None None None),
           (''/identify/1.0.0'', ex_handler_options None None (Some True))])"
  let ?ui = "ex_upgrader (ex_components (Inr True) None
          [(''/identify/1.0.0'', ex_handler_options None None (Some True)),
           (''/ping/1.0.0'', ex_handler_options None None None)])"
  let ?c = "ex_connection (Some ex_limits) (Some (ex_muxer []))"
  let ?hp = "ex_handler (ex_handler_options None None None)"
  let ?hi = "ex_handler (ex_handler_options None None (Some True))"
  have limited: "conn_limits ?c \<noteq> None"
    by (simp add: ex_stream_defs)
  have peer: "conn_remotePeer ?c = ''QmPeer''"
    by (simp add: ex_stream_defs)
  have ping: "getHandler (registrar (components ?up)) ''/ping/1.0.0'' = Inr ?hp"
    "runOnLimitedConnection (handler_options ?hp) \<noteq> Some True"
    "maxInboundStreams (handler_options ?hp) \<noteq> Some (countStreams ''/ping/1.0.0'' inbound ?c)"
    "getProtocols (registrar (components ?up)) = [''/ping/1.0.0'', ''/identify/1.0.0'']"
    "mss_handle_stream ?pf (ex_stream ''s1'' inbound) (getProtocols (registrar (components ?up)))
       = Inr (ex_negotiated, ''/ping/1.0.0'')"
    "peerStore_merge (components ?up) (conn_remotePeer ?c) [''/ping/1.0.0''] = Inr ()"
    "stream_timeline_close (ex_stream ''s1'' inbound) = None"
    "stream_id (ex_stream ''s1'' inbound) = ''s1''"
    by (simp_all add: ex_defs ex_stream_defs)
  have identify: "getHandler (registrar (components ?ui)) ''/identify/1.0.0'' = Inr ?hi"
    "runOnLimitedConnection (handler_options ?hi) = Some True"
    "maxInboundStreams (handler_options ?hi)
       \<noteq> Some (countStreams ''/identify/1.0.0'' inbound ?c)"
    "getProtocols (registrar (components ?ui)) = [''/identify/1.0.0'', ''/ping/1.0.0'']"
    "mss_handle_stream ?pf (ex_stream ''s2'' inbound) (getProtocols (registrar (components ?ui)))
       = Inr (ex_negotiated, ''/identify/1.0.0'')"
    "peerStore_merge (components ?ui) (conn_remotePeer ?c) [''/identify/1.0.0''] = Inr ()"
    "stream_id (ex_stream ''s2'' inbound) = ''s2''"
    by (simp_all add: ex_defs ex_stream_defs)
  from limited_connection_routing [OF limited ping(1), of "ex_stream ''s1'' inbound" ?pf
      "ex_stream ''s1'' inbound" ex_negotiated] ping
  have a: "onIncomingStream ?pf ?up (Some ?c) (ex_stream ''s1'' inbound)
     = ([MssHandle [''/ping/1.0.0'', ''/identify/1.0.0''],
         PeerStoreMerge ''QmPeer'' [''/ping/1.0.0''], StreamClose ''s1''],
        ex_installed ''s1'' inbound ''/ping/1.0.0'')"
    by (simp add: peer ex_installed_def)
  from limited_connection_routing [OF limited identify(1), of "ex_stream ''s2'' inbound" ?pf
      "ex_stream ''s2'' inbound" ex_negotiated] identify
  have b: "fst (onIncomingStream_then ?pf ?ui ?c (ex_stream ''s2'' inbound))
     = [MssHandle [''/identify/1.0.0'', ''/ping/1.0.0''],
        PeerStoreMerge ''QmPeer'' [''/identify/1.0.0''],
        HandlerCalled ''/identify/1.0.0'' ''s2'']"
    by (simp add: peer)
  from a b show ?thesis
    by (rule conjI)
qed

subsection \<open>C3: the inbound stream limit\<close>

lemma name_tooManyInbound:
  "name (tooManyInbound protocol n) = ''TooManyInboundProtocolStreamsError''"
  by (simp add: tooManyInbound_def TooManyInboundProtocolStreamsError_def)

lemma foldl_count:
  "foldl (\<lambda>streamCount stream. if P stream then streamCount + 1 else streamCount) k xs
     = k + int (length (filter P xs))"
  by (induction xs arbitrary: k) simp_all

lemma countStreams_filter:
  "countStreams protocol direction connection
     = int (length (filter
         (\<lambda>s. stream_direction s = direction \<and> stream_protocol s = Some protocol)
         (getStreams connection)))"
  by (simp add: countStreams_def foldl_count)

lemma findIncomingStreamLimit_Some:
  "findIncomingStreamLimit protocol reg = Inr (Some limit)
     \<longleftrightarrow> (\<exists>h. getHandler reg protocol = Inr h
            \<and> maxInboundStreams (handler_options h) = Some limit)
         \<or> (\<exists>err. getHandler reg protocol = Inl err \<and> name err = ''UnhandledProtocolError''
              \<and> limit = DEFAULT_MAX_INBOUND_STREAMS)"
  by (auto simp: findIncomingStreamLimit_def split: sum.splits)

text \<open>
  C3, as the spec states it: a stream that negotiates a protocol is aborted with
  \<open>TooManyInboundProtocolStreamsError\<close> when the count of inbound streams of the protocol
  equals the limit, and when the count is below the limit its protocol is rebound and it
  is delivered to the handler.  The second half fails on a limited connection: with a
  limit of 2 and no inbound stream of the protocol yet (the connection has an outbound
  stream of the protocol and an inbound stream of another one), the stream of a handler
  that has not set \<open>runOnLimitedConnection\<close> is rebound, and then closed without a call
  of the handler.
\<close>

theorem inbound_stream_limit_counterexample:
  "countStreams ''/echo/1.0.0'' inbound
       (ex_connection (Some ex_limits) (Some (ex_muxer
          [ex_installed ''o1'' outbound ''/echo/1.0.0'',
           ex_installed ''p1'' inbound ''/ping/1.0.0'']))) = 0
   \<and> findIncomingStreamLimit ''/echo/1.0.0''
         (ex_registrar [(''/echo/1.0.0'', ex_handler_options (Some 2) None None)])
       = Inr (Some 2)
   \<and> onIncomingStream (ex_platform None)
         (ex_upgrader (ex_components (Inr True) None
            [(''/echo/1.0.0'', ex_handler_options (Some 2) None None)]))
         (Some (ex_connection (Some ex_limits) (Some (ex_muxer
            [ex_installed ''o1'' outbound ''/echo/1.0.0'',
             ex_installed ''p1'' inbound ''/ping/1.0.0'']))))
         (ex_stream ''s1'' inbound)
       = ([MssHandle [''/echo/1.0.0''], PeerStoreMerge ''QmPeer'' [''/echo/1.0.0''],
           StreamClose ''s1''],
          ex_installed ''s1'' inbound ''/echo/1.0.0'')"
  by (simp add: ex_defs ex_stream_defs ex_limits_def stream_defs io_defs
        LimitedConnectionError_def Let_def)

text \<open>
  C3, amended: for a stream that negotiates a protocol with an inbound limit (the
  \<open>maxInboundStreams\<close> of its handler, or the default when the protocol has no handler):
  when the count of the connection's inbound streams of that protocol equals the limit,
  the stream is aborted with \<open>TooManyInboundProtocolStreamsError\<close> and no handler is
  invoked; when the count is below the limit, the protocol of the stream is rebound, and
  the stream is delivered to the handler of the protocol provided that the peer store
  accepts the protocol and that the connection is not limited or the handler has set
  \<open>runOnLimitedConnection\<close>.

  The count is that of the streams of the connection whose direction is inbound and
  whose protocol is the negotiated one (\<open>installed\<close>); streams of the other direction
  and of other protocols do not count.
\<close>

theorem inbound_stream_limit:
  assumes "mss_handle_stream pf muxedStream (getProtocols (registrar (components u)))
             = Inr (negotiated, protocol)"
    and "findIncomingStreamLimit protocol (registrar (components u)) = Inr (Some limit)"
    and "installed
           = filter (\<lambda>s. stream_direction s = inbound \<and> stream_protocol s = Some protocol)
               (getStreams connection)"
  shows "((\<exists>h. getHandler (registrar (components u)) protocol = Inr h
            \<and> maxInboundStreams (handler_options h) = Some limit)
          \<or> (\<exists>err. getHandler (registrar (components u)) protocol = Inl err
               \<and> name err = ''UnhandledProtocolError'' \<and> limit = DEFAULT_MAX_INBOUND_STREAMS))
     \<and> (int (length installed) = limit \<longrightarrow>
            onIncomingStream_then pf u connection muxedStream
              = ([MssHandle (getProtocols (registrar (components u))),
                  StreamAbort (stream_id muxedStream) (tooManyInbound protocol limit)],
                 stream_abort pf (tooManyInbound protocol limit) muxedStream,
                 Inl (tooManyInbound protocol limit))
          \<and> name (tooManyInbound protocol limit) = ''TooManyInboundProtocolStreamsError''
          \<and> (\<forall>p sid. HandlerCalled p sid
                \<notin> set (fst (onIncomingStream pf u (Some connection) muxedStream))))
     \<and> (int (length installed) < limit \<longrightarrow>
            snd (onIncomingStream pf u (Some connection) muxedStream)
              = rebind muxedStream negotiated protocol
          \<and> stream_protocol (snd (onIncomingStream pf u (Some connection) muxedStream))
              = Some protocol
          \<and> (\<forall>h. getHandler (registrar (components u)) protocol = Inr h
                \<and> peerStore_merge (components u) (conn_remotePeer connection) [protocol] = Inr ()
                \<and> (conn_limits connection = None
                     \<or> runOnLimitedConnection (handler_options h) = Some True)
                \<longrightarrow> HandlerCalled protocol (stream_id muxedStream)
                      \<in> set (fst (onIncomingStream pf u (Some connection) muxedStream))))"
proof (intro conjI impI allI)
  note limit = assms(2)
  have count: "countStreams protocol inbound connection = int (length installed)"
    by (simp add: countStreams_filter assms(3))
  from limit show "(\<exists>h. getHandler (registrar (components u)) protocol = Inr h
            \<and> maxInboundStreams (handler_options h) = Some limit)
          \<or> (\<exists>err. getHandler (registrar (components u)) protocol = Inl err
               \<and> name err = ''UnhandledProtocolError'' \<and> limit = DEFAULT_MAX_INBOUND_STREAMS)"
    by (simp only: findIncomingStreamLimit_Some)
  {
    assume "int (length installed) = limit"
    with count have full: "countStreams protocol inbound connection = limit"
      by simp
    from onIncomingStream_then_refused [OF assms(1), of connection] limit full
    show run: "onIncomingStream_then pf u connection muxedStream
        = ([MssHandle (getProtocols (registrar (components u))),
            StreamAbort (stream_id muxedStream) (tooManyInbound protocol limit)],
           stream_abort pf (tooManyInbound protocol limit) muxedStream,
           Inl (tooManyInbound protocol limit))"
      by simp
    show "name (tooManyInbound protocol limit) = ''TooManyInboundProtocolStreamsError''"
      by (rule name_tooManyInbound)
    fix p sid
    show "HandlerCalled p sid \<notin> set (fst (onIncomingStream pf u (Some connection) muxedStream))"
      by (simp add: onIncomingStream_def run)
  }
  {
    assume "int (length installed) < limit"
    with count have below: "countStreams protocol inbound connection < limit"
      by simp
    from onIncomingStream_then_admitted [OF assms(1) limit, of connection] below
    have run: "onIncomingStream_then pf u connection muxedStream
       = (case peerStore_merge (components u) (conn_remotePeer connection) [protocol] of
            Inl err \<Rightarrow>
              ([MssHandle (getProtocols (registrar (components u))),
                PeerStoreMerge (conn_remotePeer connection) [protocol]],
               rebind muxedStream negotiated protocol, Inl err)
          | Inr _ \<Rightarrow>
              ([MssHandle (getProtocols (registrar (components u))),
                PeerStoreMerge (conn_remotePeer connection) [protocol]]
                 @ fst (onStream u connection (rebind muxedStream negotiated protocol) protocol),
               rebind muxedStream negotiated protocol,
               snd (onStream u connection (rebind muxedStream negotiated protocol) protocol)))"
      by simp
    then show rebound: "snd (onIncomingStream pf u (Some connection) muxedStream)
        = rebind muxedStream negotiated protocol"
      by (simp add: onIncomingStream_def split: sum.splits)
    then show "stream_protocol (snd (onIncomingStream pf u (Some connection) muxedStream))
        = Some protocol"
      by simp
    fix h
    assume ok: "getHandler (registrar (components u)) protocol = Inr h
       \<and> peerStore_merge (components u) (conn_remotePeer connection) [protocol] = Inr ()
       \<and> (conn_limits connection = None
            \<or> runOnLimitedConnection (handler_options h) = Some True)"
    then have "onStream u connection (rebind muxedStream negotiated protocol) protocol
        = ([HandlerCalled protocol (stream_id (rebind muxedStream negotiated protocol))],
           case handler h connection (rebind muxedStream negotiated protocol) of
             Some err \<Rightarrow> Inl err | None \<Rightarrow> Inr ())"
      by (intro onStream_delivered) simp_all
    with run ok show "HandlerCalled protocol (stream_id muxedStream)
        \<in> set (fst (onIncomingStream pf u (Some connection) muxedStream))"
      by (simp add: onIncomingStream_def split: option.splits)
  }
qed

theorem inbound_stream_limit_witness:
  "HandlerCalled ''/echo/1.0.0'' ''s1''
     \<in> set (fst (onIncomingStream (ex_platform None)
         (ex_upgrader (ex_components (Inr True) None
            [(''/echo/1.0.0'', ex_handler_options (Some 2) None None)]))
         (Some (ex_connection None (Some (ex_muxer
            [ex_installed ''o1'' outbound ''/echo/1.0.0'',
             ex_installed ''p1'' inbound ''/ping/1.0.0'']))))
         (ex_stream ''s1'' inbound)))
   \<and> snd (onIncomingStream (ex_platform None)
         (ex_upgrader (ex_components (Inr True) None
            [(''/echo/1.0.0'', ex_handler_options (Some 2) None None)]))
         (Some (ex_connection None (Some (ex_muxer
            [ex_installed ''o1'' outbound ''/echo/1.0.0'',
             ex_installed ''p1'' inbound ''/ping/1.0.0'']))))
         (ex_stream ''s1'' inbound))
       = ex_installed ''s1'' inbound ''/echo/1.0.0''
   \<and> HandlerCalled ''/echo/1.0.0'' ''s2''
     \<in> set (fst (onIncomingStream (ex_platform None)
         (ex_upgrader (ex_components (Inr True) None
            [(''/echo/1.0.0'', ex_handler_options (Some 2) None None)]))
         (Some (ex_connection None (Some (ex_muxer
            [ex_installed ''s1'' inbound ''/echo/1.0.0'',
             ex_installed ''o1'' outbound ''/echo/1.0.0'']))))
         (ex_stream ''s2'' inbound)))
   \<and> onIncomingStream_then (ex_platform None)
         (ex_upgrader (ex_components (Inr True) None
            [(''/echo/1.0.0'', ex_handler_options (Some 2) None None)]))
         (ex_connection None (Some (ex_muxer
            [ex_installed ''s1'' inbound ''/echo/1.0.0'',
             ex_installed ''o1'' outbound ''/echo/1.0.0'',
             ex_installed ''p1'' inbound ''/ping/1.0.0'',
             ex_installed ''s2'' inbound ''/echo/1.0.0''])))
         (ex_stream ''s3'' inbound)
       = ([MssHandle [''/echo/1.0.0''],
           StreamAbort ''s3'' (tooManyInbound ''/echo/1.0.0'' 2)],
          (ex_stream ''s3'' inbound)\<lparr>stream_timeline_close := Some 3\<rparr>,
          Inl (tooManyInbound ''/echo/1.0.0'' 2))
   \<and> HandlerCalled ''/echo/1.0.0'' ''s3''
     \<notin> set (fst (onIncomingStream (ex_platform None)
         (ex_upgrader (ex_components (Inr True) None
            [(''/echo/1.0.0'', ex_handler_options (Some 2) None None)]))
         (Some (ex_connection None (Some (ex_muxer
            [ex_installed ''s1'' inbound ''/echo/1.0.0'',
             ex_installed ''o1'' outbound ''/echo/1.0.0'',
             ex_installed ''p1'' inbound ''/ping/1.0.0'',
             ex_installed ''s2'' inbound ''/echo/1.0.0'']))))
         (ex_stream ''s3'' inbound)))
   \<and> onIncomingStream_then (ex_platform None) (ex_upgrader ex_unhandled)
         (ex_connection None (Some (ex_muxer
            (replicate 32 (ex_installed ''s'' inbound ''/echo/1.0.0'')))))
         (ex_stream ''s33'' inbound)
       = ([MssHandle [''/echo/1.0.0''],
           StreamAbort ''s33'' (tooManyInbound ''/echo/1.0.0'' 32)],
          (ex_stream ''s33'' inbound)\<lparr>stream_timeline_close := Some 3\<rparr>,
          Inl (tooManyInbound ''/echo/1.0.0'' 32))"
proof -
  let ?pf = "ex_platform None"
  let ?u = "ex_upgrader (ex_components (Inr True) None
            [(''/echo/1.0.0'', ex_handler_options (Some 2) None None)])"
  let ?d = "ex_upgrader ex_unhandled"
  let ?h = "ex_handler (ex_handler_options (Some 2) None None)"
  let ?s1 = "ex_installed ''s1'' inbound ''/echo/1.0.0''"
  let ?s2 = "ex_installed ''s2'' inbound ''/echo/1.0.0''"
  let ?o1 = "ex_installed ''o1'' outbound ''/echo/1.0.0''"
  let ?p1 = "ex_installed ''p1'' inbound ''/ping/1.0.0''"
  let ?s = "ex_installed ''s'' inbound ''/echo/1.0.0''"
  let ?c0 = "ex_connection None (Some (ex_muxer [?o1, ?p1]))"
  let ?c1 = "ex_connection None (Some (ex_muxer [?s1, ?o1]))"
  let ?c2 = "ex_connection None (Some (ex_muxer [?s1, ?o1, ?p1, ?s2]))"
  let ?c32 = "ex_connection None (Some (ex_muxer (replicate 32 ?s)))"
  let ?echo = "\<lambda>s. stream_direction s = inbound \<and> stream_protocol s = Some ''/echo/1.0.0''"
  have negotiated: "mss_handle_stream ?pf (ex_stream sid inbound)
      (getProtocols (registrar (components ?u))) = Inr (ex_negotiated, ''/echo/1.0.0'')" for sid
    by (simp add: ex_defs)
  have negotiated_d: "mss_handle_stream ?pf (ex_stream ''s33'' inbound)
      (getProtocols (registrar (components ?d))) = Inr (ex_negotiated, ''/echo/1.0.0'')"
    by (simp add: ex_defs ex_unhandled_def)
  have two: "findIncomingStreamLimit ''/echo/1.0.0'' (registrar (components ?u)) = Inr (Some 2)"
    by (simp add: findIncomingStreamLimit_def ex_defs ex_stream_defs)
  have default: "findIncomingStreamLimit ''/echo/1.0.0'' (registrar (components ?d))
      = Inr (Some 32)"
    by (simp add: findIncomingStreamLimit_def ex_defs ex_unhandled_def
          DEFAULT_MAX_INBOUND_STREAMS_def)
  have found: "getHandler (registrar (components ?u)) ''/echo/1.0.0'' = Inr ?h"
    by (simp add: ex_defs)
  have installed:
    "[] = filter ?echo (getStreams ?c0)"
    "[?s1] = filter ?echo (getStreams ?c1)"
    "[?s1, ?s2] = filter ?echo (getStreams ?c2)"
    "replicate 32 ?s = filter ?echo (getStreams ?c32)"
    by (simp_all add: getStreams_def ex_defs ex_stream_defs rebind_def)
  have merges: "peerStore_merge (components ?u) (conn_remotePeer c) [''/echo/1.0.0''] = Inr ()"
    for c
    by (simp add: ex_defs)
  have open_conn: "conn_limits ?c0 = None" "conn_limits ?c1 = None"
    by (simp_all add: ex_connection_def)
  have facts: "stream_id (ex_stream sid inbound) = sid"
    "getProtocols (registrar (components ?u)) = [''/echo/1.0.0'']"
    "getProtocols (registrar (components ?d)) = [''/echo/1.0.0'']"
    "stream_abort ?pf err (ex_stream sid inbound)
       = (ex_stream sid inbound)\<lparr>stream_timeline_close := Some 3\<rparr>" for sid err
    by (simp_all add: ex_defs ex_stream_defs ex_unhandled_def)
  have installed_s1: "rebind (ex_stream ''s1'' inbound) ex_negotiated ''/echo/1.0.0'' = ?s1"
    by (simp add: ex_installed_def)
  from inbound_stream_limit [OF negotiated [of "''s1''"] two installed(1)] found
  have first: "HandlerCalled ''/echo/1.0.0'' ''s1''
       \<in> set (fst (onIncomingStream ?pf ?u (Some ?c0) (ex_stream ''s1'' inbound)))"
    "snd (onIncomingStream ?pf ?u (Some ?c0) (ex_stream ''s1'' inbound)) = ?s1"
    by (simp_all add: facts merges open_conn found installed_s1)
  from inbound_stream_limit [OF negotiated [of "''s2''"] two installed(2)] found
  have second: "HandlerCalled ''/echo/1.0.0'' ''s2''
       \<in> set (fst (onIncomingStream ?pf ?u (Some ?c1) (ex_stream ''s2'' inbound)))"
    by (simp add: facts merges open_conn found)
  from inbound_stream_limit [OF negotiated [of "''s3''"] two installed(3)]
  have third: "onIncomingStream_then ?pf ?u ?c2 (ex_stream ''s3'' inbound)
       = ([MssHandle [''/echo/1.0.0''],
           StreamAbort ''s3'' (tooManyInbound ''/echo/1.0.0'' 2)],
          (ex_stream ''s3'' inbound)\<lparr>stream_timeline_close := Some 3\<rparr>,
          Inl (tooManyInbound ''/echo/1.0.0'' 2))"
    "HandlerCalled ''/echo/1.0.0'' ''s3''
       \<notin> set (fst (onIncomingStream ?pf ?u (Some ?c2) (ex_stream ''s3'' inbound)))"
    by (simp_all add: facts)
  from inbound_stream_limit [OF negotiated_d default installed(4)]
  have fourth: "onIncomingStream_then ?pf ?d ?c32 (ex_stream ''s33'' inbound)
       = ([MssHandle [''/echo/1.0.0''],
           StreamAbort ''s33'' (tooManyInbound ''/echo/1.0.0'' 32)],
          (ex_stream ''s33'' inbound)\<lparr>stream_timeline_close := Some 3\<rparr>,
          Inl (tooManyInbound ''/echo/1.0.0'' 32))"
    by (simp add: facts)
  from first second third fourth show ?thesis
    by (intro conjI)
qed

subsection \<open>C4: the outbound stream limit\<close>





subsection \<open>C10: a dial whose signal has fired\<close>

lemmas dial_defs = dial_def connect_def aborted_def

text \<open>
  C10: a \<open>TCP.dial\<close> whose signal has fired by the time the outbound upgrade completes
  never returns the upgraded connection: it starts the close of the connection and throws
  an \<open>AbortError\<close>.

  A dial whose signal fires at any time up to the completion of the upgrade returns no
  connection.  When the socket has connected and the upgrader has returned a connection,
  the dial removes its listener, starts the close of that connection and throws
  \<open>AbortError\<close>; these are its last actions.
\<close>

theorem dial_aborted:
  assumes "dial_signal options = Some s" and "fires s \<noteq> NotYet"
  shows "(\<forall>conn. snd (dial tcp ma options) \<noteq> Inr conn)
     \<and> ((fires s = AfterConnect \<or> fires s = WhileUpgrading)
          \<and> net_connect tcp ma = Connect socket
          \<and> upgrader_upgradeOutbound options (toMultiaddrConnection tcp socket ma) = Inr conn
        \<longrightarrow> dial tcp ma options
              = ((if dial_onProgress options then [Progress ''tcp:open-connection''] else [])
                 @ [NetConnect
                      (Some (case keepAlive options of Some b \<Rightarrow> b | None \<Rightarrow> True))
                      (Some (case noDelay options of Some b \<Rightarrow> b | None \<Rightarrow> True)),
                    AbortListenerAdded, UpgradeOutbound]
                 @ (if fires s = WhileUpgrading then [MaConnClose None] else [])
                 @ [AbortListenerRemoved, ConnectionClose],
                 Inl AbortError)
            \<and> name AbortError = ''AbortError'')"
proof (intro conjI allI impI)
  fix conn
  show "snd (dial tcp ma options) \<noteq> Inr conn"
    using assms
    by (cases "fires s")
      (auto simp: dial_defs io_defs Let_def AbortError_def
        split: sum.splits socket_event.splits prod.splits)
next
  assume "(fires s = AfterConnect \<or> fires s = WhileUpgrading)
          \<and> net_connect tcp ma = Connect socket
          \<and> upgrader_upgradeOutbound options (toMultiaddrConnection tcp socket ma) = Inr conn"
  with assms show "dial tcp ma options
              = ((if dial_onProgress options then [Progress ''tcp:open-connection''] else [])
                 @ [NetConnect
                      (Some (case keepAlive options of Some b \<Rightarrow> b | None \<Rightarrow> True))
                      (Some (case noDelay options of Some b \<Rightarrow> b | None \<Rightarrow> True)),
                    AbortListenerAdded, UpgradeOutbound]
                 @ (if fires s = WhileUpgrading then [MaConnClose None] else [])
                 @ [AbortListenerRemoved, ConnectionClose],
                 Inl AbortError)"
    by (auto simp: dial_defs io_defs Let_def)
  show "name AbortError = ''AbortError''"
    by (simp add: AbortError_def)
qed

theorem dial_aborted_witness:
  "dial ex_tcp ex_addr_peer
       (ex_dial_options (Some \<lparr>fires = WhileUpgrading, signal_reason = AbortError\<rparr>))
     = ([NetConnect (Some True) (Some True), AbortListenerAdded, UpgradeOutbound,
         MaConnClose None, AbortListenerRemoved, ConnectionClose],
        Inl AbortError)
   \<and> dial ex_tcp ex_addr_peer (ex_dial_options None)
     = ([NetConnect (Some True) (Some True), UpgradeOutbound], Inr (ex_connection None None))"
proof -
  let ?s = "\<lparr>fires = WhileUpgrading, signal_reason = AbortError\<rparr>"
  let ?options = "ex_dial_options (Some ?s)"
  have given: "dial_signal ?options = Some ?s" "fires ?s \<noteq> NotYet"
    by (simp_all add: ex_dial_options_def)
  have completes: "(fires ?s = AfterConnect \<or> fires ?s = WhileUpgrading)
      \<and> net_connect ex_tcp ex_addr_peer = Connect 7
      \<and> upgrader_upgradeOutbound ?options (toMultiaddrConnection ex_tcp 7 ex_addr_peer)
          = Inr (ex_connection None None)"
    by (simp add: ex_dial_options_def ex_tcp_def)
  from dial_aborted [OF given, of ex_tcp ex_addr_peer 7 "ex_connection None None"] completes
  have "dial ex_tcp ex_addr_peer ?options
      = ((if dial_onProgress ?options then [Progress ''tcp:open-connection''] else [])
         @ [NetConnect
              (Some (case keepAlive ?options of Some b \<Rightarrow> b | None \<Rightarrow> True))
              (Some (case noDelay ?options of Some b \<Rightarrow> b | None \<Rightarrow> True)),
            AbortListenerAdded, UpgradeOutbound]
         @ (if fires ?s = WhileUpgrading then [MaConnClose None] else [])
         @ [AbortListenerRemoved, ConnectionClose],
         Inl AbortError)"
    by (rule conjunct2 [THEN mp, THEN conjunct1])
  then have a: "dial ex_tcp ex_addr_peer ?options
     = ([NetConnect (Some True) (Some True), AbortListenerAdded, UpgradeOutbound,
         MaConnClose None, AbortListenerRemoved, ConnectionClose],
        Inl AbortError)"
    by (simp add: ex_dial_options_def)
  have b: "dial ex_tcp ex_addr_peer (ex_dial_options None)
     = ([NetConnect (Some True) (Some True), UpgradeOutbound], Inr (ex_connection None None))"
    by (simp add: dial_defs io_defs Let_def ex_dial_options_def ex_tcp_def)
  from a b show ?thesis
    by (rule conjI)
qed

end
